theory Spec2Isabelle
  imports Main "HOL-Library.Sublist"
begin

section \<open>Strings as the Go code sees them\<close>

text \<open>
  A Go string is a sequence of bytes; \<open>string\<close> (a list of \<open>char\<close>, one per byte) is
  the model, and \<open>length\<close> is Go's \<open>len\<close>.
\<close>

definition is_digit :: "char \<Rightarrow> bool" where
  "is_digit c = (48 \<le> (of_char c :: nat) \<and> (of_char c :: nat) \<le> 57)"

definition is_upper :: "char \<Rightarrow> bool" where
  "is_upper c = (65 \<le> (of_char c :: nat) \<and> (of_char c :: nat) \<le> 90)"

definition is_lower :: "char \<Rightarrow> bool" where
  "is_lower c = (97 \<le> (of_char c :: nat) \<and> (of_char c :: nat) \<le> 122)"

text \<open>
  \<open>storageAccountInvalidCharRe = regexp.MustCompile(`[^0-9A-Za-z]`)\<close>: the
  characters the expression matches. A rune outside ASCII is matched as a whole, and
  every byte of its encoding is at least 128, so matching byte by byte removes the same
  bytes as \<open>ReplaceAllString(s, "")\<close> does.
\<close>

definition storageAccountInvalidChar :: "char \<Rightarrow> bool" where
  "storageAccountInvalidChar c = (\<not> (is_digit c \<or> is_upper c \<or> is_lower c))"

definition replaceAllInvalid :: "string \<Rightarrow> string" where
  "replaceAllInvalid s = filter (\<lambda>c. \<not> storageAccountInvalidChar c) s"

text \<open>
  \<open>strings.ToLower\<close> on the bytes \<open>A\<close>..\<open>Z\<close>; every other byte is kept. This is
  what Go computes on an ASCII string, which is all \<open>generateAccountName\<close> passes
  to it once the invalid characters are gone and the suffix is alphanumeric.
\<close>

definition toLowerChar :: "char \<Rightarrow> char" where
  "toLowerChar c = (if is_upper c then char_of ((of_char c :: nat) + 32) else c)"

definition toLower :: "string \<Rightarrow> string" where
  "toLower s = map toLowerChar s"

text \<open>
  \<open>rand.String(5)\<close> of k8s.io/apimachinery is outside the repository: the suffix it
  returns is a parameter of the model. Its alphabet is the library's
  \<open>alphanums\<close> constant.
\<close>

definition alphanums :: string where
  "alphanums = ''bcdfghjklmnpqrstvwxz2456789''"

text \<open>
  \<open>generateAccountName\<close>, with the random suffix as the second argument:
  \<^verbatim>\<open>
  prefix := "imageregistry" + storageAccountInvalidCharRe.ReplaceAllString(infrastructureName, "")
  if len(prefix) > 24-5 { prefix = prefix[:24-5] }
  prefix = prefix + rand.String(5)
  return strings.ToLower(prefix)
  \<close>
\<close>

definition generateAccountName :: "string \<Rightarrow> string \<Rightarrow> string" where
  "generateAccountName infrastructureName randomSuffix =
     (let prefix = ''imageregistry'' @ replaceAllInvalid infrastructureName;
          prefix = (if length prefix > 24 - 5 then take (24 - 5) prefix else prefix);
          prefix = prefix @ randomSuffix
      in toLower prefix)"

text \<open>
  The naming rule in the words of the specification: strip the characters outside
  \<open>[0-9A-Za-z]\<close> from the fixed prefix plus the identifier, truncate to leave room
  for the 5-character suffix, append the suffix, lowercase the result.
\<close>

definition generateAccountName_spec :: "string \<Rightarrow> string \<Rightarrow> string" where
  "generateAccountName_spec infrastructureName randomSuffix =
     toLower (take (24 - 5) (replaceAllInvalid (''imageregistry'' @ infrastructureName)) @ randomSuffix)"

section \<open>Errors, outcomes and the cluster's objects\<close>

text \<open>
  The Go error values the driver tells apart by a type assertion, and the plain errors
  it builds with \<open>fmt.Errorf\<close> (kept as the format and the error formatted into it;
  string arguments are left out).
\<close>

datatype error =
    DetailedError "int option"
  | ResponseError int string
  | StorageError string
  | ErrDoesNotExist error
  | Errorf string "error option"
  | OtherError string

text \<open>
  \<open>DetailedError c\<close> is an \<open>autorest.DetailedError\<close> whose \<open>StatusCode\<close> (an
  \<open>interface{}\<close>) holds the int \<open>c\<close>, or no int; \<open>ResponseError code errorCode\<close> is an
  \<open>*azcore.ResponseError\<close>; \<open>StorageError serviceCode\<close> is an
  \<open>azblob.StorageError\<close>; \<open>ErrDoesNotExist\<close> is the driver's own
  \<open>*errDoesNotExist\<close>.

  A Go function returns or panics (a nil pointer dereferenced); side effects made before
  a panic stay made.
\<close>

datatype 'a outcome = Returned 'a | Panic

datatype 'a poller = BeginFailed error | PollFailed error | Done 'a

datatype create_result = CreateFailed error | WaitFailed error | ResultFailed error | Created

text \<open>\<open>Azure\<close>: the configuration \<open>GetConfig\<close> reads from the secrets.\<close>

record Azure =
  SubscriptionID :: string
  ClientID :: string
  ClientSecret :: string
  TenantID :: string
  ResourceGroup :: string
  Region :: string
  AccountKey :: string

text \<open>\<open>imageregistryv1.ImageRegistryConfigStorageAzure\<close>, the fields the driver uses.\<close>

record azure_config =
  AccountName :: string
  Container :: string
  CloudName :: string

datatype condition_status = ConditionTrue | ConditionFalse | ConditionUnknown

datatype message = Message string | MessageErr string error | MessageStr string string

type_synonym condition = "condition_status \<times> string \<times> message"

text \<open>
  \<open>imageregistryv1.Config\<close>, the parts the driver reads and writes:
  \<open>cr.Spec.Storage.ManagementState\<close>, the pointers \<open>cr.Spec.Storage.Azure\<close> and
  \<open>cr.Status.Storage.Azure\<close> (\<open>None\<close> is nil), and the condition sink.
\<close>

record config_cr =
  ManagementState :: string
  SpecAzure :: "azure_config option"
  StatusAzure :: "azure_config option"
  Conditions :: "condition list"

text \<open>\<open>configv1.Infrastructure\<close>, the fields the driver reads.\<close>

record azure_platform_status =
  PlatformCloudName :: string
  ResourceTags :: "(string \<times> string) list"

record platform_status =
  PlatformType :: string
  PlatformAzure :: "azure_platform_status option"

record infrastructure =
  InfrastructureName :: string
  PlatformStatus :: "platform_status option"

record environment =
  StorageEndpointSuffix :: string

type_synonym secret = "string \<rightharpoonup> string"

type_synonym tagset = "(string \<times> string) list"

text \<open>
  \<open>armnetwork.PrivateEndpoint\<close> and \<open>armnetwork.Interface\<close> as the provider returns
  them, with every pointer the code dereferences as an option. \<open>peNetworkInterfaces\<close> is
  \<open>None\<close> when \<open>Properties\<close> is nil, else the \<open>ID\<close> of each interface
  (\<open>None\<close>: the element or its \<open>ID\<close> is nil). \<open>ifIPConfigurations\<close> is \<open>None\<close> when
  \<open>Properties\<close> is nil, else for each configuration its \<open>PrivateIPAddress\<close> pointer
  (\<open>None\<close>: the element or its \<open>Properties\<close> is nil).
\<close>

record private_endpoint =
  peName :: "string option"
  peNetworkInterfaces :: "string option list option"

record interface =
  ifName :: "string option"
  ifIPConfigurations :: "string option option list option"

section \<open>The provider and the other collaborators\<close>

text \<open>
  The requests the code sends to the provider, in the order sent. The provider is
  deterministic in the requests it has received: each of its answers is a function of
  that history and of the request.
\<close>

datatype call =
    CheckNameAvailability string
  | AccountsCreate string
  | PrimaryKeyGet string
  | AccountsDelete string
  | PrivateEndpointsCreate string
  | PrivateZonesCreate string
  | InterfacesGet string
  | RecordSetsCreate string string
  | PrivateDNSZoneGroupsCreate string string
  | VirtualNetworkLinksCreate string string
  | ContainerGetProperties string string
  | ContainerCreate string string
  | ContainerDelete string string

datatype arm_client =
    PrivateEndpointsClient | PrivateZonesClient | RecordSetsClient
  | PrivateDNSZoneGroupsClient | VirtualNetworkLinksClient | InterfacesClient

text \<open>
  Everything outside the source file: the secret and infrastructure listers, the helpers
  of \<open>pkg/storage/util\<close>, the random names, the SDK's constructors and the provider's
  operations. \<open>authorizerSet\<close> is \<open>d.authorizer != nil\<close>.
\<close>

record world =
  userSecret :: "error + secret"
  cloudSecret :: "error + secret"
  IsNotFound :: "error \<Rightarrow> bool"
  GetValueFromSecret :: "secret \<Rightarrow> string \<Rightarrow> error + string"
  GetInfrastructure :: "error + infrastructure"
  GenerateStorageName :: "nat \<Rightarrow> error + string"
  randString :: "nat \<Rightarrow> string"
  PublicCloud :: environment
  EnvironmentFromName :: "string \<Rightarrow> error + environment"
  authorizerSet :: bool
  NewClientSecretCredential :: "Azure \<Rightarrow> environment \<Rightarrow> error option"
  NewArmClient :: "arm_client \<Rightarrow> string \<Rightarrow> error option"
  NewSharedKeyCredential :: "string \<Rightarrow> string \<Rightarrow> error option"
  urlParse :: "string \<Rightarrow> error option"
  checkNameAvailability :: "call list \<Rightarrow> string \<Rightarrow> error + bool option"
  accountsCreate :: "call list \<Rightarrow> string \<Rightarrow> string \<Rightarrow> string \<Rightarrow> bool \<Rightarrow> tagset \<Rightarrow> create_result"
  primaryKeyGet :: "call list \<Rightarrow> string \<Rightarrow> string \<Rightarrow> error + string"
  accountsDelete :: "call list \<Rightarrow> string \<Rightarrow> string \<Rightarrow> error option"
  privateEndpointsCreate ::
    "call list \<Rightarrow> string \<Rightarrow> string \<Rightarrow> string \<Rightarrow> string \<Rightarrow> string \<Rightarrow> tagset \<Rightarrow> private_endpoint poller"
  privateZonesCreate :: "call list \<Rightarrow> string \<Rightarrow> string \<Rightarrow> string \<Rightarrow> tagset \<Rightarrow> unit poller"
  interfacesGet :: "call list \<Rightarrow> string \<Rightarrow> string \<Rightarrow> error + interface"
  recordSetsCreate :: "call list \<Rightarrow> string \<Rightarrow> string \<Rightarrow> string \<Rightarrow> string option \<Rightarrow> error option"
  zoneGroupsCreate ::
    "call list \<Rightarrow> string \<Rightarrow> string \<Rightarrow> string \<Rightarrow> string \<Rightarrow> string \<Rightarrow> string \<Rightarrow> unit poller"
  vnetLinksCreate :: "call list \<Rightarrow> string \<Rightarrow> string \<Rightarrow> string \<Rightarrow> string \<Rightarrow> string \<Rightarrow> tagset \<Rightarrow> unit poller"
  containerGetProperties :: "call list \<Rightarrow> string \<Rightarrow> string \<Rightarrow> string \<Rightarrow> error option"
  containerCreate :: "call list \<Rightarrow> string \<Rightarrow> string \<Rightarrow> string \<Rightarrow> error option"
  containerDelete :: "call list \<Rightarrow> string \<Rightarrow> string \<Rightarrow> string \<Rightarrow> error option"

text \<open>
  What one invocation works on: the driver's \<open>d.Config\<close>, the \<open>cr\<close> it is handed, the
  requests sent so far, and the number of random names drawn so far. \<open>d.Config\<close> and the
  two pointers of \<open>cr\<close> are three values here; \<open>RemoveStorage\<close> writes each name to all
  three, and \<open>CreateStorage\<close> copies \<open>d.Config\<close> into both on success.
\<close>

record state =
  Config :: azure_config
  cr :: config_cr
  calls :: "call list"
  draws :: nat

definition issue :: "state \<Rightarrow> call \<Rightarrow> state" where
  "issue s c = s\<lparr>calls := calls s @ [c]\<rparr>"

text \<open>
  Modelled from the spec: \<open>util.UpdateCondition\<close> (of \<open>pkg/storage/util\<close>, not among the
  sources) writes one (status, reason, message) triple for the \<open>StorageExists\<close>
  condition to the status sink. The sink is the list of the triples written, oldest
  first; the condition in force is the last.
\<close>

definition UpdateCondition :: "state \<Rightarrow> condition_status \<Rightarrow> string \<Rightarrow> message \<Rightarrow> state" where
  "UpdateCondition s status reason msg =
     s\<lparr>cr := (cr s)\<lparr>Conditions := Conditions (cr s) @ [(status, reason, msg)]\<rparr>\<rparr>"

definition storageExistsReasonNotConfigured :: string where
  "storageExistsReasonNotConfigured = ''StorageNotConfigured''"

definition storageExistsReasonConfigError :: string where
  "storageExistsReasonConfigError = ''ConfigError''"

definition storageExistsReasonUserManaged :: string where
  "storageExistsReasonUserManaged = ''UserManaged''"

definition storageExistsReasonAzureError :: string where
  "storageExistsReasonAzureError = ''AzureError''"

definition storageExistsReasonContainerNotFound :: string where
  "storageExistsReasonContainerNotFound = ''ContainerNotFound''"

definition storageExistsReasonContainerExists :: string where
  "storageExistsReasonContainerExists = ''ContainerExists''"

definition storageExistsReasonContainerDeleted :: string where
  "storageExistsReasonContainerDeleted = ''ContainerDeleted''"

definition storageExistsReasonAccountDeleted :: string where
  "storageExistsReasonAccountDeleted = ''AccountDeleted''"

definition StorageManagementStateManaged :: string where
  "StorageManagementStateManaged = ''Managed''"

definition StorageManagementStateUnmanaged :: string where
  "StorageManagementStateUnmanaged = ''Unmanaged''"

definition AzurePlatformType :: string where
  "AzurePlatformType = ''Azure''"

definition StatusNotFound :: int where
  "StatusNotFound = 404"

definition ServiceCodeContainerNotFound :: string where
  "ServiceCodeContainerNotFound = ''ContainerNotFound''"

section \<open>The storage driver (package azure)\<close>

text \<open>\<open>string(sec.Data[k])\<close>: a missing key reads as the empty string.\<close>

definition secretString :: "secret \<Rightarrow> string \<Rightarrow> string" where
  "secretString sec k = (case sec k of None \<Rightarrow> '''' | Some v \<Rightarrow> v)"

definition GetConfig :: "world \<Rightarrow> error + Azure" where
  "GetConfig w =
     (case userSecret w of
        Inl err \<Rightarrow>
          if \<not> IsNotFound w err
          then Inl (Errorf ''unable to get user provided secrets: %s'' (Some err))
          else (case cloudSecret w of
                  Inl err2 \<Rightarrow> Inl (Errorf ''unable to get cluster minted credentials: %s'' (Some err2))
                | Inr sec \<Rightarrow>
                    Inr \<lparr>SubscriptionID = secretString sec ''azure_subscription_id'',
                         ClientID = secretString sec ''azure_client_id'',
                         ClientSecret = secretString sec ''azure_client_secret'',
                         TenantID = secretString sec ''azure_tenant_id'',
                         ResourceGroup = secretString sec ''azure_resourcegroup'',
                         Region = secretString sec ''azure_region'',
                         AccountKey = ''''\<rparr>)
      | Inr sec \<Rightarrow>
          (case GetValueFromSecret w sec ''REGISTRY_STORAGE_AZURE_ACCOUNTKEY'' of
             Inl err \<Rightarrow> Inl err
           | Inr key \<Rightarrow>
               if key = ''''
               then Inl (Errorf ''the secret %s/%s has an empty value for REGISTRY_STORAGE_AZURE_ACCOUNTKEY'' None)
               else Inr \<lparr>SubscriptionID = '''', ClientID = '''', ClientSecret = '''',
                         TenantID = '''', ResourceGroup = '''', Region = '''',
                         AccountKey = key\<rparr>))"

definition getEnvironmentByName :: "world \<Rightarrow> string \<Rightarrow> error + environment" where
  "getEnvironmentByName w name =
     (if name = '''' then Inr (PublicCloud w) else EnvironmentFromName w name)"

definition getBlobServiceURL :: "world \<Rightarrow> environment \<Rightarrow> string \<Rightarrow> error option" where
  "getBlobServiceURL w env accountName =
     urlParse w (''https://'' @ accountName @ ''.blob.'' @ StorageEndpointSuffix env)"

text \<open>
  \<open>authorizer\<close> fails when \<open>azidentity.NewClientSecretCredential\<close> does;
  \<open>storageAccountsClient\<close> calls it only when no authorizer was injected.
\<close>

definition authorizer :: "world \<Rightarrow> Azure \<Rightarrow> environment \<Rightarrow> error option" where
  "authorizer w cfg env = NewClientSecretCredential w cfg env"

definition storageAccountsClient :: "world \<Rightarrow> Azure \<Rightarrow> environment \<Rightarrow> error option" where
  "storageAccountsClient w cfg env = (if authorizerSet w then None else authorizer w cfg env)"

text \<open>
  The six client getters of the driver have one body: the credential, then the SDK's
  constructor for the client, each of which may fail.
\<close>

definition armClient :: "world \<Rightarrow> arm_client \<Rightarrow> Azure \<Rightarrow> environment \<Rightarrow> error option" where
  "armClient w client cfg env =
     (case NewClientSecretCredential w cfg env of
        Some err \<Rightarrow> Some err
      | None \<Rightarrow> NewArmClient w client (SubscriptionID cfg))"

definition privateEndpointsClient :: "world \<Rightarrow> Azure \<Rightarrow> environment \<Rightarrow> error option" where
  "privateEndpointsClient w cfg env = armClient w PrivateEndpointsClient cfg env"

definition privateZonesClient :: "world \<Rightarrow> Azure \<Rightarrow> environment \<Rightarrow> error option" where
  "privateZonesClient w cfg env = armClient w PrivateZonesClient cfg env"

definition recordSetsClient :: "world \<Rightarrow> Azure \<Rightarrow> environment \<Rightarrow> error option" where
  "recordSetsClient w cfg env = armClient w RecordSetsClient cfg env"

definition privateZoneGroupsClient :: "world \<Rightarrow> Azure \<Rightarrow> environment \<Rightarrow> error option" where
  "privateZoneGroupsClient w cfg env = armClient w PrivateDNSZoneGroupsClient cfg env"

definition vnetLinksClient :: "world \<Rightarrow> Azure \<Rightarrow> environment \<Rightarrow> error option" where
  "vnetLinksClient w cfg env = armClient w VirtualNetworkLinksClient cfg env"

definition interfacesClient :: "world \<Rightarrow> Azure \<Rightarrow> environment \<Rightarrow> error option" where
  "interfacesClient w cfg env = armClient w InterfacesClient cfg env"

definition accountExists :: "world \<Rightarrow> state \<Rightarrow> string \<Rightarrow> (error + bool option) \<times> state" where
  "accountExists w s accountName =
     (checkNameAvailability w (calls s) accountName, issue s (CheckNameAvailability accountName))"

definition createPrivateEndpoint ::
  "world \<Rightarrow> state \<Rightarrow> string \<Rightarrow> string \<Rightarrow> string \<Rightarrow> string \<Rightarrow> string \<Rightarrow> string \<Rightarrow> tagset
     \<Rightarrow> (error + private_endpoint) \<times> state" where
  "createPrivateEndpoint w s resourceGroupName privateEndpointName accountName location
       subscriptionID cloudName tags =
     (let vnetName = ''fmissi-ms799-vnet'';
          subnetName = ''fmissi-ms799-worker-subnet'';
          subnetID = ''/subscriptions/'' @ subscriptionID @ ''/resourceGroups/'' @ resourceGroupName
            @ ''/providers/Microsoft.Network/virtualNetworks/'' @ vnetName @ ''/subnets/'' @ subnetName;
          privateLinkResource = ''/subscriptions/'' @ subscriptionID @ ''/resourceGroups/''
            @ resourceGroupName @ ''/providers/Microsoft.Storage/storageAccounts/'' @ accountName;
          s1 = issue s (PrivateEndpointsCreate privateEndpointName)
      in case privateEndpointsCreate w (calls s) resourceGroupName privateEndpointName location
                subnetID privateLinkResource tags of
           BeginFailed err \<Rightarrow>
             (Inl (Errorf ''failed to start creating private endpoint: %s'' (Some err)), s1)
         | PollFailed err \<Rightarrow>
             (Inl (Errorf ''failed to finish creating private endpoint: %s'' (Some err)), s1)
         | Done resp \<Rightarrow> (Inr resp, s1))"

text \<open>\<open>nicIDParts[len(nicIDParts)-1]\<close> of \<open>strings.Split(id, "/")\<close>: what follows the last slash.\<close>

definition lastSegment :: "string \<Rightarrow> string" where
  "lastSegment s = rev (takeWhile (\<lambda>c. c \<noteq> CHR ''/'') (rev s))"

definition createRecordSet ::
  "world \<Rightarrow> state \<Rightarrow> private_endpoint \<Rightarrow> string \<Rightarrow> string \<Rightarrow> string
     \<Rightarrow> error option outcome \<times> state" where
  "createRecordSet w s privateEndpoint resourceGroupName accountName privateZoneName =
     (let relativeRecordSetName = accountName
      in case peNetworkInterfaces privateEndpoint of
           None \<Rightarrow> (Panic, s)
         | Some [] \<Rightarrow>
             (case peName privateEndpoint of
                None \<Rightarrow> (Panic, s)
              | Some n \<Rightarrow>
                  (Returned (Some (Errorf ''private endpoint %s did not have any network interfaces'' None)), s))
         | Some (nic # rest) \<Rightarrow>
             (case nic of
                None \<Rightarrow> (Panic, s)
              | Some nicID \<Rightarrow>
                  (let nicName = lastSegment nicID;
                       s1 = issue s (InterfacesGet nicName)
                   in case interfacesGet w (calls s) resourceGroupName nicName of
                        Inl err \<Rightarrow> (Returned (Some err), s1)
                      | Inr respNIC \<Rightarrow>
                          (case ifIPConfigurations respNIC of
                             None \<Rightarrow> (Panic, s1)
                           | Some [] \<Rightarrow>
                               (case ifName respNIC of
                                  None \<Rightarrow> (Panic, s1)
                                | Some n \<Rightarrow>
                                    (Returned (Some (Errorf ''network interface %s did not have any IP configurations'' None)), s1))
                           | Some (ipConfiguration # rest2) \<Rightarrow>
                               (case ipConfiguration of
                                  None \<Rightarrow> (Panic, s1)
                                | Some nicAddress \<Rightarrow>
                                    (let s2 = issue s1 (RecordSetsCreate privateZoneName relativeRecordSetName)
                                     in case recordSetsCreate w (calls s1) resourceGroupName privateZoneName
                                               relativeRecordSetName nicAddress of
                                          Some err \<Rightarrow>
                                            (Returned (Some (Errorf ''failed to create record set: %s'' (Some err))), s2)
                                        | None \<Rightarrow> (Returned None, s2)))))))"

text \<open>\<open>strings.Replace(privateZoneName, ".", "-", -1)\<close>.\<close>

definition replaceDots :: "string \<Rightarrow> string" where
  "replaceDots s = map (\<lambda>c. if c = CHR ''.'' then CHR ''-'' else c) s"

definition createPrivateDNSZoneGroup ::
  "world \<Rightarrow> state \<Rightarrow> string \<Rightarrow> string \<Rightarrow> string \<Rightarrow> string \<Rightarrow> error option \<times> state" where
  "createPrivateDNSZoneGroup w s subscriptionID resourceGroupName privateEndpointName privateZoneName =
     (let privateZoneID = ''/subscriptions/'' @ subscriptionID @ ''/resourceGroups/''
            @ resourceGroupName @ ''/providers/Microsoft.Network/privateDnsZones/'' @ privateZoneName;
          groupName = replaceDots privateZoneName;
          s1 = issue s (PrivateDNSZoneGroupsCreate privateEndpointName groupName)
      in case zoneGroupsCreate w (calls s) resourceGroupName privateEndpointName groupName
                (privateZoneName @ ''/default'') ''privatelink-blob-core-windows-net'' privateZoneID of
           BeginFailed err \<Rightarrow>
             (Some (Errorf ''failed to start creating private DNS zone group: %s'' (Some err)), s1)
         | PollFailed err \<Rightarrow>
             (Some (Errorf ''failed to finish creating private DNS zone group: %s'' (Some err)), s1)
         | Done u \<Rightarrow> (None, s1))"

definition createVirtualNetworkLink ::
  "world \<Rightarrow> state \<Rightarrow> string \<Rightarrow> string \<Rightarrow> string \<Rightarrow> string \<Rightarrow> tagset \<Rightarrow> error option \<times> state" where
  "createVirtualNetworkLink w s subscriptionID resourceGroupName privateZoneName vnetName tags =
     (let virtualNetworkLinkName = ''whatever123'';
          location = ''global'';
          vnetID = ''/subscriptions/'' @ subscriptionID @ ''/resourceGroups/'' @ resourceGroupName
            @ ''/providers/Microsoft.Network/virtualNetworks/'' @ vnetName;
          s1 = issue s (VirtualNetworkLinksCreate privateZoneName virtualNetworkLinkName)
      in case vnetLinksCreate w (calls s) resourceGroupName privateZoneName virtualNetworkLinkName
                location vnetID tags of
           BeginFailed err \<Rightarrow> (Some err, s1)
         | PollFailed err \<Rightarrow> (Some err, s1)
         | Done u \<Rightarrow> (None, s1))"

definition createPrivateDNSZone ::
  "world \<Rightarrow> state \<Rightarrow> string \<Rightarrow> string \<Rightarrow> string \<Rightarrow> tagset \<Rightarrow> error option \<times> state" where
  "createPrivateDNSZone w s resourceGroupName cloudName privateZoneName tags =
     (let location = ''global'';
          s1 = issue s (PrivateZonesCreate privateZoneName)
      in case privateZonesCreate w (calls s) resourceGroupName privateZoneName location tags of
           BeginFailed err \<Rightarrow> (Some err, s1)
         | PollFailed err \<Rightarrow> (Some err, s1)
         | Done u \<Rightarrow> (None, s1))"

text \<open>
  \<open>strings.EqualFold\<close> on ASCII strings: equal after lowering \<open>A\<close>..\<open>Z\<close>. (Go also
  folds a few letters outside ASCII onto ASCII ones; a cloud name holding one of those
  is not modelled.)
\<close>

definition equalFold :: "string \<Rightarrow> string \<Rightarrow> bool" where
  "equalFold a b = (toLower a = toLower b)"

text \<open>
  \<open>createStorageAccount\<close>: \<open>Create\<close>, \<open>WaitForCompletionRef\<close> and \<open>Result\<close> are one
  request to the provider, failing at one of the three or succeeding. The flag passed is
  the Azure Stack Hub branch (the legacy \<open>Storage\<close> kind with empty properties).
\<close>

definition createStorageAccount ::
  "world \<Rightarrow> state \<Rightarrow> string \<Rightarrow> string \<Rightarrow> string \<Rightarrow> string \<Rightarrow> tagset \<Rightarrow> error option \<times> state" where
  "createStorageAccount w s resourceGroupName accountName location cloudName tags =
     (let legacy = equalFold cloudName ''AZURESTACKCLOUD'';
          s1 = issue s (AccountsCreate accountName)
      in case accountsCreate w (calls s) resourceGroupName accountName location legacy tags of
           CreateFailed err \<Rightarrow>
             (Some (Errorf ''failed to start creating storage account: %s'' (Some err)), s1)
         | WaitFailed err \<Rightarrow>
             (Some (Errorf ''failed to finish creating storage account: %s'' (Some err)), s1)
         | ResultFailed err \<Rightarrow>
             (Some (Errorf ''failed to create storage account: %s'' (Some err)), s1)
         | Created \<Rightarrow> (None, s1))"

definition getAccountPrimaryKey ::
  "world \<Rightarrow> state \<Rightarrow> string \<Rightarrow> string \<Rightarrow> (error + string) \<times> state" where
  "getAccountPrimaryKey w s resourceGroupName accountName =
     (let s1 = issue s (PrimaryKeyGet accountName)
      in case primaryKeyGet w (calls s) resourceGroupName accountName of
           Inl err \<Rightarrow>
             (let wrappedErr = Errorf ''failed to get keys for the storage account %s: %s'' (Some err)
              in case err of
                   DetailedError statusCode \<Rightarrow>
                     if statusCode = Some StatusNotFound
                     then (Inl (ErrDoesNotExist wrappedErr), s1)
                     else (Inl wrappedErr, s1)
                 | _ \<Rightarrow> (Inl wrappedErr, s1))
         | Inr key \<Rightarrow> (Inr key, s1))"

definition getStorageContainer ::
  "world \<Rightarrow> environment \<Rightarrow> string \<Rightarrow> string \<Rightarrow> string \<Rightarrow> error option" where
  "getStorageContainer w env accountName key containerName =
     (case NewSharedKeyCredential w accountName key of
        Some err \<Rightarrow> Some err
      | None \<Rightarrow> getBlobServiceURL w env accountName)"

definition createStorageContainer ::
  "world \<Rightarrow> state \<Rightarrow> environment \<Rightarrow> string \<Rightarrow> string \<Rightarrow> string \<Rightarrow> error option \<times> state" where
  "createStorageContainer w s env accountName key containerName =
     (case getStorageContainer w env accountName key containerName of
        Some err \<Rightarrow> (Some err, s)
      | None \<Rightarrow>
          (containerCreate w (calls s) accountName key containerName,
           issue s (ContainerCreate accountName containerName)))"

definition deleteStorageContainer ::
  "world \<Rightarrow> state \<Rightarrow> environment \<Rightarrow> string \<Rightarrow> string \<Rightarrow> string \<Rightarrow> error option \<times> state" where
  "deleteStorageContainer w s env accountName key containerName =
     (case getStorageContainer w env accountName key containerName of
        Some err \<Rightarrow> (Some err, s)
      | None \<Rightarrow>
          (containerDelete w (calls s) accountName key containerName,
           issue s (ContainerDelete accountName containerName)))"

definition getKey :: "world \<Rightarrow> Azure \<Rightarrow> environment \<Rightarrow> state \<Rightarrow> (error + string) \<times> state" where
  "getKey w cfg env s =
     (if AccountKey cfg \<noteq> '''' then (Inr (AccountKey cfg), s)
      else case storageAccountsClient w cfg env of
             Some err \<Rightarrow> (Inl err, s)
           | None \<Rightarrow> getAccountPrimaryKey w s (ResourceGroup cfg) (AccountName (Config s)))"

definition containerExists ::
  "world \<Rightarrow> state \<Rightarrow> environment \<Rightarrow> string \<Rightarrow> string \<Rightarrow> string \<Rightarrow> (bool \<times> error option) \<times> state" where
  "containerExists w s env accountName key containerName =
     (if accountName = '''' \<or> containerName = '''' then ((False, None), s)
      else case NewSharedKeyCredential w accountName key of
             Some err \<Rightarrow> ((False, Some err), s)
           | None \<Rightarrow>
               (case getBlobServiceURL w env accountName of
                  Some err \<Rightarrow> ((False, Some err), s)
                | None \<Rightarrow>
                    (let s1 = issue s (ContainerGetProperties accountName containerName)
                     in case containerGetProperties w (calls s) accountName key containerName of
                          None \<Rightarrow> ((True, None), s1)
                        | Some err \<Rightarrow>
                            (case err of
                               StorageError serviceCode \<Rightarrow>
                                 if serviceCode = ServiceCodeContainerNotFound
                                 then ((False, None), s1)
                                 else ((False, Some (Errorf ''unable to get the storage container %s: %s'' (Some err))), s1)
                             | _ \<Rightarrow>
                                 ((False, Some (Errorf ''unable to get the storage container %s: %s'' (Some err))), s1)))))"

section \<open>The orchestrators\<close>

definition StorageExists :: "world \<Rightarrow> state \<Rightarrow> (bool \<times> error option) \<times> state" where
  "StorageExists w s =
     (if AccountName (Config s) = '''' \<or> Container (Config s) = ''''
      then ((False, None),
            UpdateCondition s ConditionFalse storageExistsReasonNotConfigured
              (Message ''Storage is not configured''))
      else case GetConfig w of
             Inl err \<Rightarrow>
               ((False, Some err),
                UpdateCondition s ConditionUnknown storageExistsReasonConfigError
                  (MessageErr ''Unable to get configuration: %s'' err))
           | Inr cfg \<Rightarrow>
               (case getEnvironmentByName w (CloudName (Config s)) of
                  Inl err \<Rightarrow>
                    ((False, Some err),
                     UpdateCondition s ConditionUnknown storageExistsReasonConfigError
                       (MessageErr ''Unable to get cloud environment: %s'' err))
                | Inr env \<Rightarrow>
                    (case getKey w cfg env s of
                       (Inl err, s1) \<Rightarrow>
                         ((False, Some err),
                          UpdateCondition s1 ConditionUnknown storageExistsReasonAzureError
                            (MessageErr ''Unable to get storage account key: %s'' err))
                     | (Inr key, s1) \<Rightarrow>
                         (case containerExists w s1 env (AccountName (Config s1)) key (Container (Config s1)) of
                            ((exists, Some err), s2) \<Rightarrow>
                              ((False, Some err),
                               UpdateCondition s2 ConditionUnknown storageExistsReasonAzureError
                                 (MessageErr ''%s'' err))
                          | ((exists, None), s2) \<Rightarrow>
                              if \<not> exists
                              then ((False, None),
                                    UpdateCondition s2 ConditionFalse storageExistsReasonContainerNotFound
                                      (MessageStr ''Could not find storage container %s'' (Container (Config s2))))
                              else ((True, None),
                                    UpdateCondition s2 ConditionTrue storageExistsReasonContainerExists
                                      (Message ''Storage container exists''))))))"

text \<open>\<open>tagset[tag.Key] = to.StringPtr(tag.Value)\<close> on the tag map, kept as an association list.\<close>

fun tagset_put :: "string \<Rightarrow> string \<Rightarrow> tagset \<Rightarrow> tagset" where
  "tagset_put k v [] = [(k, v)]"
| "tagset_put k v ((k', v') # ts) =
     (if k = k' then (k, v) # ts else (k', v') # tagset_put k v ts)"

text \<open>
  \<open>assureStorageAccount\<close>. The result is the Go triple (account name, created, error).
  \<open>*result.NameAvailable\<close> panics on a nil pointer; nothing but logging and the tag map
  lies between the first place it can be dereferenced and the second.
\<close>

definition assureStorageAccount ::
  "world \<Rightarrow> Azure \<Rightarrow> infrastructure \<Rightarrow> state \<Rightarrow> (string \<times> bool \<times> error option) outcome \<times> state" where
  "assureStorageAccount w cfg infra s =
     (case getEnvironmentByName w (CloudName (Config s)) of
        Inl err \<Rightarrow> (Returned ('''', False, Some err), s)
      | Inr env \<Rightarrow>
     (case storageAccountsClient w cfg env of
        Some err \<Rightarrow> (Returned ('''', False, Some err), s)
      | None \<Rightarrow>
     (let accountNameGenerated = (AccountName (Config s) = '''');
          accountName =
            (if accountNameGenerated
             then generateAccountName (InfrastructureName infra) (randString w (draws s))
             else AccountName (Config s));
          s0 = (if accountNameGenerated then s\<lparr>draws := draws s + 1\<rparr> else s)
      in case accountExists w s0 accountName of
           (Inl err, s1) \<Rightarrow> (Returned ('''', False, Some err), s1)
         | (Inr None, s1) \<Rightarrow> (Panic, s1)
         | (Inr (Some nameAvailable), s1) \<Rightarrow>
     (if accountNameGenerated \<and> \<not> nameAvailable
      then (Returned ('''', False, Some (Errorf ''create storage account failed, name not available'' None)), s1)
      else
     (let tags0 = [(''kubernetes.io_cluster.'' @ InfrastructureName infra, ''owned'')];
          tags =
            (case PlatformStatus infra of
               None \<Rightarrow> tags0
             | Some platformStatus \<Rightarrow>
                 (case PlatformAzure platformStatus of
                    None \<Rightarrow> tags0
                  | Some azure \<Rightarrow> fold (\<lambda>(k, v) ts. tagset_put k v ts) (ResourceTags azure) tags0))
      in if \<not> nameAvailable then (Returned (accountName, False, None), s1)
         else
     (case createStorageAccount w s1 (ResourceGroup cfg) accountName (Region cfg) (CloudName (Config s)) tags of
        (Some err, s2) \<Rightarrow> (Returned ('''', False, Some err), s2)
      | (None, s2) \<Rightarrow>
     (case privateEndpointsClient w cfg env of
        Some err \<Rightarrow> (Returned ('''', False, Some err), s2)
      | None \<Rightarrow>
     (case privateZonesClient w cfg env of
        Some err \<Rightarrow> (Returned ('''', False, Some err), s2)
      | None \<Rightarrow>
     (case recordSetsClient w cfg env of
        Some err \<Rightarrow> (Returned ('''', False, Some err), s2)
      | None \<Rightarrow>
     (case privateZoneGroupsClient w cfg env of
        Some err \<Rightarrow> (Returned ('''', False, Some err), s2)
      | None \<Rightarrow>
     (case vnetLinksClient w cfg env of
        Some err \<Rightarrow> (Returned ('''', False, Some err), s2)
      | None \<Rightarrow>
     (case interfacesClient w cfg env of
        Some err \<Rightarrow> (Returned ('''', False, Some err), s2)
      | None \<Rightarrow>
     (let privateEndpointName = generateAccountName (InfrastructureName infra) (randString w (draws s2));
          s3 = s2\<lparr>draws := draws s2 + 1\<rparr>
      in case createPrivateEndpoint w s3 (ResourceGroup cfg) privateEndpointName accountName
                (Region cfg) (SubscriptionID cfg) (CloudName (Config s)) tags of
           (Inl err, s4) \<Rightarrow> (Returned ('''', False, Some err), s4)
         | (Inr privateEndpoint, s4) \<Rightarrow>
     (let privateZoneName = ''privatelink.blob.core.windows.net''
      in case createPrivateDNSZone w s4 (ResourceGroup cfg) (CloudName (Config s)) privateZoneName tags of
           (Some err, s5) \<Rightarrow> (Returned ('''', False, Some err), s5)
         | (None, s5) \<Rightarrow>
     (case createRecordSet w s5 privateEndpoint (ResourceGroup cfg) accountName privateZoneName of
        (Panic, s6) \<Rightarrow> (Panic, s6)
      | (Returned (Some err), s6) \<Rightarrow> (Returned ('''', False, Some err), s6)
      | (Returned None, s6) \<Rightarrow>
     (case peName privateEndpoint of
        None \<Rightarrow> (Panic, s6)
      | Some endpointName \<Rightarrow>
     (case createPrivateDNSZoneGroup w s6 (SubscriptionID cfg) (ResourceGroup cfg) endpointName privateZoneName of
        (Some err, s7) \<Rightarrow> (Returned ('''', False, Some err), s7)
      | (None, s7) \<Rightarrow>
     (let vnetName = ''fmissi-ms799-vnet''
      in case createVirtualNetworkLink w s7 (SubscriptionID cfg) (ResourceGroup cfg) privateZoneName vnetName tags of
           (Some err, s8) \<Rightarrow> (Returned ('''', False, Some err), s8)
         | (None, s8) \<Rightarrow> (Returned (accountName, True, None), s8)))))))))))))))))))"

text \<open>
  \<open>assureContainer\<close>. \<open>util.GenerateStorageName\<close> is a helper outside the source file;
  the name it returns (or its error) is the world's, one per draw.
\<close>

definition assureContainer ::
  "world \<Rightarrow> Azure \<Rightarrow> state \<Rightarrow> (string \<times> bool \<times> error option) \<times> state" where
  "assureContainer w cfg s =
     (case getEnvironmentByName w (CloudName (Config s)) of
        Inl err \<Rightarrow> (('''', False, Some err), s)
      | Inr env \<Rightarrow>
     (case storageAccountsClient w cfg env of
        Some err \<Rightarrow> (('''', False, Some err), s)
      | None \<Rightarrow>
     (case getAccountPrimaryKey w s (ResourceGroup cfg) (AccountName (Config s)) of
        (Inl err, s1) \<Rightarrow> (('''', False, Some err), s1)
      | (Inr key, s1) \<Rightarrow>
     (if Container (Config s) = ''''
      then (let s2 = s1\<lparr>draws := draws s1 + 1\<rparr>
            in case GenerateStorageName w (draws s1) of
                 Inl err \<Rightarrow> (('''', False, Some err), s2)
               | Inr containerName \<Rightarrow>
                   (case createStorageContainer w s2 env (AccountName (Config s)) key containerName of
                      (Some err, s3) \<Rightarrow> (('''', False, Some err), s3)
                    | (None, s3) \<Rightarrow> ((containerName, True, None), s3)))
      else (case containerExists w s1 env (AccountName (Config s)) key (Container (Config s)) of
              ((exists, Some err), s2) \<Rightarrow> (('''', False, Some err), s2)
            | ((exists, None), s2) \<Rightarrow>
                if exists then ((Container (Config s), False, None), s2)
                else (case createStorageContainer w s2 env (AccountName (Config s)) key (Container (Config s)) of
                        (Some err, s3) \<Rightarrow> (('''', False, Some err), s3)
                      | (None, s3) \<Rightarrow> ((Container (Config s), True, None), s3)))))))"

definition processUPI :: "state \<Rightarrow> state" where
  "processUPI s =
     (if AccountName (Config s) = ''''
      then UpdateCondition s ConditionFalse storageExistsReasonNotConfigured
             (Message ''Storage account key is provided, but account name is not specified'')
      else if Container (Config s) = ''''
      then UpdateCondition s ConditionFalse storageExistsReasonNotConfigured
             (Message ''Storage account is provided, but container is not specified'')
      else (let s1 = (if ManagementState (cr s) = ''''
                      then s\<lparr>cr := (cr s)\<lparr>ManagementState := StorageManagementStateUnmanaged\<rparr>\<rparr>
                      else s);
                s2 = s1\<lparr>cr := (cr s1)\<lparr>StatusAzure := Some (Config s1)\<rparr>\<rparr>
            in UpdateCondition s2 ConditionTrue storageExistsReasonUserManaged
                 (Message ''Storage is managed by the user'')))"

definition CreateStorage :: "world \<Rightarrow> state \<Rightarrow> error option outcome \<times> state" where
  "CreateStorage w s =
     (case GetConfig w of
        Inl err \<Rightarrow>
          (Returned (Some err),
           UpdateCondition s ConditionUnknown storageExistsReasonConfigError
             (MessageErr ''Unable to get configuration: %s'' err))
      | Inr cfg \<Rightarrow>
     (if AccountKey cfg \<noteq> '''' then (Returned None, processUPI s)
      else
     (case GetInfrastructure w of
        Inl err \<Rightarrow>
          (Returned (Some err),
           UpdateCondition s ConditionUnknown storageExistsReasonConfigError
             (MessageErr ''Unable to get infrastructure: %s'' err))
      | Inr infra \<Rightarrow>
     (let s0 =
            (if CloudName (Config s) = '''' \<and> AccountName (Config s) = ''''
             then (case PlatformStatus infra of
                     None \<Rightarrow> s
                   | Some platformStatus \<Rightarrow>
                       if PlatformType platformStatus = AzurePlatformType
                       then (case PlatformAzure platformStatus of
                               None \<Rightarrow> s
                             | Some azure \<Rightarrow> s\<lparr>Config := (Config s)\<lparr>CloudName := PlatformCloudName azure\<rparr>\<rparr>)
                       else s)
             else s)
      in case assureStorageAccount w cfg infra s0 of
           (Panic, s1) \<Rightarrow> (Panic, s1)
         | (Returned (storageAccountName, storageAccountCreated, Some err), s1) \<Rightarrow>
             (Returned (Some err),
              UpdateCondition s1 ConditionUnknown storageExistsReasonAzureError
                (MessageErr ''Unable to process storage account: %s'' err))
         | (Returned (storageAccountName, storageAccountCreated, None), s1) \<Rightarrow>
     (let s2 = s1\<lparr>Config := (Config s1)\<lparr>AccountName := storageAccountName\<rparr>\<rparr>
      in case assureContainer w cfg s2 of
           ((containerName, containerCreated, Some err), s3) \<Rightarrow>
             (Returned (Some err),
              UpdateCondition s3 ConditionUnknown storageExistsReasonAzureError
                (MessageErr ''Unable to process storage container: %s'' err))
         | ((containerName, containerCreated, None), s3) \<Rightarrow>
     (let s4 = s3\<lparr>Config := (Config s3)\<lparr>Container := containerName\<rparr>\<rparr>;
          s5 = (if ManagementState (cr s4) = ''''
                then (if storageAccountCreated \<or> containerCreated
                      then s4\<lparr>cr := (cr s4)\<lparr>ManagementState := StorageManagementStateManaged\<rparr>\<rparr>
                      else s4\<lparr>cr := (cr s4)\<lparr>ManagementState := StorageManagementStateUnmanaged\<rparr>\<rparr>)
                else s4);
          s6 = s5\<lparr>cr := (cr s5)\<lparr>SpecAzure := Some (Config s5), StatusAzure := Some (Config s5)\<rparr>\<rparr>
      in (Returned None,
          UpdateCondition s6 ConditionTrue storageExistsReasonContainerExists
            (Message ''Storage container exists''))))))))"

text \<open>
  \<open>RemoveStorage\<close>. The result is the Go pair (retry, error). The writes through
  \<open>cr.Spec.Storage.Azure\<close> and \<open>cr.Status.Storage.Azure\<close> panic on a nil pointer, after
  the writes before them.
\<close>

definition RemoveStorage :: "world \<Rightarrow> state \<Rightarrow> (bool \<times> error option) outcome \<times> state" where
  "RemoveStorage w s =
     (if ManagementState (cr s) \<noteq> StorageManagementStateManaged then (Returned (False, None), s)
      else if AccountName (Config s) = ''''
      then (Returned (False, None),
            UpdateCondition s ConditionFalse storageExistsReasonNotConfigured
              (Message ''Storage is not configured''))
      else
     (case GetConfig w of
        Inl err \<Rightarrow>
          (Returned (False, Some err),
           UpdateCondition s ConditionUnknown storageExistsReasonConfigError
             (MessageErr ''Unable to get configuration: %s'' err))
      | Inr cfg \<Rightarrow>
     (case getEnvironmentByName w (CloudName (Config s)) of
        Inl err \<Rightarrow>
          (Returned (False, Some err),
           UpdateCondition s ConditionUnknown storageExistsReasonConfigError
             (MessageErr ''Unable to get cloud environment: %s'' err))
      | Inr env \<Rightarrow>
     (case storageAccountsClient w cfg env of
        Some err \<Rightarrow>
          (Returned (False, Some err),
           UpdateCondition s ConditionUnknown storageExistsReasonAzureError
             (MessageErr ''Unable to get accounts client: %s'' err))
      | None \<Rightarrow>
     (let containerBranch =
            (if Container (Config s) \<noteq> ''''
             then (case getAccountPrimaryKey w s (ResourceGroup cfg) (AccountName (Config s)) of
                     (Inl (ErrDoesNotExist e), s1) \<Rightarrow>
                       (let s2 = s1\<lparr>Config := (Config s1)\<lparr>AccountName := ''''\<rparr>\<rparr>
                        in case SpecAzure (cr s2) of
                             None \<Rightarrow> Inl (Panic, s2)
                           | Some spec \<Rightarrow>
                        (let s3 = s2\<lparr>cr := (cr s2)\<lparr>SpecAzure := Some (spec\<lparr>AccountName := ''''\<rparr>)\<rparr>\<rparr>
                         in case StatusAzure (cr s3) of
                              None \<Rightarrow> Inl (Panic, s3)
                            | Some status \<Rightarrow>
                         (let s4 = s3\<lparr>cr := (cr s3)\<lparr>StatusAzure := Some (status\<lparr>AccountName := ''''\<rparr>)\<rparr>\<rparr>
                          in Inl (Returned (False, None),
                                  UpdateCondition s4 ConditionFalse storageExistsReasonContainerNotFound
                                    (MessageErr ''Container has been already deleted: %s'' (ErrDoesNotExist e))))))
                   | (Inl err, s1) \<Rightarrow>
                       Inl (Returned (False, Some err),
                            UpdateCondition s1 ConditionUnknown storageExistsReasonAzureError
                              (MessageErr ''Unable to get account primary keys: %s'' err))
                   | (Inr key, s1) \<Rightarrow>
                       (case deleteStorageContainer w s1 env (AccountName (Config s1)) key (Container (Config s1)) of
                          (Some err, s2) \<Rightarrow>
                            Inl (Returned (False, Some err),
                                 UpdateCondition s2 ConditionUnknown storageExistsReasonAzureError
                                   (MessageErr ''Unable to delete storage container: %s'' err))
                        | (None, s2) \<Rightarrow>
                            (let s3 = s2\<lparr>Config := (Config s2)\<lparr>Container := ''''\<rparr>\<rparr>
                             in case SpecAzure (cr s3) of
                                  None \<Rightarrow> Inl (Panic, s3)
                                | Some spec \<Rightarrow>
                             (let s4 = s3\<lparr>cr := (cr s3)\<lparr>SpecAzure := Some (spec\<lparr>Container := ''''\<rparr>)\<rparr>\<rparr>
                              in case StatusAzure (cr s4) of
                                   None \<Rightarrow> Inl (Panic, s4)
                                 | Some status \<Rightarrow>
                              (let s5 = s4\<lparr>cr := (cr s4)\<lparr>StatusAzure := Some (status\<lparr>Container := ''''\<rparr>)\<rparr>\<rparr>
                               in Inr (UpdateCondition s5 ConditionFalse storageExistsReasonContainerDeleted
                                         (Message ''Storage container has been deleted'')))))))
             else Inr s)
      in case containerBranch of
           Inl stopped \<Rightarrow> stopped
         | Inr s6 \<Rightarrow>
     (let s7 = issue s6 (AccountsDelete (AccountName (Config s6)))
      in case accountsDelete w (calls s6) (ResourceGroup cfg) (AccountName (Config s6)) of
           Some err \<Rightarrow>
             (Returned (False, Some err),
              UpdateCondition s7 ConditionFalse storageExistsReasonAzureError
                (MessageErr ''Unable to delete storage account: %s'' err))
         | None \<Rightarrow>
     (let s8 = s7\<lparr>Config := (Config s7)\<lparr>AccountName := ''''\<rparr>\<rparr>
      in case SpecAzure (cr s8) of
           None \<Rightarrow> (Panic, s8)
         | Some spec \<Rightarrow>
     (let s9 = s8\<lparr>cr := (cr s8)\<lparr>SpecAzure := Some (spec\<lparr>AccountName := ''''\<rparr>)\<rparr>\<rparr>
      in case StatusAzure (cr s9) of
           None \<Rightarrow> (Panic, s9)
         | Some status \<Rightarrow>
     (let s10 = s9\<lparr>cr := (cr s9)\<lparr>StatusAzure := Some (status\<lparr>AccountName := ''''\<rparr>)\<rparr>\<rparr>
      in (Returned (False, None),
          UpdateCondition s10 ConditionFalse storageExistsReasonAccountDeleted
            (Message ''Storage account has been deleted'')))))))))))"

section \<open>\<open>assureStorageAccount\<close>, cut at its steps\<close>

text \<open>
  The body of \<open>assureStorageAccount\<close> after the account has been created, cut into
  four pieces at the places where the source goes on to its next step: the six client
  getters, the private endpoint, the zone and the record set, the zone group and the
  link. \<open>assureStorageAccount_stages\<close> below proves that the function is these pieces
  put together; the proofs about it go piece by piece.
\<close>

definition assureStorageAccount_group ::
  "world \<Rightarrow> Azure \<Rightarrow> private_endpoint \<Rightarrow> string \<Rightarrow> tagset \<Rightarrow> state
     \<Rightarrow> (string \<times> bool \<times> error option) outcome \<times> state" where
  "assureStorageAccount_group w cfg privateEndpoint accountName tags s6 =
     (case peName privateEndpoint of
        None \<Rightarrow> (Panic, s6)
      | Some endpointName \<Rightarrow>
     (case createPrivateDNSZoneGroup w s6 (SubscriptionID cfg) (ResourceGroup cfg) endpointName
             ''privatelink.blob.core.windows.net'' of
        (Some err, s7) \<Rightarrow> (Returned ('''', False, Some err), s7)
      | (None, s7) \<Rightarrow>
     (case createVirtualNetworkLink w s7 (SubscriptionID cfg) (ResourceGroup cfg)
             ''privatelink.blob.core.windows.net'' ''fmissi-ms799-vnet'' tags of
        (Some err, s8) \<Rightarrow> (Returned ('''', False, Some err), s8)
      | (None, s8) \<Rightarrow> (Returned (accountName, True, None), s8))))"

definition assureStorageAccount_dns ::
  "world \<Rightarrow> Azure \<Rightarrow> string \<Rightarrow> private_endpoint \<Rightarrow> string \<Rightarrow> tagset \<Rightarrow> state
     \<Rightarrow> (string \<times> bool \<times> error option) outcome \<times> state" where
  "assureStorageAccount_dns w cfg cloudName privateEndpoint accountName tags s4 =
     (case createPrivateDNSZone w s4 (ResourceGroup cfg) cloudName
             ''privatelink.blob.core.windows.net'' tags of
        (Some err, s5) \<Rightarrow> (Returned ('''', False, Some err), s5)
      | (None, s5) \<Rightarrow>
     (case createRecordSet w s5 privateEndpoint (ResourceGroup cfg) accountName
             ''privatelink.blob.core.windows.net'' of
        (Panic, s6) \<Rightarrow> (Panic, s6)
      | (Returned (Some err), s6) \<Rightarrow> (Returned ('''', False, Some err), s6)
      | (Returned None, s6) \<Rightarrow>
          assureStorageAccount_group w cfg privateEndpoint accountName tags s6))"

definition assureStorageAccount_endpoint ::
  "world \<Rightarrow> Azure \<Rightarrow> infrastructure \<Rightarrow> string \<Rightarrow> string \<Rightarrow> tagset \<Rightarrow> state
     \<Rightarrow> (string \<times> bool \<times> error option) outcome \<times> state" where
  "assureStorageAccount_endpoint w cfg infra cloudName accountName tags s2 =
     (case createPrivateEndpoint w (s2\<lparr>draws := draws s2 + 1\<rparr>) (ResourceGroup cfg)
             (generateAccountName (InfrastructureName infra) (randString w (draws s2)))
             accountName (Region cfg) (SubscriptionID cfg) cloudName tags of
        (Inl err, s4) \<Rightarrow> (Returned ('''', False, Some err), s4)
      | (Inr privateEndpoint, s4) \<Rightarrow>
          assureStorageAccount_dns w cfg cloudName privateEndpoint accountName tags s4)"

definition assureStorageAccount_clients ::
  "world \<Rightarrow> Azure \<Rightarrow> infrastructure \<Rightarrow> environment \<Rightarrow> string \<Rightarrow> string \<Rightarrow> tagset \<Rightarrow> state
     \<Rightarrow> (string \<times> bool \<times> error option) outcome \<times> state" where
  "assureStorageAccount_clients w cfg infra env cloudName accountName tags s2 =
     (case privateEndpointsClient w cfg env of
        Some err \<Rightarrow> (Returned ('''', False, Some err), s2)
      | None \<Rightarrow>
     (case privateZonesClient w cfg env of
        Some err \<Rightarrow> (Returned ('''', False, Some err), s2)
      | None \<Rightarrow>
     (case recordSetsClient w cfg env of
        Some err \<Rightarrow> (Returned ('''', False, Some err), s2)
      | None \<Rightarrow>
     (case privateZoneGroupsClient w cfg env of
        Some err \<Rightarrow> (Returned ('''', False, Some err), s2)
      | None \<Rightarrow>
     (case vnetLinksClient w cfg env of
        Some err \<Rightarrow> (Returned ('''', False, Some err), s2)
      | None \<Rightarrow>
     (case interfacesClient w cfg env of
        Some err \<Rightarrow> (Returned ('''', False, Some err), s2)
      | None \<Rightarrow>
          assureStorageAccount_endpoint w cfg infra cloudName accountName tags s2))))))"

text \<open>The tag map \<open>assureStorageAccount\<close> builds: the ownership tag, then the user's tags.\<close>

definition assureStorageAccount_tags :: "infrastructure \<Rightarrow> tagset" where
  "assureStorageAccount_tags infra =
     (case PlatformStatus infra of
        None \<Rightarrow> [(''kubernetes.io_cluster.'' @ InfrastructureName infra, ''owned'')]
      | Some platformStatus \<Rightarrow>
          (case PlatformAzure platformStatus of
             None \<Rightarrow> [(''kubernetes.io_cluster.'' @ InfrastructureName infra, ''owned'')]
           | Some azure \<Rightarrow>
               fold (\<lambda>(k, v) ts. tagset_put k v ts) (ResourceTags azure)
                 [(''kubernetes.io_cluster.'' @ InfrastructureName infra, ''owned'')]))"

section \<open>\<open>CreateStorage\<close> and \<open>RemoveStorage\<close>, cut at their steps\<close>

text \<open>
  \<open>CreateStorage\<close> after the configuration and the infrastructure have been read: the
  cloud name taken from the platform status, the account step, the container step and
  the bookkeeping of a successful run. \<open>RemoveStorage\<close> after the accounts client has
  been obtained: the container branch and the account deletion. \<open>CreateStorage_stages\<close>
  and \<open>RemoveStorage_stages\<close> below prove that the functions are these pieces put
  together.
\<close>

definition CreateStorage_cloudName :: "infrastructure \<Rightarrow> state \<Rightarrow> state" where
  "CreateStorage_cloudName infra s =
     (if CloudName (Config s) = '''' \<and> AccountName (Config s) = ''''
      then (case PlatformStatus infra of
              None \<Rightarrow> s
            | Some platformStatus \<Rightarrow>
                if PlatformType platformStatus = AzurePlatformType
                then (case PlatformAzure platformStatus of
                        None \<Rightarrow> s
                      | Some azure \<Rightarrow> s\<lparr>Config := (Config s)\<lparr>CloudName := PlatformCloudName azure\<rparr>\<rparr>)
                else s)
      else s)"

definition CreateStorage_finish :: "bool \<Rightarrow> string \<Rightarrow> bool \<Rightarrow> state \<Rightarrow> state" where
  "CreateStorage_finish storageAccountCreated containerName containerCreated s3 =
     (let s4 = s3\<lparr>Config := (Config s3)\<lparr>Container := containerName\<rparr>\<rparr>;
          s5 = (if ManagementState (cr s4) = ''''
                then (if storageAccountCreated \<or> containerCreated
                      then s4\<lparr>cr := (cr s4)\<lparr>ManagementState := StorageManagementStateManaged\<rparr>\<rparr>
                      else s4\<lparr>cr := (cr s4)\<lparr>ManagementState := StorageManagementStateUnmanaged\<rparr>\<rparr>)
                else s4);
          s6 = s5\<lparr>cr := (cr s5)\<lparr>SpecAzure := Some (Config s5), StatusAzure := Some (Config s5)\<rparr>\<rparr>
      in UpdateCondition s6 ConditionTrue storageExistsReasonContainerExists
           (Message ''Storage container exists''))"

definition CreateStorage_container ::
  "world \<Rightarrow> Azure \<Rightarrow> string \<Rightarrow> bool \<Rightarrow> state \<Rightarrow> error option outcome \<times> state" where
  "CreateStorage_container w cfg storageAccountName storageAccountCreated s1 =
     (case assureContainer w cfg (s1\<lparr>Config := (Config s1)\<lparr>AccountName := storageAccountName\<rparr>\<rparr>) of
        ((containerName, containerCreated, Some err), s3) \<Rightarrow>
          (Returned (Some err),
           UpdateCondition s3 ConditionUnknown storageExistsReasonAzureError
             (MessageErr ''Unable to process storage container: %s'' err))
      | ((containerName, containerCreated, None), s3) \<Rightarrow>
          (Returned None, CreateStorage_finish storageAccountCreated containerName containerCreated s3))"

definition CreateStorage_account ::
  "world \<Rightarrow> Azure \<Rightarrow> infrastructure \<Rightarrow> state \<Rightarrow> error option outcome \<times> state" where
  "CreateStorage_account w cfg infra s0 =
     (case assureStorageAccount w cfg infra s0 of
        (Panic, s1) \<Rightarrow> (Panic, s1)
      | (Returned (storageAccountName, storageAccountCreated, Some err), s1) \<Rightarrow>
          (Returned (Some err),
           UpdateCondition s1 ConditionUnknown storageExistsReasonAzureError
             (MessageErr ''Unable to process storage account: %s'' err))
      | (Returned (storageAccountName, storageAccountCreated, None), s1) \<Rightarrow>
          CreateStorage_container w cfg storageAccountName storageAccountCreated s1)"

definition RemoveStorage_container ::
  "world \<Rightarrow> Azure \<Rightarrow> environment \<Rightarrow> state
     \<Rightarrow> ((bool \<times> error option) outcome \<times> state) + state" where
  "RemoveStorage_container w cfg env s =
     (if Container (Config s) \<noteq> ''''
      then (case getAccountPrimaryKey w s (ResourceGroup cfg) (AccountName (Config s)) of
              (Inl (ErrDoesNotExist e), s1) \<Rightarrow>
                (let s2 = s1\<lparr>Config := (Config s1)\<lparr>AccountName := ''''\<rparr>\<rparr>
                 in case SpecAzure (cr s2) of
                      None \<Rightarrow> Inl (Panic, s2)
                    | Some spec \<Rightarrow>
                 (let s3 = s2\<lparr>cr := (cr s2)\<lparr>SpecAzure := Some (spec\<lparr>AccountName := ''''\<rparr>)\<rparr>\<rparr>
                  in case StatusAzure (cr s3) of
                       None \<Rightarrow> Inl (Panic, s3)
                     | Some status \<Rightarrow>
                  (let s4 = s3\<lparr>cr := (cr s3)\<lparr>StatusAzure := Some (status\<lparr>AccountName := ''''\<rparr>)\<rparr>\<rparr>
                   in Inl (Returned (False, None),
                           UpdateCondition s4 ConditionFalse storageExistsReasonContainerNotFound
                             (MessageErr ''Container has been already deleted: %s'' (ErrDoesNotExist e))))))
            | (Inl err, s1) \<Rightarrow>
                Inl (Returned (False, Some err),
                     UpdateCondition s1 ConditionUnknown storageExistsReasonAzureError
                       (MessageErr ''Unable to get account primary keys: %s'' err))
            | (Inr key, s1) \<Rightarrow>
                (case deleteStorageContainer w s1 env (AccountName (Config s1)) key (Container (Config s1)) of
                   (Some err, s2) \<Rightarrow>
                     Inl (Returned (False, Some err),
                          UpdateCondition s2 ConditionUnknown storageExistsReasonAzureError
                            (MessageErr ''Unable to delete storage container: %s'' err))
                 | (None, s2) \<Rightarrow>
                     (let s3 = s2\<lparr>Config := (Config s2)\<lparr>Container := ''''\<rparr>\<rparr>
                      in case SpecAzure (cr s3) of
                           None \<Rightarrow> Inl (Panic, s3)
                         | Some spec \<Rightarrow>
                      (let s4 = s3\<lparr>cr := (cr s3)\<lparr>SpecAzure := Some (spec\<lparr>Container := ''''\<rparr>)\<rparr>\<rparr>
                       in case StatusAzure (cr s4) of
                            None \<Rightarrow> Inl (Panic, s4)
                          | Some status \<Rightarrow>
                       (let s5 = s4\<lparr>cr := (cr s4)\<lparr>StatusAzure := Some (status\<lparr>Container := ''''\<rparr>)\<rparr>\<rparr>
                        in Inr (UpdateCondition s5 ConditionFalse storageExistsReasonContainerDeleted
                                  (Message ''Storage container has been deleted'')))))))
      else Inr s)"

definition RemoveStorage_account ::
  "world \<Rightarrow> Azure \<Rightarrow> state \<Rightarrow> (bool \<times> error option) outcome \<times> state" where
  "RemoveStorage_account w cfg s6 =
     (let s7 = issue s6 (AccountsDelete (AccountName (Config s6)))
      in case accountsDelete w (calls s6) (ResourceGroup cfg) (AccountName (Config s6)) of
           Some err \<Rightarrow>
             (Returned (False, Some err),
              UpdateCondition s7 ConditionFalse storageExistsReasonAzureError
                (MessageErr ''Unable to delete storage account: %s'' err))
         | None \<Rightarrow>
     (let s8 = s7\<lparr>Config := (Config s7)\<lparr>AccountName := ''''\<rparr>\<rparr>
      in case SpecAzure (cr s8) of
           None \<Rightarrow> (Panic, s8)
         | Some spec \<Rightarrow>
     (let s9 = s8\<lparr>cr := (cr s8)\<lparr>SpecAzure := Some (spec\<lparr>AccountName := ''''\<rparr>)\<rparr>\<rparr>
      in case StatusAzure (cr s9) of
           None \<Rightarrow> (Panic, s9)
         | Some status \<Rightarrow>
     (let s10 = s9\<lparr>cr := (cr s9)\<lparr>StatusAzure := Some (status\<lparr>AccountName := ''''\<rparr>)\<rparr>\<rparr>
      in (Returned (False, None),
          UpdateCondition s10 ConditionFalse storageExistsReasonAccountDeleted
            (Message ''Storage account has been deleted''))))))"

section \<open>The provider client (package azureclient)\<close>

text \<open>
  \<open>azureclient.Client\<close>, the fields its methods use. Its methods send their requests to
  the same provider; they take the requests sent so far and return them extended. The
  methods that share a name with a function of the driver carry the prefix
  \<open>Client_\<close>.
\<close>

record Client =
  clientSubscriptionID :: string
  clientResourceGroupName :: string
  clientTagset :: tagset

definition targetSubResource :: string where
  "targetSubResource = ''blob''"

definition defaultPrivateZoneName :: string where
  "defaultPrivateZoneName = ''privatelink.blob.core.windows.net''"

definition defaultPrivateZoneLocation :: string where
  "defaultPrivateZoneLocation = ''global''"

definition formatPrivateDNSZoneID :: "string \<Rightarrow> string \<Rightarrow> string \<Rightarrow> string" where
  "formatPrivateDNSZoneID subscriptionID resourceGroupName privateZoneName =
     ''/subscriptions/'' @ subscriptionID @ ''/resourceGroups/'' @ resourceGroupName
       @ ''/providers/Microsoft.Network/privateDnsZones/'' @ privateZoneName"

definition formatVNetID :: "string \<Rightarrow> string \<Rightarrow> string \<Rightarrow> string" where
  "formatVNetID subscriptionID resourceGroupName vnetName =
     ''/subscriptions/'' @ subscriptionID @ ''/resourceGroups/'' @ resourceGroupName
       @ ''/providers/Microsoft.Network/virtualNetworks/'' @ vnetName"

definition Client_createPrivateDNSZone ::
  "world \<Rightarrow> Client \<Rightarrow> call list \<Rightarrow> string \<Rightarrow> string \<Rightarrow> error option \<times> call list" where
  "Client_createPrivateDNSZone w c h name location =
     (case NewArmClient w PrivateZonesClient (clientSubscriptionID c) of
        Some err \<Rightarrow> (Some err, h)
      | None \<Rightarrow>
          (case privateZonesCreate w h (clientResourceGroupName c) name location (clientTagset c) of
             BeginFailed err \<Rightarrow> (Some err, h @ [PrivateZonesCreate name])
           | PollFailed err \<Rightarrow> (Some err, h @ [PrivateZonesCreate name])
           | Done u \<Rightarrow> (None, h @ [PrivateZonesCreate name])))"

definition getNICAddress ::
  "world \<Rightarrow> Client \<Rightarrow> call list \<Rightarrow> private_endpoint \<Rightarrow> (error + string) outcome \<times> call list" where
  "getNICAddress w c h privateEndpoint =
     (case NewArmClient w InterfacesClient (clientSubscriptionID c) of
        Some err \<Rightarrow> (Returned (Inl err), h)
      | None \<Rightarrow>
          (case peNetworkInterfaces privateEndpoint of
             None \<Rightarrow> (Panic, h)
           | Some [] \<Rightarrow>
               (case peName privateEndpoint of
                  None \<Rightarrow> (Panic, h)
                | Some n \<Rightarrow>
                    (Returned (Inl (Errorf ''private endpoint %s did not have any network interfaces'' None)), h))
           | Some (nicRef # rest) \<Rightarrow>
               (case nicRef of
                  None \<Rightarrow> (Panic, h)
                | Some nicID \<Rightarrow>
                    (let nicName = lastSegment nicID;
                         h1 = h @ [InterfacesGet nicName]
                     in case interfacesGet w h (clientResourceGroupName c) nicName of
                          Inl err \<Rightarrow> (Returned (Inl err), h1)
                        | Inr nic \<Rightarrow>
                            (case ifIPConfigurations nic of
                               None \<Rightarrow> (Panic, h1)
                             | Some [] \<Rightarrow>
                                 (case ifName nic of
                                    None \<Rightarrow> (Panic, h1)
                                  | Some n \<Rightarrow>
                                      (Returned (Inl (Errorf ''network interface %s did not have any IP configurations'' None)), h1))
                             | Some (ipConfiguration # rest2) \<Rightarrow>
                                 (case ipConfiguration of
                                    None \<Rightarrow> (Panic, h1)
                                  | Some None \<Rightarrow> (Panic, h1)
                                  | Some (Some nicAddress) \<Rightarrow> (Returned (Inr nicAddress), h1)))))))"

definition Client_createRecordSet ::
  "world \<Rightarrow> Client \<Rightarrow> call list \<Rightarrow> private_endpoint \<Rightarrow> string \<Rightarrow> string
     \<Rightarrow> error option outcome \<times> call list" where
  "Client_createRecordSet w c h privateEndpoint privateZoneName relativeRecordSetName =
     (case NewArmClient w RecordSetsClient (clientSubscriptionID c) of
        Some err \<Rightarrow> (Returned (Some (Errorf ''failed to get record sets client: %s'' (Some err))), h)
      | None \<Rightarrow>
          (case getNICAddress w c h privateEndpoint of
             (Panic, h1) \<Rightarrow> (Panic, h1)
           | (Returned (Inl err), h1) \<Rightarrow> (Returned (Some err), h1)
           | (Returned (Inr nicAddress), h1) \<Rightarrow>
               (case recordSetsCreate w h1 (clientResourceGroupName c) privateZoneName
                       relativeRecordSetName (Some nicAddress) of
                  Some err \<Rightarrow>
                    (Returned (Some err), h1 @ [RecordSetsCreate privateZoneName relativeRecordSetName])
                | None \<Rightarrow>
                    (Returned None, h1 @ [RecordSetsCreate privateZoneName relativeRecordSetName]))))"

definition Client_createPrivateDNSZoneGroup ::
  "world \<Rightarrow> Client \<Rightarrow> call list \<Rightarrow> string \<Rightarrow> string \<Rightarrow> error option \<times> call list" where
  "Client_createPrivateDNSZoneGroup w c h privateEndpointName privateZoneName =
     (case NewArmClient w PrivateDNSZoneGroupsClient (clientSubscriptionID c) of
        Some err \<Rightarrow> (Some (Errorf ''failed to get private dns zone groups client: %q'' (Some err)), h)
      | None \<Rightarrow>
          (let privateZoneID = formatPrivateDNSZoneID (clientSubscriptionID c)
                 (clientResourceGroupName c) privateZoneName;
               groupName = replaceDots privateZoneName;
               h1 = h @ [PrivateDNSZoneGroupsCreate privateEndpointName groupName]
           in case zoneGroupsCreate w h (clientResourceGroupName c) privateEndpointName groupName
                     (privateZoneName @ ''/default'') groupName privateZoneID of
                BeginFailed err \<Rightarrow> (Some err, h1)
              | PollFailed err \<Rightarrow> (Some err, h1)
              | Done u \<Rightarrow> (None, h1)))"

definition Client_createVirtualNetworkLink ::
  "world \<Rightarrow> Client \<Rightarrow> call list \<Rightarrow> string \<Rightarrow> string \<Rightarrow> string \<Rightarrow> string
     \<Rightarrow> error option \<times> call list" where
  "Client_createVirtualNetworkLink w c h linkName vnetName privateZoneName privateZoneLocation =
     (case NewArmClient w VirtualNetworkLinksClient (clientSubscriptionID c) of
        Some err \<Rightarrow> (Some (Errorf ''failed to get virtual network links client: %s'' (Some err)), h)
      | None \<Rightarrow>
          (let vnetID = formatVNetID (clientSubscriptionID c) (clientResourceGroupName c) vnetName;
               h1 = h @ [VirtualNetworkLinksCreate privateZoneName linkName]
           in case vnetLinksCreate w h (clientResourceGroupName c) privateZoneName linkName
                     privateZoneLocation vnetID (clientTagset c) of
                BeginFailed err \<Rightarrow> (Some err, h1)
              | PollFailed err \<Rightarrow> (Some err, h1)
              | Done u \<Rightarrow> (None, h1)))"

text \<open>
  \<open>ConfigurePrivateDNS\<close>. The error of the last step is dropped when it is an
  \<open>*azcore.ResponseError\<close> whose \<open>ErrorCode\<close> is \<open>"Conflict"\<close>:
  \<^verbatim>\<open>
  respErr, ok := err.(*azcore.ResponseError)
  if !ok || respErr.ErrorCode != "Conflict" { return err }
  \<close>
\<close>

definition ConfigurePrivateDNS ::
  "world \<Rightarrow> Client \<Rightarrow> call list \<Rightarrow> private_endpoint \<Rightarrow> string \<Rightarrow> string
     \<Rightarrow> error option outcome \<times> call list" where
  "ConfigurePrivateDNS w c h privateEndpoint vnetName storageAccountName =
     (case Client_createPrivateDNSZone w c h defaultPrivateZoneName defaultPrivateZoneLocation of
        (Some err, h1) \<Rightarrow> (Returned (Some err), h1)
      | (None, h1) \<Rightarrow>
     (case Client_createRecordSet w c h1 privateEndpoint defaultPrivateZoneName storageAccountName of
        (Panic, h2) \<Rightarrow> (Panic, h2)
      | (Returned (Some err), h2) \<Rightarrow> (Returned (Some err), h2)
      | (Returned None, h2) \<Rightarrow>
     (case peName privateEndpoint of
        None \<Rightarrow> (Panic, h2)
      | Some endpointName \<Rightarrow>
     (case Client_createPrivateDNSZoneGroup w c h2 endpointName defaultPrivateZoneName of
        (Some err, h3) \<Rightarrow> (Returned (Some err), h3)
      | (None, h3) \<Rightarrow>
     (case Client_createVirtualNetworkLink w c h3 storageAccountName vnetName
             defaultPrivateZoneName defaultPrivateZoneLocation of
        (Some err, h4) \<Rightarrow>
          (case err of
             ResponseError statusCode errorCode \<Rightarrow>
               if errorCode \<noteq> ''Conflict'' then (Returned (Some err), h4)
               else (Returned None, h4)
           | _ \<Rightarrow> (Returned (Some err), h4))
      | (None, h4) \<Rightarrow> (Returned None, h4))))))"

section \<open>A provider that works, and inputs to run the code on\<close>

text \<open>
  \<open>world0\<close>: no user secret, cluster credentials present, every constructor succeeds,
  and a provider that keeps what it is asked to create: a name is available until an
  account of that name has been created, keys exist for the accounts created here and
  for \<open>acct1\<close>, a container exists once created.
\<close>

definition infra0 :: infrastructure where
  "infra0 = \<lparr>InfrastructureName = ''my-Cluster_x7'',
              PlatformStatus = Some \<lparr>PlatformType = ''Azure'',
                PlatformAzure = Some \<lparr>PlatformCloudName = '''', ResourceTags = [(''team'', ''registry'')]\<rparr>\<rparr>\<rparr>"

definition cloudCredentials0 :: secret where
  "cloudCredentials0 =
     [''azure_subscription_id'' \<mapsto> ''sub0'', ''azure_client_id'' \<mapsto> ''client0'',
      ''azure_client_secret'' \<mapsto> ''secret0'', ''azure_tenant_id'' \<mapsto> ''tenant0'',
      ''azure_resourcegroup'' \<mapsto> ''rg0'', ''azure_region'' \<mapsto> ''westus'']"

definition world0 :: world where
  "world0 =
     \<lparr>userSecret = Inl (OtherError ''secret not found''),
      cloudSecret = Inr cloudCredentials0,
      IsNotFound = (\<lambda>err. err = OtherError ''secret not found''),
      GetValueFromSecret =
        (\<lambda>sec k. case sec k of None \<Rightarrow> Inl (OtherError ''no such key'') | Some v \<Rightarrow> Inr v),
      GetInfrastructure = Inr infra0,
      GenerateStorageName =
        (\<lambda>n. Inr (''my-cluster-x7-image-registry-'' @ (if n = 3 then ''qtzrm'' else ''vbkws''))),
      randString = (\<lambda>n. if n = 0 then ''b2c4d'' else if n = 1 then ''f5g6h'' else ''j7k8l''),
      PublicCloud = \<lparr>StorageEndpointSuffix = ''core.windows.net''\<rparr>,
      EnvironmentFromName = (\<lambda>name. Inl (OtherError ''no cloud environment of that name'')),
      authorizerSet = False,
      NewClientSecretCredential = (\<lambda>cfg env. None),
      NewArmClient = (\<lambda>client subscription. None),
      NewSharedKeyCredential = (\<lambda>accountName key. None),
      urlParse = (\<lambda>url. None),
      checkNameAvailability = (\<lambda>h name. Inr (Some (AccountsCreate name \<notin> set h \<and> name \<noteq> ''acct1''))),
      accountsCreate = (\<lambda>h resourceGroup name location legacy tags. Created),
      primaryKeyGet =
        (\<lambda>h resourceGroup name.
           if AccountsCreate name \<in> set h \<or> name = ''acct1'' then Inr ''a2V5''
           else Inl (DetailedError (Some 404))),
      accountsDelete = (\<lambda>h resourceGroup name. None),
      privateEndpointsCreate =
        (\<lambda>h resourceGroup name location subnetID linkID tags.
           Done \<lparr>peName = Some name, peNetworkInterfaces = Some [Some (''/networkInterfaces/'' @ name @ ''-nic'')]\<rparr>),
      privateZonesCreate = (\<lambda>h resourceGroup zone location tags. Done ()),
      interfacesGet =
        (\<lambda>h resourceGroup name.
           Inr \<lparr>ifName = Some name, ifIPConfigurations = Some [Some (Some ''10.0.0.4'')]\<rparr>),
      recordSetsCreate = (\<lambda>h resourceGroup zone name address. None),
      zoneGroupsCreate = (\<lambda>h resourceGroup endpoint groupName name configName zoneID. Done ()),
      vnetLinksCreate = (\<lambda>h resourceGroup zone linkName location vnetID tags. Done ()),
      containerGetProperties =
        (\<lambda>h accountName key containerName.
           if ContainerCreate accountName containerName \<in> set h then None
           else Some (StorageError ''ContainerNotFound'')),
      containerCreate = (\<lambda>h accountName key containerName. None),
      containerDelete = (\<lambda>h accountName key containerName. None)\<rparr>"

definition cfg0 :: Azure where
  "cfg0 = \<lparr>SubscriptionID = ''sub0'', ClientID = ''client0'', ClientSecret = ''secret0'',
           TenantID = ''tenant0'', ResourceGroup = ''rg0'', Region = ''westus'', AccountKey = ''''\<rparr>"

text \<open>A fresh registry: nothing configured, nothing recorded, no request sent.\<close>

definition fresh :: state where
  "fresh =
     \<lparr>Config = \<lparr>AccountName = '''', Container = '''', CloudName = ''''\<rparr>,
      cr = \<lparr>ManagementState = '''', SpecAzure = None, StatusAzure = None, Conditions = []\<rparr>,
      calls = [],
      draws = 0\<rparr>"

text \<open>
  A registry whose storage the operator manages: account \<open>acct1\<close> and container \<open>c1\<close>
  recorded in \<open>d.Config\<close>, in the spec and in the status.
\<close>

definition managed :: state where
  "managed =
     \<lparr>Config = \<lparr>AccountName = ''acct1'', Container = ''c1'', CloudName = ''''\<rparr>,
      cr = \<lparr>ManagementState = ''Managed'',
            SpecAzure = Some \<lparr>AccountName = ''acct1'', Container = ''c1'', CloudName = ''''\<rparr>,
            StatusAzure = Some \<lparr>AccountName = ''acct1'', Container = ''c1'', CloudName = ''''\<rparr>,
            Conditions = []\<rparr>,
      calls = [],
      draws = 0\<rparr>"

text \<open>
  Variations of \<open>world0\<close>: the key of the account is gone (404); the account cannot be
  deleted; every account name is taken; the user has provided an account key.
\<close>

definition world_keys_gone :: world where
  "world_keys_gone = world0\<lparr>primaryKeyGet := (\<lambda>h resourceGroup name. Inl (DetailedError (Some 404)))\<rparr>"

definition world_delete_fails :: world where
  "world_delete_fails =
     world0\<lparr>accountsDelete := (\<lambda>h resourceGroup name. Some (DetailedError (Some 409)))\<rparr>"

definition world_names_taken :: world where
  "world_names_taken = world0\<lparr>checkNameAvailability := (\<lambda>h name. Inr (Some False))\<rparr>"

definition world_upi :: world where
  "world_upi = world0\<lparr>userSecret := Inr [''REGISTRY_STORAGE_AZURE_ACCOUNTKEY'' \<mapsto> ''a2V5'']\<rparr>"

text \<open>
  A provider that refuses one private endpoint name, whenever it is asked for it, and
  is \<open>world0\<close> in everything else.
\<close>

definition world_endpoint_refused :: world where
  "world_endpoint_refused =
     world0\<lparr>privateEndpointsCreate :=
       (\<lambda>h resourceGroup name location subnetID linkID tags.
          if name = ''imageregistrymyclusf5g6h'' then PollFailed (DetailedError (Some 400))
          else privateEndpointsCreate world0 h resourceGroup name location subnetID linkID tags)\<rparr>"

text \<open>
  Two more variations of \<open>world0\<close>: the provider refuses to create any account; the
  SDK's constructor of the private endpoints client fails.
\<close>

definition world_create_refused :: world where
  "world_create_refused =
     world0\<lparr>accountsCreate :=
       (\<lambda>h resourceGroup name location legacy tags. WaitFailed (DetailedError (Some 409)))\<rparr>"

definition world_no_endpoints_client :: world where
  "world_no_endpoints_client =
     world0\<lparr>NewArmClient :=
       (\<lambda>client subscription.
          if client = PrivateEndpointsClient then Some (OtherError ''no private endpoints client'')
          else None)\<rparr>"

text \<open>The same registry with an account recorded and no container yet.\<close>

definition account_only :: state where
  "account_only = managed\<lparr>Config := \<lparr>AccountName = ''acct1'', Container = '''', CloudName = ''''\<rparr>\<rparr>"

definition client0 :: Client where
  "client0 = \<lparr>clientSubscriptionID = ''sub0'', clientResourceGroupName = ''rg0'', clientTagset = []\<rparr>"

definition endpoint0 :: private_endpoint where
  "endpoint0 = \<lparr>peName = Some ''pe0'', peNetworkInterfaces = Some [Some ''/networkInterfaces/pe0-nic'']\<rparr>"

definition world_link_conflict :: world where
  "world_link_conflict =
     world0\<lparr>vnetLinksCreate :=
       (\<lambda>h resourceGroup zone linkName location vnetID tags. PollFailed (ResponseError 400 ''Conflict''))\<rparr>"

text \<open>
  The requests of one invocation: those in the later state that were not in the earlier
  one. The five creations of the network-isolation chain, in the order of the source.
\<close>

definition issued :: "state \<Rightarrow> state \<Rightarrow> call list" where
  "issued s s' = drop (length (calls s)) (calls s')"

datatype chain_step = EndpointStep | ZoneStep | RecordStep | ZoneGroupStep | LinkStep

fun chainSteps :: "call list \<Rightarrow> chain_step list" where
  "chainSteps [] = []"
| "chainSteps (PrivateEndpointsCreate n # cs) = EndpointStep # chainSteps cs"
| "chainSteps (PrivateZonesCreate z # cs) = ZoneStep # chainSteps cs"
| "chainSteps (RecordSetsCreate z n # cs) = RecordStep # chainSteps cs"
| "chainSteps (PrivateDNSZoneGroupsCreate e g # cs) = ZoneGroupStep # chainSteps cs"
| "chainSteps (VirtualNetworkLinksCreate z l # cs) = LinkStep # chainSteps cs"
| "chainSteps (c # cs) = chainSteps cs"

definition fullChain :: "chain_step list" where
  "fullChain = [EndpointStep, ZoneStep, RecordStep, ZoneGroupStep, LinkStep]"

text \<open>The account name \<open>assureStorageAccount\<close> resolves: the configured one, else a generated one.\<close>

definition resolvedAccountName :: "world \<Rightarrow> infrastructure \<Rightarrow> state \<Rightarrow> string" where
  "resolvedAccountName w infra s =
     (if AccountName (Config s) = ''''
      then generateAccountName (InfrastructureName infra) (randString w (draws s))
      else AccountName (Config s))"

section \<open>What each step changes\<close>

lemma issue_simps [simp]:
  "calls (issue s c) = calls s @ [c]" "Config (issue s c) = Config s"
  "cr (issue s c) = cr s" "draws (issue s c) = draws s"
  by (simp_all add: issue_def)

lemma UpdateCondition_simps [simp]:
  "calls (UpdateCondition s st r m) = calls s" "Config (UpdateCondition s st r m) = Config s"
  "draws (UpdateCondition s st r m) = draws s"
  "Conditions (cr (UpdateCondition s st r m)) = Conditions (cr s) @ [(st, r, m)]"
  "ManagementState (cr (UpdateCondition s st r m)) = ManagementState (cr s)"
  "SpecAzure (cr (UpdateCondition s st r m)) = SpecAzure (cr s)"
  "StatusAzure (cr (UpdateCondition s st r m)) = StatusAzure (cr s)"
  by (simp_all add: UpdateCondition_def)

lemma pair_eq_iff: "(p = (a, b)) = (fst p = a \<and> b = snd p)"
  by auto

lemma snd_accountExists:
  "snd (accountExists w s n) = issue s (CheckNameAvailability n)"
  "fst (accountExists w s n) = checkNameAvailability w (calls s) n"
  by (simp_all add: accountExists_def)

lemma snd_createStorageAccount:
  "snd (createStorageAccount w s rg n loc cl tags) = issue s (AccountsCreate n)"
  by (simp add: createStorageAccount_def Let_def split: create_result.split)

lemma snd_createPrivateEndpoint:
  "snd (createPrivateEndpoint w s rg pe n loc sub cl tags) = issue s (PrivateEndpointsCreate pe)"
  by (simp add: createPrivateEndpoint_def Let_def split: poller.split)

lemma snd_createPrivateDNSZone:
  "snd (createPrivateDNSZone w s rg cl z tags) = issue s (PrivateZonesCreate z)"
  by (simp add: createPrivateDNSZone_def Let_def split: poller.split)

lemma snd_createPrivateDNSZoneGroup:
  "snd (createPrivateDNSZoneGroup w s sub rg pe z) = issue s (PrivateDNSZoneGroupsCreate pe (replaceDots z))"
  by (simp add: createPrivateDNSZoneGroup_def Let_def split: poller.split)

lemma snd_createVirtualNetworkLink:
  "snd (createVirtualNetworkLink w s sub rg z v tags) = issue s (VirtualNetworkLinksCreate z ''whatever123'')"
  by (simp add: createVirtualNetworkLink_def Let_def split: poller.split)

lemma snd_getAccountPrimaryKey:
  "snd (getAccountPrimaryKey w s rg n) = issue s (PrimaryKeyGet n)"
  by (simp add: getAccountPrimaryKey_def Let_def split: sum.split error.split)

lemma accountExists_eq [simp]:
  "(accountExists w s n = (r, s')) = (checkNameAvailability w (calls s) n = r \<and> s' = issue s (CheckNameAvailability n))"
  by (auto simp: accountExists_def)

lemma createStorageAccount_eq [simp]:
  "(createStorageAccount w s rg n loc cl tags = (r, s'))
     = (fst (createStorageAccount w s rg n loc cl tags) = r \<and> s' = issue s (AccountsCreate n))"
  by (subst pair_eq_iff) (simp only: snd_createStorageAccount)

lemma createPrivateEndpoint_eq [simp]:
  "(createPrivateEndpoint w s rg pe n loc sub cl tags = (r, s'))
     = (fst (createPrivateEndpoint w s rg pe n loc sub cl tags) = r \<and> s' = issue s (PrivateEndpointsCreate pe))"
  by (subst pair_eq_iff) (simp only: snd_createPrivateEndpoint)

lemma createPrivateDNSZone_eq [simp]:
  "(createPrivateDNSZone w s rg cl z tags = (r, s'))
     = (fst (createPrivateDNSZone w s rg cl z tags) = r \<and> s' = issue s (PrivateZonesCreate z))"
  by (subst pair_eq_iff) (simp only: snd_createPrivateDNSZone)

lemma createPrivateDNSZoneGroup_eq [simp]:
  "(createPrivateDNSZoneGroup w s sub rg pe z = (r, s'))
     = (fst (createPrivateDNSZoneGroup w s sub rg pe z) = r
        \<and> s' = issue s (PrivateDNSZoneGroupsCreate pe (replaceDots z)))"
  by (subst pair_eq_iff) (simp only: snd_createPrivateDNSZoneGroup)

lemma createVirtualNetworkLink_eq [simp]:
  "(createVirtualNetworkLink w s sub rg z v tags = (r, s'))
     = (fst (createVirtualNetworkLink w s sub rg z v tags) = r
        \<and> s' = issue s (VirtualNetworkLinksCreate z ''whatever123''))"
  by (subst pair_eq_iff) (simp only: snd_createVirtualNetworkLink)

lemma getAccountPrimaryKey_eq [simp]:
  "(getAccountPrimaryKey w s rg n = (r, s'))
     = (fst (getAccountPrimaryKey w s rg n) = r \<and> s' = issue s (PrimaryKeyGet n))"
  by (subst pair_eq_iff) (simp only: snd_getAccountPrimaryKey)

lemma createRecordSet_frame:
  "cr (snd (createRecordSet w s pe rg n z)) = cr s"
  "Config (snd (createRecordSet w s pe rg n z)) = Config s"
  "draws (snd (createRecordSet w s pe rg n z)) = draws s"
  by (simp_all add: createRecordSet_def Let_def split: option.split list.split sum.split)

lemma createRecordSet_calls:
  "calls (snd (createRecordSet w s pe rg n z)) = calls s
   \<or> (\<exists>nic. calls (snd (createRecordSet w s pe rg n z)) = calls s @ [InterfacesGet nic])
   \<or> (\<exists>nic. calls (snd (createRecordSet w s pe rg n z)) = calls s @ [InterfacesGet nic, RecordSetsCreate z n])"
  by (simp add: createRecordSet_def Let_def split: option.split list.split sum.split)

lemma createRecordSet_ok_calls:
  "fst (createRecordSet w s pe rg n z) = Returned None \<Longrightarrow>
   \<exists>nic. calls (snd (createRecordSet w s pe rg n z)) = calls s @ [InterfacesGet nic, RecordSetsCreate z n]"
  by (auto simp: createRecordSet_def Let_def split: option.splits list.splits sum.splits)

lemma createRecordSet_eq:
  "createRecordSet w s pe rg n z = (r, s') \<Longrightarrow>
     cr s' = cr s \<and> Config s' = Config s \<and> draws s' = draws s"
  using createRecordSet_frame [of w s pe rg n z] by simp

lemma createStorageContainer_frame:
  "cr (snd (createStorageContainer w s env a k c)) = cr s"
  "Config (snd (createStorageContainer w s env a k c)) = Config s"
  "draws (snd (createStorageContainer w s env a k c)) = draws s"
  by (simp_all add: createStorageContainer_def split: option.split)

lemma deleteStorageContainer_frame:
  "cr (snd (deleteStorageContainer w s env a k c)) = cr s"
  "Config (snd (deleteStorageContainer w s env a k c)) = Config s"
  "draws (snd (deleteStorageContainer w s env a k c)) = draws s"
  by (simp_all add: deleteStorageContainer_def split: option.split)

lemma containerExists_frame:
  "cr (snd (containerExists w s env a k c)) = cr s"
  "Config (snd (containerExists w s env a k c)) = Config s"
  "draws (snd (containerExists w s env a k c)) = draws s"
  by (simp_all add: containerExists_def Let_def split: option.split error.split)


lemma assureStorageAccount_stages:
  "assureStorageAccount w cfg infra s =
     (case getEnvironmentByName w (CloudName (Config s)) of
        Inl err \<Rightarrow> (Returned ('''', False, Some err), s)
      | Inr env \<Rightarrow>
     (case storageAccountsClient w cfg env of
        Some err \<Rightarrow> (Returned ('''', False, Some err), s)
      | None \<Rightarrow>
     (case accountExists w (if AccountName (Config s) = '''' then s\<lparr>draws := draws s + 1\<rparr> else s)
             (resolvedAccountName w infra s) of
        (Inl err, s1) \<Rightarrow> (Returned ('''', False, Some err), s1)
      | (Inr None, s1) \<Rightarrow> (Panic, s1)
      | (Inr (Some nameAvailable), s1) \<Rightarrow>
     (if AccountName (Config s) = '''' \<and> \<not> nameAvailable
      then (Returned ('''', False, Some (Errorf ''create storage account failed, name not available'' None)), s1)
      else if \<not> nameAvailable then (Returned (resolvedAccountName w infra s, False, None), s1)
      else
     (case createStorageAccount w s1 (ResourceGroup cfg) (resolvedAccountName w infra s) (Region cfg)
             (CloudName (Config s)) (assureStorageAccount_tags infra) of
        (Some err, s2) \<Rightarrow> (Returned ('''', False, Some err), s2)
      | (None, s2) \<Rightarrow>
          assureStorageAccount_clients w cfg infra env (CloudName (Config s))
            (resolvedAccountName w infra s) (assureStorageAccount_tags infra) s2)))))"
  by (simp only: assureStorageAccount_def assureStorageAccount_clients_def
      assureStorageAccount_endpoint_def assureStorageAccount_dns_def
      assureStorageAccount_group_def assureStorageAccount_tags_def resolvedAccountName_def Let_def)

lemma chainSteps_append: "chainSteps (a @ b) = chainSteps a @ chainSteps b"
  by (induction a rule: chainSteps.induct) simp_all

lemma group_frame:
  "cr (snd (assureStorageAccount_group w cfg pe n tags s)) = cr s
   \<and> Config (snd (assureStorageAccount_group w cfg pe n tags s)) = Config s"
  unfolding assureStorageAccount_group_def
  by (simp split: option.split prod.split)

lemma group_steps:
  "\<exists>X. calls (snd (assureStorageAccount_group w cfg pe n tags s)) = calls s @ X
       \<and> prefix (chainSteps X) [ZoneGroupStep, LinkStep]"
  unfolding assureStorageAccount_group_def
  by (simp split: option.split prod.split)

lemma group_created:
  "fst (assureStorageAccount_group w cfg pe n tags s) = Returned (m, True, None) \<Longrightarrow>
     m = n \<and> (\<exists>e. peName pe = Some e \<and> calls (snd (assureStorageAccount_group w cfg pe n tags s))
        = calls s @ [PrivateDNSZoneGroupsCreate e ''privatelink-blob-core-windows-net'',
                     VirtualNetworkLinksCreate ''privatelink.blob.core.windows.net'' ''whatever123''])"
  unfolding assureStorageAccount_group_def
  by (auto simp: replaceDots_def split: option.splits prod.splits)

lemma group_not_false:
  "fst (assureStorageAccount_group w cfg pe n tags s) \<noteq> Returned (m, False, None)"
  unfolding assureStorageAccount_group_def
  by (simp split: option.split prod.split)

lemma dns_frame:
  "cr (snd (assureStorageAccount_dns w cfg cl pe n tags s)) = cr s
   \<and> Config (snd (assureStorageAccount_dns w cfg cl pe n tags s)) = Config s"
  unfolding assureStorageAccount_dns_def
  by (auto simp: group_frame dest: createRecordSet_eq split: option.split prod.split outcome.split)

lemma createRecordSet_run:
  "createRecordSet w s pe rg n z = (r, s') \<Longrightarrow>
     cr s' = cr s \<and> Config s' = Config s \<and> draws s' = draws s
     \<and> (\<exists>X. calls s' = calls s @ X \<and> prefix (chainSteps X) [RecordStep]
            \<and> (r = Returned None \<longrightarrow> (\<exists>nic. X = [InterfacesGet nic, RecordSetsCreate z n])))"
  by (auto simp: createRecordSet_def Let_def split: option.splits list.splits sum.splits)

lemma prefix_single_Cons: "prefix xs [a] \<Longrightarrow> prefix xs (a # rest)"
  by (cases xs) auto

lemma dns_steps:
  "\<exists>X. calls (snd (assureStorageAccount_dns w cfg cl pe n tags s)) = calls s @ X
       \<and> prefix (chainSteps X) [ZoneStep, RecordStep, ZoneGroupStep, LinkStep]"
proof (cases "fst (createPrivateDNSZone w s (ResourceGroup cfg) cl ''privatelink.blob.core.windows.net'' tags)")
  case (Some err)
  then show ?thesis
    unfolding assureStorageAccount_dns_def by (simp split: prod.split)
next
  case None
  let ?s5 = "issue s (PrivateZonesCreate ''privatelink.blob.core.windows.net'')"
  obtain r s6 where rs: "createRecordSet w ?s5 pe (ResourceGroup cfg) n ''privatelink.blob.core.windows.net'' = (r, s6)"
    by (cases "createRecordSet w ?s5 pe (ResourceGroup cfg) n ''privatelink.blob.core.windows.net''")
  from createRecordSet_run [OF rs] obtain X where
    X: "calls s6 = calls ?s5 @ X" "prefix (chainSteps X) [RecordStep]"
       "r = Returned None \<longrightarrow> (\<exists>nic. X = [InterfacesGet nic, RecordSetsCreate ''privatelink.blob.core.windows.net'' n])"
    by blast
  show ?thesis
  proof (cases "r = Returned None")
    case True
    from group_steps [of w cfg pe n tags s6] obtain Y where
      Y: "calls (snd (assureStorageAccount_group w cfg pe n tags s6)) = calls s6 @ Y"
         "prefix (chainSteps Y) [ZoneGroupStep, LinkStep]"
      by blast
    from True X(3) obtain nic where
      "X = [InterfacesGet nic, RecordSetsCreate ''privatelink.blob.core.windows.net'' n]"
      by blast
    with None rs True X(1) Y show ?thesis
      unfolding assureStorageAccount_dns_def
      by (simp add: chainSteps_append split: prod.split)
  next
    case False
    with None rs X show ?thesis
      unfolding assureStorageAccount_dns_def
      by (cases r) (auto simp: chainSteps_append prefix_single_Cons split: prod.split option.split)
  qed
qed

lemma dns_created:
  "fst (assureStorageAccount_dns w cfg cl pe n tags s) = Returned (m, True, None) \<Longrightarrow>
     m = n \<and> (\<exists>e nic. peName pe = Some e \<and> calls (snd (assureStorageAccount_dns w cfg cl pe n tags s))
        = calls s @ [PrivateZonesCreate ''privatelink.blob.core.windows.net'',
                     InterfacesGet nic,
                     RecordSetsCreate ''privatelink.blob.core.windows.net'' n,
                     PrivateDNSZoneGroupsCreate e ''privatelink-blob-core-windows-net'',
                     VirtualNetworkLinksCreate ''privatelink.blob.core.windows.net'' ''whatever123''])"
  unfolding assureStorageAccount_dns_def
  by (auto split: option.splits prod.splits outcome.splits
      dest!: createRecordSet_run group_created)

lemma dns_not_false:
  "fst (assureStorageAccount_dns w cfg cl pe n tags s) \<noteq> Returned (m, False, None)"
  unfolding assureStorageAccount_dns_def
  by (simp add: group_not_false split: option.split prod.split outcome.split)

lemma endpoint_frame:
  "cr (snd (assureStorageAccount_endpoint w cfg infra cl n tags s)) = cr s
   \<and> Config (snd (assureStorageAccount_endpoint w cfg infra cl n tags s)) = Config s"
  unfolding assureStorageAccount_endpoint_def
  by (simp add: dns_frame split: sum.split prod.split)

lemma endpoint_steps:
  "\<exists>X. calls (snd (assureStorageAccount_endpoint w cfg infra cl n tags s)) = calls s @ X
       \<and> prefix (chainSteps X) fullChain"
proof -
  let ?pe = "generateAccountName (InfrastructureName infra) (randString w (draws s))"
  let ?s4 = "issue (s\<lparr>draws := draws s + 1\<rparr>) (PrivateEndpointsCreate ?pe)"
  let ?r = "fst (createPrivateEndpoint w (s\<lparr>draws := draws s + 1\<rparr>) (ResourceGroup cfg) ?pe n
                  (Region cfg) (SubscriptionID cfg) cl tags)"
  show ?thesis
  proof (cases ?r)
    case (Inl err)
    then have "calls (snd (assureStorageAccount_endpoint w cfg infra cl n tags s))
                 = calls s @ [PrivateEndpointsCreate ?pe]"
      unfolding assureStorageAccount_endpoint_def by (simp split: prod.split)
    moreover have "prefix (chainSteps [PrivateEndpointsCreate ?pe]) fullChain"
      by (simp add: fullChain_def)
    ultimately show ?thesis by blast
  next
    case (Inr pe)
    from dns_steps [of w cfg cl pe n tags ?s4] obtain Y where
      Y: "calls (snd (assureStorageAccount_dns w cfg cl pe n tags ?s4)) = calls ?s4 @ Y"
         "prefix (chainSteps Y) [ZoneStep, RecordStep, ZoneGroupStep, LinkStep]"
      by blast
    from Inr Y(1) have "calls (snd (assureStorageAccount_endpoint w cfg infra cl n tags s))
                 = calls s @ (PrivateEndpointsCreate ?pe # Y)"
      unfolding assureStorageAccount_endpoint_def by (simp split: prod.split)
    moreover from Y(2) have "prefix (chainSteps (PrivateEndpointsCreate ?pe # Y)) fullChain"
      by (simp add: fullChain_def)
    ultimately show ?thesis by blast
  qed
qed

lemma endpoint_created:
  "fst (assureStorageAccount_endpoint w cfg infra cl n tags s) = Returned (m, True, None) \<Longrightarrow>
     m = n \<and> (\<exists>e nic. calls (snd (assureStorageAccount_endpoint w cfg infra cl n tags s))
        = calls s @ [PrivateEndpointsCreate (generateAccountName (InfrastructureName infra) (randString w (draws s))),
                     PrivateZonesCreate ''privatelink.blob.core.windows.net'',
                     InterfacesGet nic,
                     RecordSetsCreate ''privatelink.blob.core.windows.net'' n,
                     PrivateDNSZoneGroupsCreate e ''privatelink-blob-core-windows-net'',
                     VirtualNetworkLinksCreate ''privatelink.blob.core.windows.net'' ''whatever123''])"
  unfolding assureStorageAccount_endpoint_def
  by (auto split: sum.splits prod.splits dest!: dns_created)

lemma endpoint_not_false:
  "fst (assureStorageAccount_endpoint w cfg infra cl n tags s) \<noteq> Returned (m, False, None)"
  unfolding assureStorageAccount_endpoint_def
  by (simp add: dns_not_false split: sum.split prod.split)

lemma clients_cases:
  "assureStorageAccount_clients w cfg infra env cl n tags s
     = assureStorageAccount_endpoint w cfg infra cl n tags s
   \<or> (\<exists>err. assureStorageAccount_clients w cfg infra env cl n tags s = (Returned ('''', False, Some err), s))"
  unfolding assureStorageAccount_clients_def
  by (simp split: option.split)

lemma clients_frame:
  "cr (snd (assureStorageAccount_clients w cfg infra env cl n tags s)) = cr s
   \<and> Config (snd (assureStorageAccount_clients w cfg infra env cl n tags s)) = Config s"
  using clients_cases [of w cfg infra env cl n tags s] endpoint_frame [of w cfg infra cl n tags s]
  by auto

lemma clients_steps:
  "\<exists>X. calls (snd (assureStorageAccount_clients w cfg infra env cl n tags s)) = calls s @ X
       \<and> prefix (chainSteps X) fullChain"
  using clients_cases [of w cfg infra env cl n tags s] endpoint_steps [of w cfg infra cl n tags s]
  by auto

lemma clients_created:
  "fst (assureStorageAccount_clients w cfg infra env cl n tags s) = Returned (m, True, None) \<Longrightarrow>
     m = n \<and> (\<exists>e nic. calls (snd (assureStorageAccount_clients w cfg infra env cl n tags s))
        = calls s @ [PrivateEndpointsCreate (generateAccountName (InfrastructureName infra) (randString w (draws s))),
                     PrivateZonesCreate ''privatelink.blob.core.windows.net'',
                     InterfacesGet nic,
                     RecordSetsCreate ''privatelink.blob.core.windows.net'' n,
                     PrivateDNSZoneGroupsCreate e ''privatelink-blob-core-windows-net'',
                     VirtualNetworkLinksCreate ''privatelink.blob.core.windows.net'' ''whatever123''])"
  using clients_cases [of w cfg infra env cl n tags s] endpoint_created [of w cfg infra cl n tags s m]
  by auto

lemma clients_not_false:
  "fst (assureStorageAccount_clients w cfg infra env cl n tags s) \<noteq> Returned (m, False, None)"
  using clients_cases [of w cfg infra env cl n tags s] endpoint_not_false [of w cfg infra cl n tags s m]
  by auto

text \<open>The shapes a run of assureStorageAccount can take.\<close>

lemma assureStorageAccount_shapes:
  fixes w cfg infra s
  defines "r \<equiv> assureStorageAccount w cfg infra s"
      and "name \<equiv> resolvedAccountName w infra s"
  shows "(calls (snd r) = calls s \<and> (\<exists>err. fst r = Returned ('''', False, Some err)))
       \<or> (checkNameAvailability w (calls s) name \<noteq> Inr (Some True)
            \<and> calls (snd r) = calls s @ [CheckNameAvailability name]
            \<and> (\<forall>m. fst r \<noteq> Returned (m, True, None))
            \<and> (\<forall>m. fst r = Returned (m, False, None) \<longrightarrow>
                  m = name \<and> AccountName (Config s) \<noteq> ''''
                  \<and> checkNameAvailability w (calls s) name = Inr (Some False)))
       \<or> (checkNameAvailability w (calls s) name = Inr (Some True)
            \<and> (\<exists>X. calls (snd r) = calls s @ [CheckNameAvailability name, AccountsCreate name] @ X
                  \<and> prefix (chainSteps X) fullChain
                  \<and> (\<forall>m. fst r = Returned (m, True, None) \<longrightarrow> m = name \<and>
                        (\<exists>pe e nic. X = [PrivateEndpointsCreate pe,
                             PrivateZonesCreate ''privatelink.blob.core.windows.net'',
                             InterfacesGet nic,
                             RecordSetsCreate ''privatelink.blob.core.windows.net'' name,
                             PrivateDNSZoneGroupsCreate e ''privatelink-blob-core-windows-net'',
                             VirtualNetworkLinksCreate ''privatelink.blob.core.windows.net'' ''whatever123'']))
                  \<and> (\<forall>m. fst r \<noteq> Returned (m, False, None))))"
proof (cases "getEnvironmentByName w (CloudName (Config s))")
  case (Inl err)
  then show ?thesis
    unfolding r_def by (simp add: assureStorageAccount_stages)
next
  case (Inr env)
  note env = this
  show ?thesis
  proof (cases "storageAccountsClient w cfg env")
    case (Some err)
    with env show ?thesis
      unfolding r_def by (simp add: assureStorageAccount_stages)
  next
    case None
    note client = this
    let ?s0 = "if AccountName (Config s) = '''' then s\<lparr>draws := draws s + 1\<rparr> else s"
    have calls0: "calls ?s0 = calls s" by simp
    let ?s1 = "issue ?s0 (CheckNameAvailability name)"
    show ?thesis
    proof (cases "checkNameAvailability w (calls s) name = Inr (Some True)")
      case False
      with env client calls0 show ?thesis
        unfolding r_def name_def
        by (auto simp: assureStorageAccount_stages split: sum.split option.split prod.split)
    next
      case True
      let ?c = "createStorageAccount w ?s1 (ResourceGroup cfg) name (Region cfg)
             (CloudName (Config s)) (assureStorageAccount_tags infra)"
      show ?thesis
      proof (cases "fst ?c")
        case (Some err)
        with env client calls0 True show ?thesis
          unfolding r_def name_def
          by (auto simp: assureStorageAccount_stages fullChain_def split: prod.split)
      next
        case None
        let ?s2 = "issue ?s1 (AccountsCreate name)"
        let ?k = "assureStorageAccount_clients w cfg infra env (CloudName (Config s)) name
                    (assureStorageAccount_tags infra) ?s2"
        have r: "r = ?k"
          using env client calls0 True None
          unfolding r_def name_def
          by (auto simp: assureStorageAccount_stages split: prod.split)
        from clients_steps [of w cfg infra env "CloudName (Config s)" name "assureStorageAccount_tags infra" ?s2]
        obtain X where X: "calls (snd ?k) = calls ?s2 @ X" "prefix (chainSteps X) fullChain"
          by blast
        have created: "m = name \<and> (\<exists>pe e nic. X = [PrivateEndpointsCreate pe,
                             PrivateZonesCreate ''privatelink.blob.core.windows.net'',
                             InterfacesGet nic,
                             RecordSetsCreate ''privatelink.blob.core.windows.net'' name,
                             PrivateDNSZoneGroupsCreate e ''privatelink-blob-core-windows-net'',
                             VirtualNetworkLinksCreate ''privatelink.blob.core.windows.net'' ''whatever123''])"
          if "fst ?k = Returned (m, True, None)" for m
          using clients_created [OF that] X(1) by auto
        have nf: "fst ?k \<noteq> Returned (m, False, None)" for m
          by (rule clients_not_false)
        have "calls (snd r) = calls s @ [CheckNameAvailability name, AccountsCreate name] @ X"
          using X(1) r by simp
        with True X(2) created nf r show ?thesis
          by blast
      qed
    qed
  qed
qed

lemma assureStorageAccount_frame:
  "cr (snd (assureStorageAccount w cfg infra s)) = cr s"
  "Config (snd (assureStorageAccount w cfg infra s)) = Config s"
  by (auto simp: assureStorageAccount_stages clients_frame split: sum.split option.split prod.split)

lemma assureContainer_frame:
  "cr (snd (assureContainer w cfg s)) = cr s"
  unfolding assureContainer_def
  by (auto simp: Let_def pair_eq_iff [of "createStorageContainer _ _ _ _ _ _"]
        pair_eq_iff [of "containerExists _ _ _ _ _ _"]
        createStorageContainer_frame containerExists_frame
      split: sum.split option.split prod.split)

lemma assureStorageAccount_eq_frame:
  "assureStorageAccount w cfg infra s = (r, s') \<Longrightarrow> cr s' = cr s"
  using assureStorageAccount_frame(1) [of w cfg infra s] by simp

lemma assureContainer_eq_frame:
  "assureContainer w cfg s = (r, s') \<Longrightarrow> cr s' = cr s"
  using assureContainer_frame [of w cfg s] by simp

lemma containerExists_eq_frame:
  "containerExists w s env a k c = (r, s') \<Longrightarrow> cr s' = cr s \<and> Config s' = Config s"
  using containerExists_frame [of w s env a k c] by simp

lemma deleteStorageContainer_eq_frame:
  "deleteStorageContainer w s env a k c = (r, s') \<Longrightarrow> cr s' = cr s \<and> Config s' = Config s"
  using deleteStorageContainer_frame [of w s env a k c] by simp

lemma getKey_eq_frame:
  "getKey w cfg env s = (r, s') \<Longrightarrow> cr s' = cr s \<and> Config s' = Config s"
  by (auto simp: getKey_def split: if_splits option.splits)

lemma processUPI_conditions:
  "\<exists>c. Conditions (cr (processUPI s)) = Conditions (cr s) @ [c]"
  by (simp add: processUPI_def Let_def)

lemma CreateStorage_stages:
  "CreateStorage w s =
     (case GetConfig w of
        Inl err \<Rightarrow>
          (Returned (Some err),
           UpdateCondition s ConditionUnknown storageExistsReasonConfigError
             (MessageErr ''Unable to get configuration: %s'' err))
      | Inr cfg \<Rightarrow>
     (if AccountKey cfg \<noteq> '''' then (Returned None, processUPI s)
      else
     (case GetInfrastructure w of
        Inl err \<Rightarrow>
          (Returned (Some err),
           UpdateCondition s ConditionUnknown storageExistsReasonConfigError
             (MessageErr ''Unable to get infrastructure: %s'' err))
      | Inr infra \<Rightarrow> CreateStorage_account w cfg infra (CreateStorage_cloudName infra s))))"
  by (simp only: CreateStorage_def CreateStorage_account_def CreateStorage_container_def
      CreateStorage_finish_def CreateStorage_cloudName_def Let_def)

lemma RemoveStorage_stages:
  "RemoveStorage w s =
     (if ManagementState (cr s) \<noteq> StorageManagementStateManaged then (Returned (False, None), s)
      else if AccountName (Config s) = ''''
      then (Returned (False, None),
            UpdateCondition s ConditionFalse storageExistsReasonNotConfigured
              (Message ''Storage is not configured''))
      else
     (case GetConfig w of
        Inl err \<Rightarrow>
          (Returned (False, Some err),
           UpdateCondition s ConditionUnknown storageExistsReasonConfigError
             (MessageErr ''Unable to get configuration: %s'' err))
      | Inr cfg \<Rightarrow>
     (case getEnvironmentByName w (CloudName (Config s)) of
        Inl err \<Rightarrow>
          (Returned (False, Some err),
           UpdateCondition s ConditionUnknown storageExistsReasonConfigError
             (MessageErr ''Unable to get cloud environment: %s'' err))
      | Inr env \<Rightarrow>
     (case storageAccountsClient w cfg env of
        Some err \<Rightarrow>
          (Returned (False, Some err),
           UpdateCondition s ConditionUnknown storageExistsReasonAzureError
             (MessageErr ''Unable to get accounts client: %s'' err))
      | None \<Rightarrow>
     (case RemoveStorage_container w cfg env s of
        Inl stopped \<Rightarrow> stopped
      | Inr s6 \<Rightarrow> RemoveStorage_account w cfg s6)))))"
  by (simp only: RemoveStorage_def RemoveStorage_container_def RemoveStorage_account_def Let_def)

lemma CreateStorage_cloudName_frame:
  "cr (CreateStorage_cloudName infra s) = cr s"
  "calls (CreateStorage_cloudName infra s) = calls s"
  "draws (CreateStorage_cloudName infra s) = draws s"
  "AccountName (Config (CreateStorage_cloudName infra s)) = AccountName (Config s)"
  "Container (Config (CreateStorage_cloudName infra s)) = Container (Config s)"
  by (simp_all add: CreateStorage_cloudName_def split: option.split)

lemma CreateStorage_finish_conditions:
  "Conditions (cr (CreateStorage_finish a n c s))
     = Conditions (cr s) @ [(ConditionTrue, storageExistsReasonContainerExists,
                             Message ''Storage container exists'')]"
  by (simp add: CreateStorage_finish_def Let_def)

lemma CreateStorage_container_conditions:
  "\<exists>c. Conditions (cr (snd (CreateStorage_container w cfg n a s)))
         = Conditions (cr s) @ [c]"
proof -
  let ?s2 = "s\<lparr>Config := (Config s)\<lparr>AccountName := n\<rparr>\<rparr>"
  obtain cn cc e s3 where r: "assureContainer w cfg ?s2 = ((cn, cc, e), s3)"
    by (metis prod.exhaust)
  then have "cr s3 = cr s"
    using assureContainer_frame [of w cfg ?s2] by simp
  with r show ?thesis
    by (cases e) (simp_all add: CreateStorage_container_def CreateStorage_finish_conditions)
qed

lemma CreateStorage_account_conditions:
  "fst (CreateStorage_account w cfg infra s) = Panic
   \<or> (\<exists>c. Conditions (cr (snd (CreateStorage_account w cfg infra s))) = Conditions (cr s) @ [c])"
proof -
  obtain r s1 where r: "assureStorageAccount w cfg infra s = (r, s1)"
    by (metis prod.exhaust)
  then have f: "cr s1 = cr s"
    using assureStorageAccount_frame(1) [of w cfg infra s] by simp
  show ?thesis
  proof (cases r)
    case Panic
    with r show ?thesis by (simp add: CreateStorage_account_def)
  next
    case (Returned t)
    obtain n a e where t: "t = (n, a, e)" by (metis prod.exhaust)
    show ?thesis
    proof (cases e)
      case None
      with r Returned t f CreateStorage_container_conditions [of w cfg n a s1]
      show ?thesis by (simp add: CreateStorage_account_def)
    next
      case (Some err)
      with r Returned t f show ?thesis by (simp add: CreateStorage_account_def)
    qed
  qed
qed

lemma CreateStorage_conditions:
  "fst (CreateStorage w s) = Panic
   \<or> (\<exists>c. Conditions (cr (snd (CreateStorage w s))) = Conditions (cr s) @ [c])"
proof (cases "GetConfig w")
  case (Inl err)
  then show ?thesis by (simp add: CreateStorage_stages)
next
  case (Inr cfg)
  note cfg = this
  show ?thesis
  proof (cases "AccountKey cfg \<noteq> ''''")
    case True
    with cfg processUPI_conditions [of s] show ?thesis by (simp add: CreateStorage_stages)
  next
    case False
    show ?thesis
    proof (cases "GetInfrastructure w")
      case (Inl err)
      with cfg False show ?thesis by (simp add: CreateStorage_stages)
    next
      case (Inr infra)
      with cfg False
        CreateStorage_account_conditions [of w cfg infra "CreateStorage_cloudName infra s"]
      show ?thesis by (simp add: CreateStorage_stages CreateStorage_cloudName_frame)
    qed
  qed
qed

lemma StorageExists_conditions:
  "\<exists>c. Conditions (cr (snd (StorageExists w s))) = Conditions (cr s) @ [c]"
  unfolding StorageExists_def
  by (auto simp: Let_def split: sum.splits option.splits prod.splits
      dest!: getKey_eq_frame containerExists_eq_frame)

lemma getAccountPrimaryKey_eq_frame:
  "getAccountPrimaryKey w s rg n = (r, s') \<Longrightarrow> cr s' = cr s \<and> Config s' = Config s"
  by auto

lemma RemoveStorage_container_stopped:
  assumes "RemoveStorage_container w cfg env s = Inl (Returned r, s')"
  shows "(\<exists>c. Conditions (cr s') = Conditions (cr s) @ [c])
       \<and> Container (Config s') = Container (Config s)"
proof -
  from assms have ne: "Container (Config s) \<noteq> ''''"
    by (auto simp: RemoveStorage_container_def split: if_splits)
  obtain k s1 where k: "getAccountPrimaryKey w s (ResourceGroup cfg) (AccountName (Config s)) = (k, s1)"
    by (metis prod.exhaust)
  then have f1: "cr s1 = cr s" "Config s1 = Config s"
    using getAccountPrimaryKey_eq_frame by blast+
  show ?thesis
  proof (cases k)
    case (Inl err)
    with assms ne k f1 show ?thesis
      by (auto simp: RemoveStorage_container_def Let_def split: error.splits option.splits)
  next
    case (Inr key)
    obtain d s2 where d: "deleteStorageContainer w s1 env (AccountName (Config s1)) key
                            (Container (Config s1)) = (d, s2)"
      by (metis prod.exhaust)
    then have f2: "cr s2 = cr s1" "Config s2 = Config s1"
      using deleteStorageContainer_eq_frame by blast+
    from assms ne k Inr d f1 f2 show ?thesis
      by (auto simp: RemoveStorage_container_def Let_def split: option.splits)
  qed
qed

lemma RemoveStorage_container_continues:
  assumes "RemoveStorage_container w cfg env s = Inr s6"
  shows "(Container (Config s) = '''' \<and> s6 = s)
       \<or> (Container (Config s) \<noteq> '''' \<and> Container (Config s6) = ''''
           \<and> AccountName (Config s6) = AccountName (Config s)
           \<and> Conditions (cr s6) = Conditions (cr s) @
                [(ConditionFalse, storageExistsReasonContainerDeleted,
                  Message ''Storage container has been deleted'')])"
proof (cases "Container (Config s) = ''''")
  case True
  with assms show ?thesis by (simp add: RemoveStorage_container_def)
next
  case False
  obtain k s1 where k: "getAccountPrimaryKey w s (ResourceGroup cfg) (AccountName (Config s)) = (k, s1)"
    by (metis prod.exhaust)
  then have f1: "cr s1 = cr s" "Config s1 = Config s"
    using getAccountPrimaryKey_eq_frame by blast+
  show ?thesis
  proof (cases k)
    case (Inl err)
    with assms False k show ?thesis
      by (auto simp: RemoveStorage_container_def Let_def split: error.splits option.splits)
  next
    case (Inr key)
    obtain d s2 where d: "deleteStorageContainer w s1 env (AccountName (Config s1)) key
                            (Container (Config s1)) = (d, s2)"
      by (metis prod.exhaust)
    then have f2: "cr s2 = cr s1" "Config s2 = Config s1"
      using deleteStorageContainer_eq_frame by blast+
    from assms False k Inr d f1 f2 show ?thesis
      by (auto simp: RemoveStorage_container_def Let_def split: option.splits)
  qed
qed

lemma RemoveStorage_account_conditions:
  "fst (RemoveStorage_account w cfg s) = Returned r \<Longrightarrow>
     (\<exists>c. Conditions (cr (snd (RemoveStorage_account w cfg s))) = Conditions (cr s) @ [c])
     \<and> Container (Config (snd (RemoveStorage_account w cfg s))) = Container (Config s)"
  by (auto simp: RemoveStorage_account_def Let_def split: option.splits)

lemma RemoveStorage_conditions:
  assumes "fst (RemoveStorage w s) = Returned r"
  shows "if ManagementState (cr s) \<noteq> StorageManagementStateManaged
         then Conditions (cr (snd (RemoveStorage w s))) = Conditions (cr s)
         else if Container (Config s) \<noteq> '''' \<and> Container (Config (snd (RemoveStorage w s))) = ''''
         then \<exists>c. Conditions (cr (snd (RemoveStorage w s)))
                 = Conditions (cr s) @
                   [(ConditionFalse, storageExistsReasonContainerDeleted,
                     Message ''Storage container has been deleted''), c]
         else \<exists>c. Conditions (cr (snd (RemoveStorage w s))) = Conditions (cr s) @ [c]"
proof (cases "ManagementState (cr s) \<noteq> StorageManagementStateManaged")
  case True
  then show ?thesis by (simp add: RemoveStorage_stages)
next
  case False
  note managed = this
  show ?thesis
  proof (cases "AccountName (Config s) = ''''")
    case True
    with managed show ?thesis by (simp add: RemoveStorage_stages)
  next
    case False
    note account = this
    show ?thesis
    proof (cases "GetConfig w")
      case (Inl err)
      with managed account show ?thesis by (simp add: RemoveStorage_stages)
    next
      case (Inr cfg)
      note cfg = this
      show ?thesis
      proof (cases "getEnvironmentByName w (CloudName (Config s))")
        case (Inl err)
        with managed account cfg show ?thesis by (simp add: RemoveStorage_stages)
      next
        case (Inr env)
        note env = this
        show ?thesis
        proof (cases "storageAccountsClient w cfg env")
          case (Some err)
          with managed account cfg env show ?thesis by (simp add: RemoveStorage_stages)
        next
          case None
          note client = this
          show ?thesis
          proof (cases "RemoveStorage_container w cfg env s")
            case (Inl stopped)
            obtain res s' where stopped: "stopped = (res, s')" by (metis prod.exhaust)
            from managed account cfg env client Inl stopped
            have run: "RemoveStorage w s = (res, s')" by (simp add: RemoveStorage_stages)
            with assms have res: "res = Returned r" by simp
            from RemoveStorage_container_stopped [OF Inl [unfolded stopped res]] run managed
            show ?thesis by auto
          next
            case (Inr s6)
            from managed account cfg env client Inr
            have run: "RemoveStorage w s = RemoveStorage_account w cfg s6"
              by (simp add: RemoveStorage_stages)
            from RemoveStorage_account_conditions [of w cfg s6 r] assms run
            have acc: "\<exists>c. Conditions (cr (snd (RemoveStorage w s))) = Conditions (cr s6) @ [c]"
              "Container (Config (snd (RemoveStorage w s))) = Container (Config s6)"
              by auto
            from RemoveStorage_container_continues [OF Inr] acc managed
            show ?thesis by auto
          qed
        qed
      qed
    qed
  qed
qed

lemma toLower_length: "length (toLower xs) = length xs"
  by (simp add: toLower_def)

lemma generateAccountName_not_empty: "generateAccountName infra sfx \<noteq> ''''"
proof -
  have "replaceAllInvalid (''imageregistry'' @ infra) \<noteq> []"
    by (simp add: replaceAllInvalid_def storageAccountInvalidChar_def is_digit_def is_upper_def
        is_lower_def)
  then have "0 < length (generateAccountName infra sfx)"
    by (simp add: generateAccountName_def Let_def toLower_length)
  then show ?thesis by auto
qed

lemma resolvedAccountName_not_empty: "resolvedAccountName w infra s \<noteq> ''''"
  by (simp add: resolvedAccountName_def generateAccountName_not_empty)

lemma assureContainer_Config:
  "Config (snd (assureContainer w cfg s)) = Config s"
  unfolding assureContainer_def
  by (auto simp: Let_def pair_eq_iff [of "createStorageContainer _ _ _ _ _ _"]
        pair_eq_iff [of "containerExists _ _ _ _ _ _"]
        createStorageContainer_frame containerExists_frame
      split: sum.split option.split prod.split)

lemma assureStorageAccount_ok_client:
  assumes "fst (assureStorageAccount w cfg infra s) = Returned (n, a, None)"
  shows "\<exists>env. getEnvironmentByName w (CloudName (Config s)) = Inr env
              \<and> storageAccountsClient w cfg env = None"
proof (cases "getEnvironmentByName w (CloudName (Config s))")
  case (Inl err)
  with assms show ?thesis by (simp add: assureStorageAccount_stages)
next
  case (Inr env)
  with assms show ?thesis
    by (cases "storageAccountsClient w cfg env") (simp_all add: assureStorageAccount_stages)
qed

lemma assureStorageAccount_ok_name:
  assumes "fst (assureStorageAccount w cfg infra s) = Returned (n, a, None)"
  shows "n = resolvedAccountName w infra s"
  using assureStorageAccount_shapes [of w cfg infra s] assms
  by (cases a) auto

lemma endpoint_first:
  "\<exists>Y. calls (snd (assureStorageAccount_endpoint w cfg infra cl n tags s))
         = calls s @ PrivateEndpointsCreate
             (generateAccountName (InfrastructureName infra) (randString w (draws s))) # Y"
proof -
  let ?pe = "generateAccountName (InfrastructureName infra) (randString w (draws s))"
  let ?s4 = "issue (s\<lparr>draws := draws s + 1\<rparr>) (PrivateEndpointsCreate ?pe)"
  let ?r = "fst (createPrivateEndpoint w (s\<lparr>draws := draws s + 1\<rparr>) (ResourceGroup cfg) ?pe n
                  (Region cfg) (SubscriptionID cfg) cl tags)"
  show ?thesis
  proof (cases ?r)
    case (Inl err)
    then show ?thesis
      unfolding assureStorageAccount_endpoint_def by (simp split: prod.split)
  next
    case (Inr pe)
    from dns_steps [of w cfg cl pe n tags ?s4] obtain Y where
      "calls (snd (assureStorageAccount_dns w cfg cl pe n tags ?s4)) = calls ?s4 @ Y"
      by blast
    with Inr show ?thesis
      unfolding assureStorageAccount_endpoint_def by (simp split: prod.split)
  qed
qed

lemma clients_exact:
  "(if privateEndpointsClient w cfg env = None \<and> privateZonesClient w cfg env = None
       \<and> recordSetsClient w cfg env = None \<and> privateZoneGroupsClient w cfg env = None
       \<and> vnetLinksClient w cfg env = None \<and> interfacesClient w cfg env = None
    then assureStorageAccount_clients w cfg infra env cl n tags s
           = assureStorageAccount_endpoint w cfg infra cl n tags s
    else snd (assureStorageAccount_clients w cfg infra env cl n tags s) = s)"
  unfolding assureStorageAccount_clients_def
  by (auto split: option.split)

lemma createStorageAccount_ok:
  "(fst (createStorageAccount w s rg n loc cl tags) = None)
     = (accountsCreate w (calls s) rg n loc (equalFold cl ''AZURESTACKCLOUD'') tags = Created)"
  by (simp add: createStorageAccount_def Let_def split: create_result.split)

text \<open>When assureStorageAccount asks for the account, and when it starts the chain.\<close>

lemma assureStorageAccount_chain_start:
  fixes w cfg infra s
  defines "name \<equiv> resolvedAccountName w infra s"
      and "sent \<equiv> issued s (snd (assureStorageAccount w cfg infra s))"
  defines "available \<equiv> (\<exists>env. getEnvironmentByName w (CloudName (Config s)) = Inr env
                           \<and> storageAccountsClient w cfg env = None
                           \<and> checkNameAvailability w (calls s) name = Inr (Some True))"
  defines "created \<equiv> (available
                        \<and> accountsCreate w (calls s @ [CheckNameAvailability name]) (ResourceGroup cfg)
                            name (Region cfg) (equalFold (CloudName (Config s)) ''AZURESTACKCLOUD'')
                            (assureStorageAccount_tags infra) = Created)"
  defines "clients \<equiv> (\<forall>env. getEnvironmentByName w (CloudName (Config s)) = Inr env \<longrightarrow>
                          privateEndpointsClient w cfg env = None \<and> privateZonesClient w cfg env = None
                          \<and> recordSetsClient w cfg env = None \<and> privateZoneGroupsClient w cfg env = None
                          \<and> vnetLinksClient w cfg env = None \<and> interfacesClient w cfg env = None)"
  shows "(AccountsCreate name \<in> set sent) = available
       \<and> (chainSteps sent \<noteq> []) = (created \<and> clients)
       \<and> (created \<and> \<not> clients \<longrightarrow> sent = [CheckNameAvailability name, AccountsCreate name])
       \<and> (available \<and> \<not> created \<longrightarrow> sent = [CheckNameAvailability name, AccountsCreate name])
       \<and> (created \<and> clients \<longrightarrow>
            take 3 sent = [CheckNameAvailability name, AccountsCreate name,
                           PrivateEndpointsCreate (generateAccountName (InfrastructureName infra)
                             (randString w (if AccountName (Config s) = '''' then draws s + 1
                                            else draws s)))])"
proof (cases "getEnvironmentByName w (CloudName (Config s))")
  case (Inl err)
  then show ?thesis
    unfolding sent_def available_def created_def clients_def
    by (simp add: assureStorageAccount_stages issued_def)
next
  case (Inr env)
  note env = this
  show ?thesis
  proof (cases "storageAccountsClient w cfg env")
    case (Some err)
    with env show ?thesis
      unfolding sent_def available_def created_def clients_def
      by (simp add: assureStorageAccount_stages issued_def)
  next
    case None
    note client = this
    let ?s0 = "if AccountName (Config s) = '''' then s\<lparr>draws := draws s + 1\<rparr> else s"
    have calls0: "calls ?s0 = calls s" by simp
    have draws0: "draws ?s0 = (if AccountName (Config s) = '''' then draws s + 1 else draws s)"
      by simp
    let ?s1 = "issue ?s0 (CheckNameAvailability name)"
    show ?thesis
    proof (cases "checkNameAvailability w (calls s) name = Inr (Some True)")
      case False
      with env client calls0 show ?thesis
        unfolding sent_def available_def created_def clients_def name_def
        by (auto simp: assureStorageAccount_stages issued_def
            split: sum.split option.split prod.split)
    next
      case True
      note probe = this
      have av: available
        unfolding available_def using env client probe by simp
      let ?c = "createStorageAccount w ?s1 (ResourceGroup cfg) name (Region cfg)
             (CloudName (Config s)) (assureStorageAccount_tags infra)"
      have cr: "(fst ?c = None) = created"
        unfolding created_def using av calls0 by (simp add: createStorageAccount_ok)
      show ?thesis
      proof (cases "fst ?c")
        case (Some err)
        with cr have nc: "\<not> created" by simp
        have "sent = [CheckNameAvailability name, AccountsCreate name]"
          using env client calls0 probe Some
          unfolding sent_def name_def
          by (auto simp: assureStorageAccount_stages issued_def split: prod.split)
        with av nc show ?thesis by simp
      next
        case None
        with cr have c: created by simp
        let ?s2 = "issue ?s1 (AccountsCreate name)"
        let ?k = "assureStorageAccount_clients w cfg infra env (CloudName (Config s)) name
                    (assureStorageAccount_tags infra) ?s2"
        have r: "assureStorageAccount w cfg infra s = ?k"
          using env client calls0 probe None
          unfolding name_def
          by (auto simp: assureStorageAccount_stages split: prod.split)
        have cl: "clients = (privateEndpointsClient w cfg env = None \<and> privateZonesClient w cfg env = None
                          \<and> recordSetsClient w cfg env = None \<and> privateZoneGroupsClient w cfg env = None
                          \<and> vnetLinksClient w cfg env = None \<and> interfacesClient w cfg env = None)"
          unfolding clients_def using env by simp
        show ?thesis
        proof (cases clients)
          case False
          with clients_exact [of w cfg env infra "CloudName (Config s)" name
                 "assureStorageAccount_tags infra" ?s2] cl
          have "snd ?k = ?s2" by simp
          then have "sent = [CheckNameAvailability name, AccountsCreate name]"
            unfolding sent_def r by (simp add: issued_def)
          with av c False show ?thesis by simp
        next
          case True
          with clients_exact [of w cfg env infra "CloudName (Config s)" name
                 "assureStorageAccount_tags infra" ?s2] cl
          have k: "?k = assureStorageAccount_endpoint w cfg infra (CloudName (Config s)) name
                    (assureStorageAccount_tags infra) ?s2" by simp
          from endpoint_first [of w cfg infra "CloudName (Config s)" name
                 "assureStorageAccount_tags infra" ?s2] k
          obtain Y where "calls (snd ?k) = calls ?s2 @ PrivateEndpointsCreate
             (generateAccountName (InfrastructureName infra) (randString w (draws ?s2))) # Y"
            by auto
          then have sent: "sent = [CheckNameAvailability name, AccountsCreate name,
                     PrivateEndpointsCreate (generateAccountName (InfrastructureName infra)
                       (randString w (if AccountName (Config s) = '''' then draws s + 1
                                      else draws s)))] @ Y"
            unfolding sent_def r by (simp add: issued_def)
          from av c True sent show ?thesis by auto
        qed
      qed
    qed
  qed
qed

lemma assureStorageAccount_chain_order:
  "prefix (chainSteps (issued s (snd (assureStorageAccount w cfg infra s)))) fullChain
   \<and> (chainSteps (issued s (snd (assureStorageAccount w cfg infra s))) \<noteq> [] \<longrightarrow>
        take 2 (issued s (snd (assureStorageAccount w cfg infra s)))
          = [CheckNameAvailability (resolvedAccountName w infra s),
             AccountsCreate (resolvedAccountName w infra s)]
        \<and> checkNameAvailability w (calls s) (resolvedAccountName w infra s) = Inr (Some True))
   \<and> (checkNameAvailability w (calls s) (resolvedAccountName w infra s) \<noteq> Inr (Some True) \<longrightarrow>
        chainSteps (issued s (snd (assureStorageAccount w cfg infra s))) = [])
   \<and> (\<forall>m. fst (assureStorageAccount w cfg infra s) = Returned (m, True, None) \<longrightarrow>
        m = resolvedAccountName w infra s
        \<and> checkNameAvailability w (calls s) (resolvedAccountName w infra s) = Inr (Some True)
        \<and> chainSteps (issued s (snd (assureStorageAccount w cfg infra s))) = fullChain
        \<and> (\<exists>pe e nic. issued s (snd (assureStorageAccount w cfg infra s))
              = [CheckNameAvailability m, AccountsCreate m,
                 PrivateEndpointsCreate pe,
                 PrivateZonesCreate ''privatelink.blob.core.windows.net'',
                 InterfacesGet nic,
                 RecordSetsCreate ''privatelink.blob.core.windows.net'' m,
                 PrivateDNSZoneGroupsCreate e ''privatelink-blob-core-windows-net'',
                 VirtualNetworkLinksCreate ''privatelink.blob.core.windows.net'' ''whatever123'']))
   \<and> (\<forall>m. fst (assureStorageAccount w cfg infra s) = Returned (m, False, None) \<longrightarrow>
        m = resolvedAccountName w infra s
        \<and> checkNameAvailability w (calls s) (resolvedAccountName w infra s) = Inr (Some False)
        \<and> issued s (snd (assureStorageAccount w cfg infra s)) = [CheckNameAvailability m])"
proof -
  let ?r = "assureStorageAccount w cfg infra s"
  let ?name = "resolvedAccountName w infra s"
  consider
    (none) "calls (snd ?r) = calls s" "\<exists>err. fst ?r = Returned ('''', False, Some err)"
  | (probe) "checkNameAvailability w (calls s) ?name \<noteq> Inr (Some True)"
      "calls (snd ?r) = calls s @ [CheckNameAvailability ?name]"
      "\<forall>m. fst ?r \<noteq> Returned (m, True, None)"
      "\<forall>m. fst ?r = Returned (m, False, None) \<longrightarrow>
            m = ?name \<and> AccountName (Config s) \<noteq> ''''
            \<and> checkNameAvailability w (calls s) ?name = Inr (Some False)"
  | (create) X where "checkNameAvailability w (calls s) ?name = Inr (Some True)"
      "calls (snd ?r) = calls s @ [CheckNameAvailability ?name, AccountsCreate ?name] @ X"
      "prefix (chainSteps X) fullChain"
      "\<forall>m. fst ?r = Returned (m, True, None) \<longrightarrow> m = ?name \<and>
            (\<exists>pe e nic. X = [PrivateEndpointsCreate pe,
                 PrivateZonesCreate ''privatelink.blob.core.windows.net'',
                 InterfacesGet nic,
                 RecordSetsCreate ''privatelink.blob.core.windows.net'' ?name,
                 PrivateDNSZoneGroupsCreate e ''privatelink-blob-core-windows-net'',
                 VirtualNetworkLinksCreate ''privatelink.blob.core.windows.net'' ''whatever123''])"
      "\<forall>m. fst ?r \<noteq> Returned (m, False, None)"
    using assureStorageAccount_shapes [of w cfg infra s] by blast
  then show ?thesis
  proof cases
    case none
    then show ?thesis
      by (auto simp: issued_def)
  next
    case probe
    then show ?thesis
      by (auto simp: issued_def)
  next
    case create
    have i: "issued s (snd ?r) = [CheckNameAvailability ?name, AccountsCreate ?name] @ X"
      using create(2) by (simp add: issued_def)
    have c: "chainSteps (issued s (snd ?r)) = chainSteps X"
      unfolding i by simp
    have full: "chainSteps X = fullChain" if "fst ?r = Returned (m, True, None)" for m
      using create(4) that by (auto simp: fullChain_def)
    show ?thesis
      unfolding c using create(1,3,4,5) full unfolding i by auto
  qed
qed

lemma CreateStorage_finish_Config:
  "Config (CreateStorage_finish a n c s) = (Config s)\<lparr>Container := n\<rparr>"
  "calls (CreateStorage_finish a n c s) = calls s"
  by (simp_all add: CreateStorage_finish_def Let_def)

lemma assureContainer_ok_url:
  assumes "fst (assureContainer w cfg s) = (cn, cc, None)"
      and "getEnvironmentByName w (CloudName (Config s)) = Inr env"
  shows "getBlobServiceURL w env (AccountName (Config s)) = None"
proof (rule ccontr)
  assume "getBlobServiceURL w env (AccountName (Config s)) \<noteq> None"
  then obtain err where url: "getBlobServiceURL w env (AccountName (Config s)) = Some err"
    by auto
  then have g: "getStorageContainer w env (AccountName (Config s)) k n \<noteq> None" for k n
    by (simp add: getStorageContainer_def split: option.split)
  have c: "createStorageContainer w t env (AccountName (Config s)) k n \<noteq> (None, t')" for t k n t'
    using g [of k n] by (auto simp: createStorageContainer_def split: option.splits)
  have x: "containerExists w t env (AccountName (Config s)) k n \<noteq> ((True, e), t')" for t k n e t'
    using url by (auto simp: containerExists_def split: option.splits)
  from assms show False
    unfolding assureContainer_def Let_def
    by (auto simp: c x split: sum.splits option.splits prod.splits if_splits)
qed

text \<open>What a successful run of the provisioning path of CreateStorage leaves behind.\<close>

lemma CreateStorage_account_success:
  assumes "CreateStorage_account w cfg infra s0 = (Returned None, s')"
  shows "\<exists>env. getEnvironmentByName w (CloudName (Config s0)) = Inr env
              \<and> storageAccountsClient w cfg env = None
              \<and> AccountName (Config s') = resolvedAccountName w infra s0
              \<and> CloudName (Config s') = CloudName (Config s0)
              \<and> getBlobServiceURL w env (AccountName (Config s')) = None"
proof -
  obtain r s1 where r: "assureStorageAccount w cfg infra s0 = (r, s1)"
    by (metis prod.exhaust)
  then have f: "Config s1 = Config s0"
    using assureStorageAccount_frame(2) [of w cfg infra s0] by simp
  show ?thesis
  proof (cases r)
    case Panic
    with r assms show ?thesis by (simp add: CreateStorage_account_def)
  next
    case (Returned t)
    obtain n a e where t: "t = (n, a, e)" by (metis prod.exhaust)
    show ?thesis
    proof (cases e)
      case (Some err)
      with r Returned t assms show ?thesis by (simp add: CreateStorage_account_def)
    next
      case None
      let ?s2 = "s1\<lparr>Config := (Config s1)\<lparr>AccountName := n\<rparr>\<rparr>"
      from r Returned t None have ok: "fst (assureStorageAccount w cfg infra s0) = Returned (n, a, None)"
        by simp
      obtain cn cc ce s3 where c: "assureContainer w cfg ?s2 = ((cn, cc, ce), s3)"
        by (metis prod.exhaust)
      then have f3: "Config s3 = Config ?s2"
        using assureContainer_Config [of w cfg ?s2] by simp
      from r Returned t None c assms have fin: "ce = None \<and> s' = CreateStorage_finish a cn cc s3"
        by (cases ce) (simp_all add: CreateStorage_account_def CreateStorage_container_def)
      then have cfg': "Config s' = (Config ?s2)\<lparr>Container := cn\<rparr>"
        using f3 by (simp add: CreateStorage_finish_Config)
      from assureStorageAccount_ok_client [OF ok] obtain env where
        env: "getEnvironmentByName w (CloudName (Config s0)) = Inr env"
          "storageAccountsClient w cfg env = None"
        by blast
      from c fin have "fst (assureContainer w cfg ?s2) = (cn, cc, None)" by simp
      moreover from env(1) f have "getEnvironmentByName w (CloudName (Config ?s2)) = Inr env"
        by simp
      ultimately have "getBlobServiceURL w env (AccountName (Config ?s2)) = None"
        by (rule assureContainer_ok_url)
      with cfg' f env assureStorageAccount_ok_name [OF ok]
      show ?thesis by auto
    qed
  qed
qed

lemma CreateStorage_cloudName_recorded:
  "AccountName (Config s) \<noteq> '''' \<Longrightarrow> CreateStorage_cloudName infra s = s"
  by (simp add: CreateStorage_cloudName_def)

section \<open>Naming strategy\<close>

lemma toLowerChar_valid:
  assumes "\<not> storageAccountInvalidChar c"
  shows "is_lower (toLowerChar c) \<or> is_digit (toLowerChar c)"
proof (cases "is_upper c")
  case True
  then have "(of_char c :: nat) + 32 < 256"
    by (simp add: is_upper_def)
  then have "(of_char (char_of ((of_char c :: nat) + 32)) :: nat) = of_char c + 32"
    by (simp add: of_char_of)
  with True show ?thesis
    by (simp add: toLowerChar_def is_lower_def is_upper_def)
next
  case False
  with assms show ?thesis
    by (auto simp: toLowerChar_def storageAccountInvalidChar_def)
qed

lemma alphanums_valid:
  assumes "c \<in> set alphanums"
  shows "\<not> storageAccountInvalidChar c"
  using assms
  by (auto simp: alphanums_def storageAccountInvalidChar_def is_digit_def is_lower_def)

lemma replaceAllInvalid_append:
  "replaceAllInvalid (a @ b) = replaceAllInvalid a @ replaceAllInvalid b"
  by (simp add: replaceAllInvalid_def)

lemma replaceAllInvalid_imageregistry:
  "replaceAllInvalid ''imageregistry'' = ''imageregistry''"
  by (simp add: replaceAllInvalid_def storageAccountInvalidChar_def is_lower_def)

lemma replaceAllInvalid_valid:
  "d \<in> set (replaceAllInvalid s) \<Longrightarrow> \<not> storageAccountInvalidChar d"
  by (simp add: replaceAllInvalid_def)

lemma generateAccountName_eq_spec:
  "generateAccountName infra sfx = generateAccountName_spec infra sfx"
proof -
  have "replaceAllInvalid (''imageregistry'' @ infra) = ''imageregistry'' @ replaceAllInvalid infra"
    by (simp only: replaceAllInvalid_append replaceAllInvalid_imageregistry)
  then show ?thesis
    unfolding generateAccountName_def generateAccountName_spec_def Let_def
    by (simp only: take_all_iff not_less split: if_splits) auto
qed

lemma generateAccountName_length:
  assumes "length sfx = 5"
  shows "18 \<le> length (generateAccountName infra sfx)"
    and "length (generateAccountName infra sfx) \<le> 24"
  using assms by (simp_all add: generateAccountName_def Let_def toLower_def)

lemma generateAccountName_chars:
  assumes "set sfx \<subseteq> set alphanums" and "c \<in> set (generateAccountName infra sfx)"
  shows "is_lower c \<or> is_digit c"
proof -
  define p where "p = replaceAllInvalid (''imageregistry'' @ infra)"
  have gen: "generateAccountName infra sfx = toLower (take (24 - 5) p @ sfx)"
    using generateAccountName_eq_spec [of infra sfx]
    by (simp only: generateAccountName_spec_def p_def)
  have q_ok: "\<not> storageAccountInvalidChar d" if "d \<in> set (take (24 - 5) p)" for d
    using that replaceAllInvalid_valid unfolding p_def by (blast dest: in_set_takeD)
  have "c \<in> toLowerChar ` (set (take (24 - 5) p) \<union> set sfx)"
    using assms(2) unfolding gen by (simp only: toLower_def set_map set_append)
  then obtain d where d: "d \<in> set (take (24 - 5) p) \<union> set sfx" and c: "c = toLowerChar d"
    by blast
  from d have "\<not> storageAccountInvalidChar d"
    using q_ok alphanums_valid assms(1) by blast
  with c show ?thesis
    using toLowerChar_valid by simp
qed

text \<open>
  C7. For every infrastructure name, and every suffix that \<open>rand.String(5)\<close> can
  return (five characters of its alphabet), \<open>generateAccountName\<close> returns a name of
  3 to 24 characters, all lowercase letters or digits, and the name is the one the
  specification describes: the fixed prefix plus the identifier with every character
  outside \<open>[0-9A-Za-z]\<close> removed, cut to 19 characters, followed by the suffix, in
  lower case.
\<close>

theorem C7_generateAccountName:
  assumes "length sfx = 5" and "set sfx \<subseteq> set alphanums"
  shows "3 \<le> length (generateAccountName infra sfx)
       \<and> length (generateAccountName infra sfx) \<le> 24
       \<and> (\<forall>c \<in> set (generateAccountName infra sfx). is_lower c \<or> is_digit c)
       \<and> generateAccountName infra sfx = generateAccountName_spec infra sfx"
proof -
  have "3 \<le> length (generateAccountName infra sfx)"
    using generateAccountName_length(1) [OF assms(1), of infra] by simp
  moreover have "length (generateAccountName infra sfx) \<le> 24"
    using generateAccountName_length(2) [OF assms(1)] .
  moreover have "\<forall>c \<in> set (generateAccountName infra sfx). is_lower c \<or> is_digit c"
    using generateAccountName_chars [OF assms(2)] by blast
  ultimately show ?thesis
    using generateAccountName_eq_spec by simp
qed

theorem C7_generateAccountName_witness:
  "generateAccountName ''my-Cluster_x7'' ''b2c4d'' = ''imageregistrymyclusb2c4d''
   \<and> length (generateAccountName ''my-Cluster_x7'' ''b2c4d'') = 24
   \<and> generateAccountName_spec ''my-Cluster_x7'' ''b2c4d'' = ''imageregistrymyclusb2c4d''"
proof -
  have h1: "length ''b2c4d'' = 5" by simp
  have h2: "set ''b2c4d'' \<subseteq> set alphanums" by (simp add: alphanums_def)
  have v: "generateAccountName ''my-Cluster_x7'' ''b2c4d'' = ''imageregistrymyclusb2c4d''"
    by code_simp
  from C7_generateAccountName [OF h1 h2, of "''my-Cluster_x7''"]
  have "generateAccountName ''my-Cluster_x7'' ''b2c4d''
          = generateAccountName_spec ''my-Cluster_x7'' ''b2c4d''"
    by (elim conjE)
  with v have "generateAccountName_spec ''my-Cluster_x7'' ''b2c4d'' = ''imageregistrymyclusb2c4d''"
    by simp
  with v show ?thesis
    by simp
qed

section \<open>The storage account and the network-isolation chain\<close>

text \<open>
  C1. When the environment and the accounts client are there and the availability probe
  reports the resolved name unavailable: with a name supplied in the configuration,
  \<open>assureStorageAccount\<close> returns that name, created = false and no error; with a
  generated name it returns an error. In both cases the probe is the only request sent:
  no account creation is attempted.
\<close>

theorem C1_assureStorageAccount_name_unavailable:
  assumes "getEnvironmentByName w (CloudName (Config s)) = Inr env"
      and "storageAccountsClient w cfg env = None"
      and "checkNameAvailability w (calls s) (resolvedAccountName w infra s) = Inr (Some False)"
  shows "(AccountName (Config s) \<noteq> '''' \<longrightarrow>
            assureStorageAccount w cfg infra s
              = (Returned (AccountName (Config s), False, None),
                 issue s (CheckNameAvailability (AccountName (Config s)))))
       \<and> (AccountName (Config s) = '''' \<longrightarrow>
            (\<exists>err. fst (assureStorageAccount w cfg infra s) = Returned ('''', False, Some err)))
       \<and> issued s (snd (assureStorageAccount w cfg infra s))
            = [CheckNameAvailability (resolvedAccountName w infra s)]
       \<and> (\<forall>n. AccountsCreate n \<notin> set (issued s (snd (assureStorageAccount w cfg infra s))))"
  using assms
  by (auto simp: assureStorageAccount_stages resolvedAccountName_def issued_def split: prod.split)

theorem C1_assureStorageAccount_name_unavailable_witness:
  "assureStorageAccount world0 cfg0 infra0 managed
     = (Returned (''acct1'', False, None), issue managed (CheckNameAvailability ''acct1''))
   \<and> issued managed (snd (assureStorageAccount world0 cfg0 infra0 managed))
     = [CheckNameAvailability ''acct1'']
   \<and> (\<exists>err. fst (assureStorageAccount world_names_taken cfg0 infra0 fresh) = Returned ('''', False, Some err))
   \<and> issued fresh (snd (assureStorageAccount world_names_taken cfg0 infra0 fresh))
     = [CheckNameAvailability ''imageregistrymyclusb2c4d'']"
proof -
  have a1: "getEnvironmentByName world0 (CloudName (Config managed)) = Inr (PublicCloud world0)"
    by code_simp
  have a2: "storageAccountsClient world0 cfg0 (PublicCloud world0) = None"
    by code_simp
  have a3: "resolvedAccountName world0 infra0 managed = ''acct1''"
    by code_simp
  have a4: "checkNameAvailability world0 (calls managed) (resolvedAccountName world0 infra0 managed)
              = Inr (Some False)"
    by code_simp
  have a5: "AccountName (Config managed) = ''acct1''"
    by code_simp
  have b1: "getEnvironmentByName world_names_taken (CloudName (Config fresh))
              = Inr (PublicCloud world_names_taken)"
    by code_simp
  have b2: "storageAccountsClient world_names_taken cfg0 (PublicCloud world_names_taken) = None"
    by code_simp
  have b3: "resolvedAccountName world_names_taken infra0 fresh = ''imageregistrymyclusb2c4d''"
    by code_simp
  have b4: "checkNameAvailability world_names_taken (calls fresh)
              (resolvedAccountName world_names_taken infra0 fresh) = Inr (Some False)"
    by code_simp
  have b5: "AccountName (Config fresh) = ''''"
    by code_simp
  from C1_assureStorageAccount_name_unavailable [OF a1 a2 a4]
       C1_assureStorageAccount_name_unavailable [OF b1 b2 b4]
  show ?thesis
    unfolding a3 a5 b3 b5 by (simp add: issued_def)
qed

text \<open>
  C4, as stated, does not hold: the probe reporting the name available does not by
  itself bring the chain about. With a provider that creates the account but an SDK
  whose private endpoints client cannot be constructed, the call sends the probe and
  the account creation, returns the constructor's error, and sends no step of the
  chain although the account has just been created. With a provider that refuses the
  account creation, the probe has reported the name available and again no step is
  sent.
\<close>

theorem C4_chain_iff_probe_available_counterexample:
  "checkNameAvailability world_no_endpoints_client (calls fresh) ''imageregistrymyclusb2c4d''
     = Inr (Some True)
   \<and> accountsCreate world_no_endpoints_client [CheckNameAvailability ''imageregistrymyclusb2c4d'']
       ''rg0'' ''imageregistrymyclusb2c4d'' ''westus'' False
       [(''kubernetes.io_cluster.my-Cluster_x7'', ''owned''), (''team'', ''registry'')]
     = Created
   \<and> assureStorageAccount world_no_endpoints_client cfg0 infra0 fresh
     = (Returned ('''', False, Some (OtherError ''no private endpoints client'')),
        fresh\<lparr>calls := [CheckNameAvailability ''imageregistrymyclusb2c4d'',
                          AccountsCreate ''imageregistrymyclusb2c4d''],
              draws := 1\<rparr>)
   \<and> chainSteps (issued fresh (snd (assureStorageAccount world_no_endpoints_client cfg0 infra0 fresh)))
     = []
   \<and> checkNameAvailability world_create_refused (calls fresh) ''imageregistrymyclusb2c4d''
     = Inr (Some True)
   \<and> assureStorageAccount world_create_refused cfg0 infra0 fresh
     = (Returned ('''', False,
          Some (Errorf ''failed to finish creating storage account: %s''
                  (Some (DetailedError (Some 409))))),
        fresh\<lparr>calls := [CheckNameAvailability ''imageregistrymyclusb2c4d'',
                          AccountsCreate ''imageregistrymyclusb2c4d''],
              draws := 1\<rparr>)
   \<and> chainSteps (issued fresh (snd (assureStorageAccount world_create_refused cfg0 infra0 fresh)))
     = []"
  by code_simp

text \<open>
  C4, amended. Of one call of \<open>assureStorageAccount\<close>: the account creation is sent if and
  only if the environment and the accounts client were obtained and the probe reported
  the name available. The chain starts, that is a creation of the chain is sent, if and
  only if moreover that account creation succeeded and the six clients of the chain
  could be constructed; its first creation, the private endpoint, then comes right
  after the probe and the account creation, and when the probe reported the name
  available but the chain does not start, the probe and the account creation are all
  that is sent. The creations of the chain that are sent are always an initial part of:
  private endpoint, private DNS zone, A record, zone group, virtual-network link, in this
  order. When the probe does not report the name available, none is sent. A call that
  returns created = true has sent all five, in order, right after the probe and the
  account creation; a call that returns created = false without error has sent the
  probe only.
\<close>

theorem C4_network_isolation_chain:
  "let name = resolvedAccountName w infra s;
       result = fst (assureStorageAccount w cfg infra s);
       sent = issued s (snd (assureStorageAccount w cfg infra s));
       available = (\<exists>env. getEnvironmentByName w (CloudName (Config s)) = Inr env
                       \<and> storageAccountsClient w cfg env = None
                       \<and> checkNameAvailability w (calls s) name = Inr (Some True));
       created = (available
                   \<and> accountsCreate w (calls s @ [CheckNameAvailability name]) (ResourceGroup cfg)
                       name (Region cfg) (equalFold (CloudName (Config s)) ''AZURESTACKCLOUD'')
                       (assureStorageAccount_tags infra) = Created);
       clients = (\<forall>env. getEnvironmentByName w (CloudName (Config s)) = Inr env \<longrightarrow>
                    privateEndpointsClient w cfg env = None \<and> privateZonesClient w cfg env = None
                    \<and> recordSetsClient w cfg env = None \<and> privateZoneGroupsClient w cfg env = None
                    \<and> vnetLinksClient w cfg env = None \<and> interfacesClient w cfg env = None)
   in prefix (chainSteps sent) fullChain
    \<and> (AccountsCreate name \<in> set sent) = available
    \<and> (chainSteps sent \<noteq> []) = (created \<and> clients)
    \<and> (available \<and> \<not> (created \<and> clients) \<longrightarrow>
         sent = [CheckNameAvailability name, AccountsCreate name])
    \<and> (created \<and> clients \<longrightarrow>
         take 3 sent = [CheckNameAvailability name, AccountsCreate name,
                        PrivateEndpointsCreate (generateAccountName (InfrastructureName infra)
                          (randString w (if AccountName (Config s) = '''' then draws s + 1
                                         else draws s)))])
    \<and> (checkNameAvailability w (calls s) name \<noteq> Inr (Some True) \<longrightarrow> chainSteps sent = [])
    \<and> (\<forall>m. result = Returned (m, True, None) \<longrightarrow>
         m = name \<and> created \<and> clients
         \<and> chainSteps sent = fullChain
         \<and> (\<exists>pe e nic. sent
               = [CheckNameAvailability m, AccountsCreate m,
                  PrivateEndpointsCreate pe,
                  PrivateZonesCreate ''privatelink.blob.core.windows.net'',
                  InterfacesGet nic,
                  RecordSetsCreate ''privatelink.blob.core.windows.net'' m,
                  PrivateDNSZoneGroupsCreate e ''privatelink-blob-core-windows-net'',
                  VirtualNetworkLinksCreate ''privatelink.blob.core.windows.net'' ''whatever123'']))
    \<and> (\<forall>m. result = Returned (m, False, None) \<longrightarrow>
         m = name
         \<and> checkNameAvailability w (calls s) name = Inr (Some False)
         \<and> sent = [CheckNameAvailability m])"
proof -
  let ?name = "resolvedAccountName w infra s"
  let ?result = "fst (assureStorageAccount w cfg infra s)"
  let ?sent = "issued s (snd (assureStorageAccount w cfg infra s))"
  let ?available = "\<exists>env. getEnvironmentByName w (CloudName (Config s)) = Inr env
                       \<and> storageAccountsClient w cfg env = None
                       \<and> checkNameAvailability w (calls s) ?name = Inr (Some True)"
  let ?created = "?available
                   \<and> accountsCreate w (calls s @ [CheckNameAvailability ?name]) (ResourceGroup cfg)
                       ?name (Region cfg) (equalFold (CloudName (Config s)) ''AZURESTACKCLOUD'')
                       (assureStorageAccount_tags infra) = Created"
  let ?clients = "\<forall>env. getEnvironmentByName w (CloudName (Config s)) = Inr env \<longrightarrow>
                    privateEndpointsClient w cfg env = None \<and> privateZonesClient w cfg env = None
                    \<and> recordSetsClient w cfg env = None \<and> privateZoneGroupsClient w cfg env = None
                    \<and> vnetLinksClient w cfg env = None \<and> interfacesClient w cfg env = None"
  note order = assureStorageAccount_chain_order [of s w cfg infra]
  note start = assureStorageAccount_chain_start [of w infra s cfg]
  have o1: "prefix (chainSteps ?sent) fullChain"
    using order by (elim conjE)
  have o3: "checkNameAvailability w (calls s) ?name \<noteq> Inr (Some True) \<longrightarrow> chainSteps ?sent = []"
    using order by (elim conjE)
  have o4: "\<forall>m. ?result = Returned (m, True, None) \<longrightarrow>
        m = ?name
        \<and> checkNameAvailability w (calls s) ?name = Inr (Some True)
        \<and> chainSteps ?sent = fullChain
        \<and> (\<exists>pe e nic. ?sent
              = [CheckNameAvailability m, AccountsCreate m,
                 PrivateEndpointsCreate pe,
                 PrivateZonesCreate ''privatelink.blob.core.windows.net'',
                 InterfacesGet nic,
                 RecordSetsCreate ''privatelink.blob.core.windows.net'' m,
                 PrivateDNSZoneGroupsCreate e ''privatelink-blob-core-windows-net'',
                 VirtualNetworkLinksCreate ''privatelink.blob.core.windows.net'' ''whatever123''])"
    using order by (elim conjE)
  have o5: "\<forall>m. ?result = Returned (m, False, None) \<longrightarrow>
        m = ?name
        \<and> checkNameAvailability w (calls s) ?name = Inr (Some False)
        \<and> ?sent = [CheckNameAvailability m]"
    using order by (elim conjE)
  have s1: "(AccountsCreate ?name \<in> set ?sent) = ?available"
    using start by (elim conjE)
  have s2: "(chainSteps ?sent \<noteq> []) = (?created \<and> ?clients)"
    using start by (elim conjE)
  have s3: "?created \<and> \<not> ?clients \<longrightarrow> ?sent = [CheckNameAvailability ?name, AccountsCreate ?name]"
    using start by (elim conjE)
  have s4: "?available \<and> \<not> ?created \<longrightarrow> ?sent = [CheckNameAvailability ?name, AccountsCreate ?name]"
    using start by (elim conjE)
  have s5: "?created \<and> ?clients \<longrightarrow>
         take 3 ?sent = [CheckNameAvailability ?name, AccountsCreate ?name,
                        PrivateEndpointsCreate (generateAccountName (InfrastructureName infra)
                          (randString w (if AccountName (Config s) = '''' then draws s + 1
                                         else draws s)))]"
    using start by (elim conjE)
  have s34: "?available \<and> \<not> (?created \<and> ?clients) \<longrightarrow>
         ?sent = [CheckNameAvailability ?name, AccountsCreate ?name]"
    using s3 s4 by blast
  have full: "fullChain \<noteq> []" by (simp add: fullChain_def)
  have o4': "\<forall>m. ?result = Returned (m, True, None) \<longrightarrow>
        m = ?name \<and> ?created \<and> ?clients
        \<and> chainSteps ?sent = fullChain
        \<and> (\<exists>pe e nic. ?sent
              = [CheckNameAvailability m, AccountsCreate m,
                 PrivateEndpointsCreate pe,
                 PrivateZonesCreate ''privatelink.blob.core.windows.net'',
                 InterfacesGet nic,
                 RecordSetsCreate ''privatelink.blob.core.windows.net'' m,
                 PrivateDNSZoneGroupsCreate e ''privatelink-blob-core-windows-net'',
                 VirtualNetworkLinksCreate ''privatelink.blob.core.windows.net'' ''whatever123''])"
  proof (intro allI impI)
    fix m assume r: "?result = Returned (m, True, None)"
    with o4 have a: "m = ?name" "chainSteps ?sent = fullChain"
      "\<exists>pe e nic. ?sent
              = [CheckNameAvailability m, AccountsCreate m,
                 PrivateEndpointsCreate pe,
                 PrivateZonesCreate ''privatelink.blob.core.windows.net'',
                 InterfacesGet nic,
                 RecordSetsCreate ''privatelink.blob.core.windows.net'' m,
                 PrivateDNSZoneGroupsCreate e ''privatelink-blob-core-windows-net'',
                 VirtualNetworkLinksCreate ''privatelink.blob.core.windows.net'' ''whatever123'']"
      by blast+
    from a(2) full have "chainSteps ?sent \<noteq> []" by simp
    with s2 have cc: "?created \<and> ?clients" by (rule iffD1)
    from a cc show "m = ?name \<and> ?created \<and> ?clients
        \<and> chainSteps ?sent = fullChain
        \<and> (\<exists>pe e nic. ?sent
              = [CheckNameAvailability m, AccountsCreate m,
                 PrivateEndpointsCreate pe,
                 PrivateZonesCreate ''privatelink.blob.core.windows.net'',
                 InterfacesGet nic,
                 RecordSetsCreate ''privatelink.blob.core.windows.net'' m,
                 PrivateDNSZoneGroupsCreate e ''privatelink-blob-core-windows-net'',
                 VirtualNetworkLinksCreate ''privatelink.blob.core.windows.net'' ''whatever123''])"
      by (elim conjE, intro conjI) assumption+
  qed
  show ?thesis
    unfolding Let_def
    by (intro conjI) (rule o1 s1 s2 s34 s5 o3 o4' o5)+
qed

theorem C4_network_isolation_chain_witness:
  "fst (assureStorageAccount world0 cfg0 infra0 fresh)
     = Returned (''imageregistrymyclusb2c4d'', True, None)
   \<and> chainSteps (issued fresh (snd (assureStorageAccount world0 cfg0 infra0 fresh))) = fullChain
   \<and> fst (assureStorageAccount world0 cfg0 infra0 managed) = Returned (''acct1'', False, None)
   \<and> issued managed (snd (assureStorageAccount world0 cfg0 infra0 managed))
     = [CheckNameAvailability ''acct1'']
   \<and> checkNameAvailability world0 (calls managed) (resolvedAccountName world0 infra0 managed)
     = Inr (Some False)
   \<and> privateEndpointsClient world_no_endpoints_client cfg0 (PublicCloud world0)
     = Some (OtherError ''no private endpoints client'')
   \<and> chainSteps (issued fresh (snd (assureStorageAccount world_no_endpoints_client cfg0 infra0 fresh)))
     = []"
proof -
  have v1: "fst (assureStorageAccount world0 cfg0 infra0 fresh)
              = Returned (''imageregistrymyclusb2c4d'', True, None)"
    by code_simp
  have v2: "fst (assureStorageAccount world0 cfg0 infra0 managed) = Returned (''acct1'', False, None)"
    by code_simp
  have v3: "getEnvironmentByName world_no_endpoints_client (CloudName (Config fresh))
              = Inr (PublicCloud world0)"
    by code_simp
  have v4: "privateEndpointsClient world_no_endpoints_client cfg0 (PublicCloud world0)
              = Some (OtherError ''no private endpoints client'')"
    by code_simp
  note t1 = C4_network_isolation_chain [where w = world0 and s = fresh and cfg = cfg0
      and infra = infra0, unfolded Let_def]
  note t2 = C4_network_isolation_chain [where w = world0 and s = managed and cfg = cfg0
      and infra = infra0, unfolded Let_def]
  note t3 = C4_network_isolation_chain [where w = world_no_endpoints_client and s = fresh
      and cfg = cfg0 and infra = infra0, unfolded Let_def]
  note c2 = conjunct2
  from t1 [THEN c2, THEN c2, THEN c2, THEN c2, THEN c2, THEN c2, THEN conjunct1, rule_format, OF v1]
  have a: "chainSteps (issued fresh (snd (assureStorageAccount world0 cfg0 infra0 fresh))) = fullChain"
    by (elim conjE)
  from t2 [THEN c2, THEN c2, THEN c2, THEN c2, THEN c2, THEN c2, THEN c2, rule_format, OF v2]
  have b: "checkNameAvailability world0 (calls managed) (resolvedAccountName world0 infra0 managed)
          = Inr (Some False)"
    "issued managed (snd (assureStorageAccount world0 cfg0 infra0 managed))
          = [CheckNameAvailability ''acct1'']"
    by simp_all
  have c: "chainSteps (issued fresh (snd (assureStorageAccount world_no_endpoints_client cfg0 infra0 fresh)))
          = []"
  proof (rule ccontr)
    assume "chainSteps (issued fresh (snd (assureStorageAccount world_no_endpoints_client cfg0 infra0 fresh)))
          \<noteq> []"
    from iffD1 [OF t3 [THEN c2, THEN c2, THEN conjunct1] this] v3 v4 show False
      by auto
  qed
  from v1 a v2 b v4 c show ?thesis
    by (intro conjI)
qed

section \<open>Removing the storage\<close>

text \<open>
  C9. Whenever the management state is not Managed or the recorded account name is
  empty, \<open>RemoveStorage\<close> returns retry = false and no error, sends no request to
  the provider (so no delete), and leaves the recorded names of the driver
  configuration and of the spec and status of the configuration resource, and the
  management state, unchanged.
\<close>

theorem C9_RemoveStorage_noop:
  assumes "ManagementState (cr s) \<noteq> StorageManagementStateManaged \<or> AccountName (Config s) = ''''"
  shows "fst (RemoveStorage w s) = Returned (False, None)
       \<and> calls (snd (RemoveStorage w s)) = calls s
       \<and> Config (snd (RemoveStorage w s)) = Config s
       \<and> SpecAzure (cr (snd (RemoveStorage w s))) = SpecAzure (cr s)
       \<and> StatusAzure (cr (snd (RemoveStorage w s))) = StatusAzure (cr s)
       \<and> ManagementState (cr (snd (RemoveStorage w s))) = ManagementState (cr s)"
  using assms by (auto simp: RemoveStorage_def)

theorem C9_RemoveStorage_noop_witness:
  "fst (RemoveStorage world0 fresh) = Returned (False, None)
   \<and> calls (snd (RemoveStorage world0 fresh)) = []
   \<and> Config (snd (RemoveStorage world0 fresh)) = Config fresh
   \<and> fst (RemoveStorage world0 (managed\<lparr>Config := Config fresh\<rparr>)) = Returned (False, None)
   \<and> calls (snd (RemoveStorage world0 (managed\<lparr>Config := Config fresh\<rparr>))) = []
   \<and> SpecAzure (cr (snd (RemoveStorage world0 (managed\<lparr>Config := Config fresh\<rparr>))))
     = Some \<lparr>AccountName = ''acct1'', Container = ''c1'', CloudName = ''''\<rparr>"
proof -
  have a: "ManagementState (cr fresh) \<noteq> StorageManagementStateManaged
           \<or> AccountName (Config fresh) = ''''"
    by code_simp
  have b: "ManagementState (cr (managed\<lparr>Config := Config fresh\<rparr>)) \<noteq> StorageManagementStateManaged
           \<or> AccountName (Config (managed\<lparr>Config := Config fresh\<rparr>)) = ''''"
    by code_simp
  have c: "calls fresh = []" "calls (managed\<lparr>Config := Config fresh\<rparr>) = []"
    "SpecAzure (cr (managed\<lparr>Config := Config fresh\<rparr>))
       = Some \<lparr>AccountName = ''acct1'', Container = ''c1'', CloudName = ''''\<rparr>"
    by code_simp+
  from C9_RemoveStorage_noop [OF a, of world0] C9_RemoveStorage_noop [OF b, of world0] c
  show ?thesis by simp
qed

text \<open>
  C2, as stated, does not hold: with the container \<open>c1\<close> recorded and the key fetch
  answering not-found, \<open>RemoveStorage\<close> returns no error, but the recorded container
  name is still \<open>c1\<close> afterwards, in the driver configuration and in the spec and
  status of the configuration resource; only the account name is cleared.
\<close>

theorem C2_RemoveStorage_clears_container_counterexample:
  "ManagementState (cr managed) = StorageManagementStateManaged
   \<and> Container (Config managed) = ''c1''
   \<and> fst (getAccountPrimaryKey world_keys_gone managed ''rg0'' ''acct1'')
     = Inl (ErrDoesNotExist (Errorf ''failed to get keys for the storage account %s: %s''
         (Some (DetailedError (Some 404)))))
   \<and> fst (RemoveStorage world_keys_gone managed) = Returned (False, None)
   \<and> Container (Config (snd (RemoveStorage world_keys_gone managed))) = ''c1''
   \<and> SpecAzure (cr (snd (RemoveStorage world_keys_gone managed)))
     = Some \<lparr>AccountName = '''', Container = ''c1'', CloudName = ''''\<rparr>
   \<and> StatusAzure (cr (snd (RemoveStorage world_keys_gone managed)))
     = Some \<lparr>AccountName = '''', Container = ''c1'', CloudName = ''''\<rparr>"
  by code_simp

text \<open>
  C2, amended. During \<open>RemoveStorage\<close> of a managed configuration with a non-empty
  recorded account name and a non-empty recorded container name, whose spec and status both
  carry the Azure section: if the key fetch fails with a not-found error, the recorded
  account name is cleared in the driver configuration, the spec and the status, the
  recorded container name is left as it was, the condition (False, ContainerNotFound) is
  written, and the call returns retry = false and no error, having sent the key request
  only (no container or account delete).
\<close>

theorem C2_RemoveStorage_keys_not_found:
  assumes "ManagementState (cr s) = StorageManagementStateManaged"
      and "AccountName (Config s) \<noteq> ''''"
      and "Container (Config s) \<noteq> ''''"
      and "GetConfig w = Inr cfg"
      and "getEnvironmentByName w (CloudName (Config s)) = Inr env"
      and "storageAccountsClient w cfg env = None"
      and "fst (getAccountPrimaryKey w s (ResourceGroup cfg) (AccountName (Config s)))
             = Inl (ErrDoesNotExist e)"
      and "SpecAzure (cr s) = Some spec"
      and "StatusAzure (cr s) = Some status"
  shows "fst (RemoveStorage w s) = Returned (False, None)
       \<and> Config (snd (RemoveStorage w s)) = (Config s)\<lparr>AccountName := ''''\<rparr>
       \<and> SpecAzure (cr (snd (RemoveStorage w s))) = Some (spec\<lparr>AccountName := ''''\<rparr>)
       \<and> StatusAzure (cr (snd (RemoveStorage w s))) = Some (status\<lparr>AccountName := ''''\<rparr>)
       \<and> Container (Config (snd (RemoveStorage w s))) = Container (Config s)
       \<and> Conditions (cr (snd (RemoveStorage w s)))
           = Conditions (cr s) @
             [(ConditionFalse, storageExistsReasonContainerNotFound,
               MessageErr ''Container has been already deleted: %s'' (ErrDoesNotExist e))]
       \<and> issued s (snd (RemoveStorage w s)) = [PrimaryKeyGet (AccountName (Config s))]"
  using assms
  by (simp add: RemoveStorage_def Let_def issued_def UpdateCondition_def split: prod.split)

lemma getAccountPrimaryKey_not_found:
  "(\<exists>e. fst (getAccountPrimaryKey w s rg n) = Inl (ErrDoesNotExist e))
     = (primaryKeyGet w (calls s) rg n = Inl (DetailedError (Some StatusNotFound)))"
  by (auto simp: getAccountPrimaryKey_def Let_def split: sum.splits error.splits if_splits)

text \<open>
  C10. In \<open>RemoveStorage\<close> of a managed configuration whose spec and status both carry
  the Azure section: when the container delete succeeds and the account delete that
  follows fails, the call returns the error of the account delete; the container name
  is cleared in the driver configuration, the spec and the status, and the condition
  ContainerDeleted has been written before the failure condition, while the account
  name stays recorded and the management state is untouched. A second call on the state
  the first one left sends the account delete only: it skips the container branch.
\<close>

theorem C10_RemoveStorage_account_delete_fails:
  assumes "ManagementState (cr s) = StorageManagementStateManaged"
      and "AccountName (Config s) = a" and "a \<noteq> ''''"
      and "Container (Config s) = c" and "c \<noteq> ''''"
      and "GetConfig w = Inr cfg"
      and "getEnvironmentByName w (CloudName (Config s)) = Inr env"
      and "storageAccountsClient w cfg env = None"
      and "fst (getAccountPrimaryKey w s (ResourceGroup cfg) a) = Inr key"
      and "getStorageContainer w env a key c = None"
      and "containerDelete w (calls s @ [PrimaryKeyGet a]) a key c = None"
      and "SpecAzure (cr s) = Some spec"
      and "StatusAzure (cr s) = Some status"
      and "accountsDelete w (calls s @ [PrimaryKeyGet a, ContainerDelete a c]) (ResourceGroup cfg) a
             = Some err"
  shows "fst (RemoveStorage w s) = Returned (False, Some err)
       \<and> Config (snd (RemoveStorage w s)) = (Config s)\<lparr>Container := ''''\<rparr>
       \<and> SpecAzure (cr (snd (RemoveStorage w s))) = Some (spec\<lparr>Container := ''''\<rparr>)
       \<and> StatusAzure (cr (snd (RemoveStorage w s))) = Some (status\<lparr>Container := ''''\<rparr>)
       \<and> AccountName (Config (snd (RemoveStorage w s))) = a
       \<and> ManagementState (cr (snd (RemoveStorage w s))) = ManagementState (cr s)
       \<and> Conditions (cr (snd (RemoveStorage w s)))
           = Conditions (cr s) @
             [(ConditionFalse, storageExistsReasonContainerDeleted,
               Message ''Storage container has been deleted''),
              (ConditionFalse, storageExistsReasonAzureError,
               MessageErr ''Unable to delete storage account: %s'' err)]
       \<and> issued s (snd (RemoveStorage w s)) = [PrimaryKeyGet a, ContainerDelete a c, AccountsDelete a]
       \<and> issued (snd (RemoveStorage w s)) (snd (RemoveStorage w (snd (RemoveStorage w s))))
           = [AccountsDelete a]"
proof -
  let ?s' = "snd (RemoveStorage w s)"
  have first: "fst (RemoveStorage w s) = Returned (False, Some err)
       \<and> Config ?s' = (Config s)\<lparr>Container := ''''\<rparr>
       \<and> SpecAzure (cr ?s') = Some (spec\<lparr>Container := ''''\<rparr>)
       \<and> StatusAzure (cr ?s') = Some (status\<lparr>Container := ''''\<rparr>)
       \<and> ManagementState (cr ?s') = ManagementState (cr s)
       \<and> Conditions (cr ?s')
           = Conditions (cr s) @
             [(ConditionFalse, storageExistsReasonContainerDeleted,
               Message ''Storage container has been deleted''),
              (ConditionFalse, storageExistsReasonAzureError,
               MessageErr ''Unable to delete storage account: %s'' err)]
       \<and> calls ?s' = calls s @ [PrimaryKeyGet a, ContainerDelete a c, AccountsDelete a]"
    using assms
    by (simp add: RemoveStorage_def Let_def deleteStorageContainer_def UpdateCondition_def
        split: prod.split)
  then have cfg': "AccountName (Config ?s') = a" "Container (Config ?s') = ''''"
      "CloudName (Config ?s') = CloudName (Config s)"
      "ManagementState (cr ?s') = StorageManagementStateManaged"
    using assms(1,2) by simp_all
  have second: "calls (snd (RemoveStorage w ?s')) = calls ?s' @ [AccountsDelete a]"
    using cfg' assms(3,6,7,8)
    by (simp add: RemoveStorage_def [of w ?s'] Let_def split: option.split)
  from first cfg' second show ?thesis
    by (simp add: issued_def)
qed

theorem C10_RemoveStorage_account_delete_fails_witness:
  "fst (RemoveStorage world_delete_fails managed) = Returned (False, Some (DetailedError (Some 409)))
   \<and> Config (snd (RemoveStorage world_delete_fails managed))
     = \<lparr>AccountName = ''acct1'', Container = '''', CloudName = ''''\<rparr>
   \<and> SpecAzure (cr (snd (RemoveStorage world_delete_fails managed)))
     = Some \<lparr>AccountName = ''acct1'', Container = '''', CloudName = ''''\<rparr>
   \<and> issued managed (snd (RemoveStorage world_delete_fails managed))
     = [PrimaryKeyGet ''acct1'', ContainerDelete ''acct1'' ''c1'', AccountsDelete ''acct1'']
   \<and> issued (snd (RemoveStorage world_delete_fails managed))
        (snd (RemoveStorage world_delete_fails (snd (RemoveStorage world_delete_fails managed))))
     = [AccountsDelete ''acct1'']"
proof -
  have h1: "ManagementState (cr managed) = StorageManagementStateManaged" by code_simp
  have h2: "AccountName (Config managed) = ''acct1''" by code_simp
  have h3: "''acct1'' \<noteq> ''''" by simp
  have h4: "Container (Config managed) = ''c1''" by code_simp
  have h5: "''c1'' \<noteq> ''''" by simp
  have h6: "GetConfig world_delete_fails = Inr cfg0" by code_simp
  have h7: "getEnvironmentByName world_delete_fails (CloudName (Config managed))
              = Inr (PublicCloud world0)" by code_simp
  have h8: "storageAccountsClient world_delete_fails cfg0 (PublicCloud world0) = None" by code_simp
  have h9: "fst (getAccountPrimaryKey world_delete_fails managed (ResourceGroup cfg0) ''acct1'')
              = Inr ''a2V5''" by code_simp
  have h10: "getStorageContainer world_delete_fails (PublicCloud world0) ''acct1'' ''a2V5'' ''c1'' = None"
    by code_simp
  have h11: "containerDelete world_delete_fails (calls managed @ [PrimaryKeyGet ''acct1''])
               ''acct1'' ''a2V5'' ''c1'' = None" by code_simp
  have h12: "SpecAzure (cr managed) = Some \<lparr>AccountName = ''acct1'', Container = ''c1'', CloudName = ''''\<rparr>"
    by code_simp
  have h13: "StatusAzure (cr managed) = Some \<lparr>AccountName = ''acct1'', Container = ''c1'', CloudName = ''''\<rparr>"
    by code_simp
  have h14: "accountsDelete world_delete_fails
               (calls managed @ [PrimaryKeyGet ''acct1'', ContainerDelete ''acct1'' ''c1''])
               (ResourceGroup cfg0) ''acct1'' = Some (DetailedError (Some 409))" by code_simp
  have c: "Config managed = \<lparr>AccountName = ''acct1'', Container = ''c1'', CloudName = ''''\<rparr>"
    by code_simp
  from C10_RemoveStorage_account_delete_fails [OF h1 h2 h3 h4 h5 h6 h7 h8 h9 h10 h11 h12 h13 h14]
  show ?thesis
    by (simp add: c)
qed

theorem C2_RemoveStorage_keys_not_found_witness:
  "fst (RemoveStorage world_keys_gone managed) = Returned (False, None)
   \<and> Config (snd (RemoveStorage world_keys_gone managed))
     = \<lparr>AccountName = '''', Container = ''c1'', CloudName = ''''\<rparr>
   \<and> SpecAzure (cr (snd (RemoveStorage world_keys_gone managed)))
     = Some \<lparr>AccountName = '''', Container = ''c1'', CloudName = ''''\<rparr>
   \<and> StatusAzure (cr (snd (RemoveStorage world_keys_gone managed)))
     = Some \<lparr>AccountName = '''', Container = ''c1'', CloudName = ''''\<rparr>
   \<and> issued managed (snd (RemoveStorage world_keys_gone managed)) = [PrimaryKeyGet ''acct1'']"
proof -
  have h1: "ManagementState (cr managed) = StorageManagementStateManaged" by code_simp
  have h2: "AccountName (Config managed) \<noteq> ''''" by code_simp
  have h3: "Container (Config managed) \<noteq> ''''" by code_simp
  have h4: "GetConfig world_keys_gone = Inr cfg0" by code_simp
  have h5: "getEnvironmentByName world_keys_gone (CloudName (Config managed))
              = Inr (PublicCloud world0)" by code_simp
  have h6: "storageAccountsClient world_keys_gone cfg0 (PublicCloud world0) = None" by code_simp
  have h7: "fst (getAccountPrimaryKey world_keys_gone managed (ResourceGroup cfg0) (AccountName (Config managed)))
              = Inl (ErrDoesNotExist (Errorf ''failed to get keys for the storage account %s: %s''
                  (Some (DetailedError (Some 404)))))" by code_simp
  have h8: "SpecAzure (cr managed) = Some \<lparr>AccountName = ''acct1'', Container = ''c1'', CloudName = ''''\<rparr>"
    by code_simp
  have h9: "StatusAzure (cr managed) = Some \<lparr>AccountName = ''acct1'', Container = ''c1'', CloudName = ''''\<rparr>"
    by code_simp
  have c: "Config managed = \<lparr>AccountName = ''acct1'', Container = ''c1'', CloudName = ''''\<rparr>"
    by code_simp
  from C2_RemoveStorage_keys_not_found [OF h1 h2 h3 h4 h5 h6 h7 h8 h9]
  show ?thesis
    by (simp add: c)
qed

section \<open>The private DNS configuration of the client\<close>

text \<open>
  C5. \<open>ConfigurePrivateDNS\<close> returns the error of the zone step, of the record-set step
  and of the zone-group step to its caller. At the virtual-network-link step, the last
  one, an error that is a provider response error with the code \<open>Conflict\<close> is dropped
  and the call returns no error; any other error of that step is returned; and when
  the step succeeds the call returns no error.
\<close>

theorem C5_ConfigurePrivateDNS_conflict_swallowed:
  "let zone = Client_createPrivateDNSZone w c h defaultPrivateZoneName defaultPrivateZoneLocation;
       recordSet = Client_createRecordSet w c (snd zone) privateEndpoint defaultPrivateZoneName
                     storageAccountName;
       result = fst (ConfigurePrivateDNS w c h privateEndpoint vnetName storageAccountName)
   in (\<forall>err. fst zone = Some err \<longrightarrow> result = Returned (Some err))
    \<and> (\<forall>err. fst zone = None \<and> fst recordSet = Returned (Some err)
           \<longrightarrow> result = Returned (Some err))
    \<and> (\<forall>endpointName.
          fst zone = None \<and> fst recordSet = Returned None \<and> peName privateEndpoint = Some endpointName
          \<longrightarrow>
          (let zoneGroup = Client_createPrivateDNSZoneGroup w c (snd recordSet) endpointName
                             defaultPrivateZoneName;
               link = Client_createVirtualNetworkLink w c (snd zoneGroup) storageAccountName vnetName
                        defaultPrivateZoneName defaultPrivateZoneLocation
           in (\<forall>err. fst zoneGroup = Some err \<longrightarrow> result = Returned (Some err))
            \<and> (fst zoneGroup = None \<and> fst link = None \<longrightarrow> result = Returned None)
            \<and> (\<forall>err. fst zoneGroup = None \<and> fst link = Some err \<longrightarrow>
                  result = (if \<exists>statusCode. err = ResponseError statusCode ''Conflict''
                            then Returned None else Returned (Some err)))))"
  unfolding Let_def ConfigurePrivateDNS_def
  by (auto split: prod.splits option.splits outcome.splits error.splits)

theorem C5_ConfigurePrivateDNS_conflict_swallowed_witness:
  "fst (Client_createVirtualNetworkLink world_link_conflict client0
          [PrivateZonesCreate ''privatelink.blob.core.windows.net'', InterfacesGet ''pe0-nic'',
           RecordSetsCreate ''privatelink.blob.core.windows.net'' ''acct1'',
           PrivateDNSZoneGroupsCreate ''pe0'' ''privatelink-blob-core-windows-net'']
          ''acct1'' ''vnet0'' defaultPrivateZoneName defaultPrivateZoneLocation)
     = Some (ResponseError 400 ''Conflict'')
   \<and> fst (ConfigurePrivateDNS world_link_conflict client0 [] endpoint0 ''vnet0'' ''acct1'')
     = Returned None"
proof -
  let ?z = "Client_createPrivateDNSZone world_link_conflict client0 [] defaultPrivateZoneName
              defaultPrivateZoneLocation"
  have z: "?z = (None, [PrivateZonesCreate ''privatelink.blob.core.windows.net''])"
    by code_simp
  have r: "Client_createRecordSet world_link_conflict client0
             [PrivateZonesCreate ''privatelink.blob.core.windows.net''] endpoint0
             defaultPrivateZoneName ''acct1''
           = (Returned None,
              [PrivateZonesCreate ''privatelink.blob.core.windows.net'', InterfacesGet ''pe0-nic'',
               RecordSetsCreate ''privatelink.blob.core.windows.net'' ''acct1''])"
    by code_simp
  have n: "peName endpoint0 = Some ''pe0''" by code_simp
  have g: "Client_createPrivateDNSZoneGroup world_link_conflict client0
             [PrivateZonesCreate ''privatelink.blob.core.windows.net'', InterfacesGet ''pe0-nic'',
              RecordSetsCreate ''privatelink.blob.core.windows.net'' ''acct1''] ''pe0''
             defaultPrivateZoneName
           = (None,
              [PrivateZonesCreate ''privatelink.blob.core.windows.net'', InterfacesGet ''pe0-nic'',
               RecordSetsCreate ''privatelink.blob.core.windows.net'' ''acct1'',
               PrivateDNSZoneGroupsCreate ''pe0'' ''privatelink-blob-core-windows-net''])"
    by code_simp
  have l: "fst (Client_createVirtualNetworkLink world_link_conflict client0
             [PrivateZonesCreate ''privatelink.blob.core.windows.net'', InterfacesGet ''pe0-nic'',
              RecordSetsCreate ''privatelink.blob.core.windows.net'' ''acct1'',
              PrivateDNSZoneGroupsCreate ''pe0'' ''privatelink-blob-core-windows-net'']
             ''acct1'' ''vnet0'' defaultPrivateZoneName defaultPrivateZoneLocation)
           = Some (ResponseError 400 ''Conflict'')"
    by code_simp
  from C5_ConfigurePrivateDNS_conflict_swallowed
         [of world_link_conflict client0 "[]" endpoint0 "''acct1''" "''vnet0''"]
  show ?thesis
    by (simp add: Let_def z r n g l)
qed

section \<open>Storage provided by the user\<close>

text \<open>
  C6. When the resolved configuration carries a non-empty account key, \<open>CreateStorage\<close>
  returns no error and sends no request to the provider (no account and no container
  is created), and the driver configuration is unchanged. If the configured account
  name or container name is empty it writes the condition (False, StorageNotConfigured)
  and leaves the management state alone; otherwise it writes (True, UserManaged) and the
  management state becomes Unmanaged exactly when it was unset before.
\<close>

theorem C6_CreateStorage_user_provided_key:
  assumes "GetConfig w = Inr cfg" and "AccountKey cfg \<noteq> ''''"
  shows "fst (CreateStorage w s) = Returned None
       \<and> calls (snd (CreateStorage w s)) = calls s
       \<and> draws (snd (CreateStorage w s)) = draws s
       \<and> Config (snd (CreateStorage w s)) = Config s
       \<and> (AccountName (Config s) = '''' \<or> Container (Config s) = '''' \<longrightarrow>
            (\<exists>m. Conditions (cr (snd (CreateStorage w s)))
                   = Conditions (cr s) @ [(ConditionFalse, storageExistsReasonNotConfigured, m)])
            \<and> ManagementState (cr (snd (CreateStorage w s))) = ManagementState (cr s))
       \<and> (AccountName (Config s) \<noteq> '''' \<and> Container (Config s) \<noteq> '''' \<longrightarrow>
            Conditions (cr (snd (CreateStorage w s)))
              = Conditions (cr s) @ [(ConditionTrue, storageExistsReasonUserManaged,
                                      Message ''Storage is managed by the user'')]
            \<and> ManagementState (cr (snd (CreateStorage w s)))
              = (if ManagementState (cr s) = '''' then StorageManagementStateUnmanaged
                 else ManagementState (cr s)))"
  using assms
  by (simp add: CreateStorage_def processUPI_def UpdateCondition_def Let_def)

theorem C6_CreateStorage_user_provided_key_witness:
  "fst (CreateStorage world_upi fresh) = Returned None
   \<and> calls (snd (CreateStorage world_upi fresh)) = []
   \<and> (\<exists>m. Conditions (cr (snd (CreateStorage world_upi fresh)))
            = [(ConditionFalse, ''StorageNotConfigured'', m)])
   \<and> ManagementState (cr (snd (CreateStorage world_upi fresh))) = ''''
   \<and> fst (CreateStorage world_upi (managed\<lparr>cr := (cr managed)\<lparr>ManagementState := ''''\<rparr>\<rparr>))
     = Returned None
   \<and> calls (snd (CreateStorage world_upi (managed\<lparr>cr := (cr managed)\<lparr>ManagementState := ''''\<rparr>\<rparr>)))
     = []
   \<and> Conditions (cr (snd (CreateStorage world_upi
         (managed\<lparr>cr := (cr managed)\<lparr>ManagementState := ''''\<rparr>\<rparr>))))
     = [(ConditionTrue, ''UserManaged'', Message ''Storage is managed by the user'')]
   \<and> ManagementState (cr (snd (CreateStorage world_upi
         (managed\<lparr>cr := (cr managed)\<lparr>ManagementState := ''''\<rparr>\<rparr>))))
     = ''Unmanaged''"
proof -
  let ?cfg = "\<lparr>SubscriptionID = '''', ClientID = '''', ClientSecret = '''', TenantID = '''',
              ResourceGroup = '''', Region = '''', AccountKey = ''a2V5''\<rparr>"
  let ?m = "managed\<lparr>cr := (cr managed)\<lparr>ManagementState := ''''\<rparr>\<rparr>"
  have g: "GetConfig world_upi = Inr ?cfg" by code_simp
  have k: "AccountKey ?cfg \<noteq> ''''" by simp
  have f: "calls fresh = []" "Conditions (cr fresh) = []" "ManagementState (cr fresh) = ''''"
    "AccountName (Config fresh) = ''''"
    by code_simp+
  have m: "calls managed = []" "Conditions (cr managed) = []"
    "AccountName (Config managed) \<noteq> ''''" "Container (Config managed) \<noteq> ''''"
    by code_simp+
  have c: "storageExistsReasonNotConfigured = ''StorageNotConfigured''"
    "storageExistsReasonUserManaged = ''UserManaged''"
    "StorageManagementStateUnmanaged = ''Unmanaged''"
    by code_simp+
  from C6_CreateStorage_user_provided_key [OF g k, of fresh]
       C6_CreateStorage_user_provided_key [OF g k, of ?m]
  show ?thesis
    by (simp add: f m c)
qed

section \<open>The condition updates of the entry points\<close>

text \<open>
  C3, as stated, does not hold for \<open>RemoveStorage\<close>: on a registry whose management
  state is not Managed it returns without writing any condition, and on a managed
  registry with an account and a container recorded it writes two, ContainerDeleted and
  then AccountDeleted.
\<close>

theorem C3_exactly_one_condition_counterexample:
  "fst (RemoveStorage world0 fresh) = Returned (False, None)
   \<and> Conditions (cr fresh) = []
   \<and> Conditions (cr (snd (RemoveStorage world0 fresh))) = []
   \<and> fst (RemoveStorage world0 managed) = Returned (False, None)
   \<and> Conditions (cr managed) = []
   \<and> Conditions (cr (snd (RemoveStorage world0 managed)))
     = [(ConditionFalse, ''ContainerDeleted'', Message ''Storage container has been deleted''),
        (ConditionFalse, ''AccountDeleted'', Message ''Storage account has been deleted'')]"
  by code_simp

text \<open>
  C3, amended. Every call of \<open>CreateStorage\<close> that returns, and every call of
  \<open>StorageExists\<close>, writes exactly one condition update. A call of \<open>RemoveStorage\<close> that
  returns writes none when the management state is not Managed; it writes two when it
  deletes the container (the recorded container name was not empty and is empty
  afterwards): ContainerDeleted, then the outcome of the account deletion; otherwise it
  writes exactly one.
\<close>

theorem C3_condition_updates:
  "(\<forall>r. fst (CreateStorage w s) = Returned r \<longrightarrow>
      (\<exists>c. Conditions (cr (snd (CreateStorage w s))) = Conditions (cr s) @ [c]))
   \<and> (\<exists>c. Conditions (cr (snd (StorageExists w s))) = Conditions (cr s) @ [c])
   \<and> (\<forall>r. fst (RemoveStorage w s) = Returned r \<longrightarrow>
      (if ManagementState (cr s) \<noteq> StorageManagementStateManaged
       then Conditions (cr (snd (RemoveStorage w s))) = Conditions (cr s)
       else if Container (Config s) \<noteq> '''' \<and> Container (Config (snd (RemoveStorage w s))) = ''''
       then \<exists>c. Conditions (cr (snd (RemoveStorage w s)))
               = Conditions (cr s) @
                 [(ConditionFalse, storageExistsReasonContainerDeleted,
                   Message ''Storage container has been deleted''), c]
       else \<exists>c. Conditions (cr (snd (RemoveStorage w s))) = Conditions (cr s) @ [c]))"
proof (intro conjI allI impI)
  fix r assume "fst (CreateStorage w s) = Returned r"
  with CreateStorage_conditions [of w s]
  show "\<exists>c. Conditions (cr (snd (CreateStorage w s))) = Conditions (cr s) @ [c]"
    by simp
next
  show "\<exists>c. Conditions (cr (snd (StorageExists w s))) = Conditions (cr s) @ [c]"
    by (rule StorageExists_conditions)
next
  fix r assume "fst (RemoveStorage w s) = Returned r"
  then show "if ManagementState (cr s) \<noteq> StorageManagementStateManaged
       then Conditions (cr (snd (RemoveStorage w s))) = Conditions (cr s)
       else if Container (Config s) \<noteq> '''' \<and> Container (Config (snd (RemoveStorage w s))) = ''''
       then \<exists>c. Conditions (cr (snd (RemoveStorage w s)))
               = Conditions (cr s) @
                 [(ConditionFalse, storageExistsReasonContainerDeleted,
                   Message ''Storage container has been deleted''), c]
       else \<exists>c. Conditions (cr (snd (RemoveStorage w s))) = Conditions (cr s) @ [c]"
    by (rule RemoveStorage_conditions)
qed

theorem C3_condition_updates_witness:
  "fst (CreateStorage world0 fresh) = Returned None
   \<and> (\<exists>c. Conditions (cr (snd (CreateStorage world0 fresh))) = [c])
   \<and> (\<exists>c. Conditions (cr (snd (StorageExists world0 fresh))) = [c])
   \<and> fst (RemoveStorage world0 fresh) = Returned (False, None)
   \<and> Conditions (cr (snd (RemoveStorage world0 fresh))) = []
   \<and> fst (RemoveStorage world0 account_only) = Returned (False, None)
   \<and> (\<exists>c. Conditions (cr (snd (RemoveStorage world0 account_only))) = [c])
   \<and> fst (RemoveStorage world0 managed) = Returned (False, None)
   \<and> (\<exists>c. Conditions (cr (snd (RemoveStorage world0 managed)))
          = [(ConditionFalse, ''ContainerDeleted'', Message ''Storage container has been deleted''), c])"
proof -
  have c1: "fst (CreateStorage world0 fresh) = Returned None" by code_simp
  have r1: "fst (RemoveStorage world0 fresh) = Returned (False, None)" by code_simp
  have r2: "fst (RemoveStorage world0 account_only) = Returned (False, None)" by code_simp
  have r3: "fst (RemoveStorage world0 managed) = Returned (False, None)" by code_simp
  have f: "Conditions (cr fresh) = []" "Conditions (cr account_only) = []"
    "Conditions (cr managed) = []"
    "ManagementState (cr fresh) \<noteq> StorageManagementStateManaged"
    "ManagementState (cr account_only) = StorageManagementStateManaged"
    "ManagementState (cr managed) = StorageManagementStateManaged"
    "Container (Config account_only) = ''''"
    "Container (Config managed) \<noteq> ''''"
    "Container (Config (snd (RemoveStorage world0 managed))) = ''''"
    "storageExistsReasonContainerDeleted = ''ContainerDeleted''"
    by code_simp+
  note t1 = C3_condition_updates [of world0 fresh]
  note t2 = C3_condition_updates [of world0 account_only]
  note t3 = C3_condition_updates [of world0 managed]
  from t1 [THEN conjunct1, rule_format, OF c1] t1 [THEN conjunct2, THEN conjunct1]
       t1 [THEN conjunct2, THEN conjunct2, rule_format, OF r1]
       t2 [THEN conjunct2, THEN conjunct2, rule_format, OF r2]
       t3 [THEN conjunct2, THEN conjunct2, rule_format, OF r3]
  show ?thesis
    by (simp add: c1 r1 r2 r3 f)
qed

section \<open>Running the provisioning path a second time\<close>

text \<open>
  C8, as stated, does not hold: a second run can create again. The provider here refuses
  one private endpoint name and is otherwise the working one. The first run of
  \<open>CreateStorage\<close> on a fresh registry generates an account name, creates the account,
  is refused the endpoint and returns the error; no name is recorded. Nothing happens
  at the provider between the runs. The second run generates another account name,
  finds it available and creates a second account with its chain and then a container:
  both calls of the second run return created = true.
\<close>

theorem C8_second_run_creates_again_counterexample:
  "GetConfig world_endpoint_refused = Inr cfg0
   \<and> GetInfrastructure world_endpoint_refused = Inr infra0
   \<and> fst (CreateStorage world_endpoint_refused fresh)
     = Returned (Some (Errorf ''failed to finish creating private endpoint: %s''
         (Some (DetailedError (Some 400)))))
   \<and> Config (snd (CreateStorage world_endpoint_refused fresh)) = Config fresh
   \<and> calls (snd (CreateStorage world_endpoint_refused fresh))
     = [CheckNameAvailability ''imageregistrymyclusb2c4d'',
        AccountsCreate ''imageregistrymyclusb2c4d'',
        PrivateEndpointsCreate ''imageregistrymyclusf5g6h'']
   \<and> fst (assureStorageAccount world_endpoint_refused cfg0 infra0
            (snd (CreateStorage world_endpoint_refused fresh)))
     = Returned (''imageregistrymyclusj7k8l'', True, None)
   \<and> fst (assureContainer world_endpoint_refused cfg0
            ((snd (assureStorageAccount world_endpoint_refused cfg0 infra0
                    (snd (CreateStorage world_endpoint_refused fresh))))
             \<lparr>Config := \<lparr>AccountName = ''imageregistrymyclusj7k8l'', Container = '''',
                          CloudName = ''''\<rparr>\<rparr>))
     = (''my-cluster-x7-image-registry-vbkws'', True, None)
   \<and> issued (snd (CreateStorage world_endpoint_refused fresh))
        (snd (CreateStorage world_endpoint_refused (snd (CreateStorage world_endpoint_refused fresh))))
     = [CheckNameAvailability ''imageregistrymyclusj7k8l'',
        AccountsCreate ''imageregistrymyclusj7k8l'',
        PrivateEndpointsCreate ''imageregistrymyclusj7k8l'',
        PrivateZonesCreate ''privatelink.blob.core.windows.net'',
        InterfacesGet ''imageregistrymyclusj7k8l-nic'',
        RecordSetsCreate ''privatelink.blob.core.windows.net'' ''imageregistrymyclusj7k8l'',
        PrivateDNSZoneGroupsCreate ''imageregistrymyclusj7k8l'' ''privatelink-blob-core-windows-net'',
        VirtualNetworkLinksCreate ''privatelink.blob.core.windows.net'' ''whatever123'',
        PrimaryKeyGet ''imageregistrymyclusj7k8l'',
        ContainerCreate ''imageregistrymyclusj7k8l'' ''my-cluster-x7-image-registry-vbkws'']"
  by code_simp

text \<open>
  C8, amended. Let a first run of the provisioning path of \<open>CreateStorage\<close> (no account
  key in the configuration) have succeeded and recorded a container name that is not
  empty, and let the provider on the second run report the recorded account name as
  unavailable, return a key for it that makes a credential, and report the recorded
  container as existing. Then, on the second run, \<open>assureStorageAccount\<close> returns the
  recorded account name with created = false and \<open>assureContainer\<close> returns the recorded
  container name with created = false, both without error; \<open>CreateStorage\<close> returns no
  error and leaves the recorded names as they are; and the second run sends the probe,
  the key request and the container lookup only: no creation.
\<close>

theorem C8_second_run_after_success:
  assumes config: "GetConfig w = Inr cfg" "AccountKey cfg = ''''"
      and infra: "GetInfrastructure w = Inr infra"
      and first: "CreateStorage w s = (Returned None, s')"
      and names: "AccountName (Config s') = a" "Container (Config s') = c" "c \<noteq> ''''"
      and probe: "checkNameAvailability w (calls s') a = Inr (Some False)"
      and key: "primaryKeyGet w (calls s' @ [CheckNameAvailability a]) (ResourceGroup cfg) a = Inr key"
      and credential: "NewSharedKeyCredential w a key = None"
      and container:
        "containerGetProperties w (calls s' @ [CheckNameAvailability a, PrimaryKeyGet a]) a key c = None"
  shows "assureStorageAccount w cfg infra s'
           = (Returned (a, False, None), issue s' (CheckNameAvailability a))
       \<and> assureContainer w cfg (issue s' (CheckNameAvailability a))
           = ((c, False, None),
              issue (issue (issue s' (CheckNameAvailability a)) (PrimaryKeyGet a))
                (ContainerGetProperties a c))
       \<and> fst (CreateStorage w s') = Returned None
       \<and> Config (snd (CreateStorage w s')) = Config s'
       \<and> issued s' (snd (CreateStorage w s'))
           = [CheckNameAvailability a, PrimaryKeyGet a, ContainerGetProperties a c]"
proof -
  let ?s0 = "CreateStorage_cloudName infra s"
  from first config infra have "CreateStorage_account w cfg infra ?s0 = (Returned None, s')"
    by (simp add: CreateStorage_stages)
  from CreateStorage_account_success [OF this]
  obtain env where env: "getEnvironmentByName w (CloudName (Config s')) = Inr env"
      and client: "storageAccountsClient w cfg env = None"
      and a: "a \<noteq> ''''"
      and url: "getBlobServiceURL w env a = None"
    using names(1) resolvedAccountName_not_empty [of w infra ?s0] by auto
  let ?s1 = "issue s' (CheckNameAvailability a)"
  let ?s3 = "issue (issue ?s1 (PrimaryKeyGet a)) (ContainerGetProperties a c)"
  have account: "assureStorageAccount w cfg infra s' = (Returned (a, False, None), ?s1)"
    using env client a names(1) probe
    by (auto simp: assureStorageAccount_stages resolvedAccountName_def split: prod.split)
  have cont: "assureContainer w cfg ?s1 = ((c, False, None), ?s3)"
    using env client a names key credential url container
    by (simp add: assureContainer_def containerExists_def getAccountPrimaryKey_def Let_def)
  have same: "?s1\<lparr>Config := (Config ?s1)\<lparr>AccountName := a\<rparr>\<rparr> = ?s1"
    using names(1) by (cases s', cases "Config s'") (simp add: issue_def)
  have "CreateStorage w s' = CreateStorage_account w cfg infra s'"
    using config infra a names(1)
    by (simp add: CreateStorage_stages CreateStorage_cloudName_recorded)
  also have "\<dots> = CreateStorage_container w cfg a False ?s1"
    using account by (simp add: CreateStorage_account_def)
  also have "\<dots> = (Returned None, CreateStorage_finish False c False ?s3)"
    unfolding CreateStorage_container_def same cont by simp
  finally have run: "CreateStorage w s' = (Returned None, CreateStorage_finish False c False ?s3)" .
  have cfg': "Config (snd (CreateStorage w s')) = Config s'"
    using names(2) by (simp add: run CreateStorage_finish_Config)
  from account cont run cfg' show ?thesis
    by (simp add: issued_def CreateStorage_finish_Config)
qed


theorem C8_second_run_after_success_witness:
  "fst (CreateStorage world0 fresh) = Returned None
   \<and> Config (snd (CreateStorage world0 fresh))
     = \<lparr>AccountName = ''imageregistrymyclusb2c4d'',
        Container = ''my-cluster-x7-image-registry-vbkws'', CloudName = ''''\<rparr>
   \<and> fst (assureStorageAccount world0 cfg0 infra0 (snd (CreateStorage world0 fresh)))
     = Returned (''imageregistrymyclusb2c4d'', False, None)
   \<and> fst (assureContainer world0 cfg0
            (issue (snd (CreateStorage world0 fresh))
               (CheckNameAvailability ''imageregistrymyclusb2c4d'')))
     = (''my-cluster-x7-image-registry-vbkws'', False, None)
   \<and> fst (CreateStorage world0 (snd (CreateStorage world0 fresh))) = Returned None
   \<and> issued (snd (CreateStorage world0 fresh))
        (snd (CreateStorage world0 (snd (CreateStorage world0 fresh))))
     = [CheckNameAvailability ''imageregistrymyclusb2c4d'',
        PrimaryKeyGet ''imageregistrymyclusb2c4d'',
        ContainerGetProperties ''imageregistrymyclusb2c4d'' ''my-cluster-x7-image-registry-vbkws'']"
proof -
  let ?s' = "snd (CreateStorage world0 fresh)"
  let ?a = "''imageregistrymyclusb2c4d''"
  let ?c = "''my-cluster-x7-image-registry-vbkws''"
  have h1: "GetConfig world0 = Inr cfg0" "AccountKey cfg0 = ''''" by code_simp+
  have h2: "GetInfrastructure world0 = Inr infra0" by code_simp
  have f: "fst (CreateStorage world0 fresh) = Returned None" by code_simp
  then have h3: "CreateStorage world0 fresh = (Returned None, ?s')"
    by (cases "CreateStorage world0 fresh") simp
  have k: "Config ?s' = \<lparr>AccountName = ?a, Container = ?c, CloudName = ''''\<rparr>"
    by code_simp
  have h4: "AccountName (Config ?s') = ?a" "Container (Config ?s') = ?c" "?c \<noteq> ''''"
    by (simp_all add: k)
  have h5: "checkNameAvailability world0 (calls ?s') ?a = Inr (Some False)" by code_simp
  have h6: "primaryKeyGet world0 (calls ?s' @ [CheckNameAvailability ?a]) (ResourceGroup cfg0) ?a
              = Inr ''a2V5''"
    by code_simp
  have h7: "NewSharedKeyCredential world0 ?a ''a2V5'' = None" by code_simp
  have h8: "containerGetProperties world0
              (calls ?s' @ [CheckNameAvailability ?a, PrimaryKeyGet ?a]) ?a ''a2V5'' ?c = None"
    by code_simp
  from C8_second_run_after_success [OF h1 h2 h3 h4 h5 h6 h7 h8] f k
  show ?thesis by simp
qed

end
